(* ===== verification/Prelude.thy ===== *)
theory Prelude
  imports Main "HOL-Library.Word"
begin

text \<open>
  Shared vocabulary of the development.  The bootstrap of \<open>monitord\<close>
  (\<open>src/monitord/main.c\<close>) is one C function whose statements either continue or
  end the process (\<open>exit\<close>, \<open>merror_exit\<close>).  A statement is therefore modelled
  as a function from the state to an \<open>exn\<close> value: \<open>Inr s\<close> when control falls
  through to the next statement, \<open>Inl (r, s)\<close> when the process ends with reason
  \<open>r\<close> in state \<open>s\<close> (the final state is kept so that the calls made before the
  exit stay observable).  \<open>bindE\<close> is the C statement sequence.  The theory also
  collects the word facts used for the C integer casts of the configuration values.
\<close>

named_theorems boot_defs "definitions of bootstrap statements unfolded when a run is evaluated"

type_synonym ('e, 's) exn = "('e \<times> 's) + 's"

definition bindE :: "('e, 's) exn \<Rightarrow> ('s \<Rightarrow> ('e, 's) exn) \<Rightarrow> ('e, 's) exn" where
  "bindE r f = (case r of Inl e \<Rightarrow> Inl e | Inr s \<Rightarrow> f s)"

text \<open>A property of the state kept by every statement that falls through.\<close>

definition keeps :: "('s \<Rightarrow> bool) \<Rightarrow> ('s \<Rightarrow> ('e, 's) exn) \<Rightarrow> bool" where
  "keeps P f \<longleftrightarrow> (\<forall>s t. P s \<longrightarrow> f s = Inr t \<longrightarrow> P t)"

subsection \<open>Statement sequencing\<close>

lemma bindE_Inr [simp]: "bindE (Inr s) f = f s"
  by (simp add: bindE_def)

lemma bindE_Inl [simp]: "bindE (Inl e) f = Inl e"
  by (simp add: bindE_def)

lemma bindE_eq_Inr_iff: "bindE r f = Inr t \<longleftrightarrow> (\<exists>s. r = Inr s \<and> f s = Inr t)"
  by (cases r) auto

lemma bindE_eq_Inl_iff:
  "bindE r f = Inl e \<longleftrightarrow> r = Inl e \<or> (\<exists>s. r = Inr s \<and> f s = Inl e)"
  by (cases r) auto

lemma bindE_assoc: "bindE (bindE r f) g = bindE r (\<lambda>s. bindE (f s) g)"
  by (cases r) auto

lemma keepsI: "(\<And>s t. P s \<Longrightarrow> f s = Inr t \<Longrightarrow> P t) \<Longrightarrow> keeps P f"
  by (auto simp: keeps_def)

lemma keepsD: "keeps P f \<Longrightarrow> P s \<Longrightarrow> f s = Inr t \<Longrightarrow> P t"
  by (auto simp: keeps_def)

lemma keeps_bindE:
  assumes f: "keeps P f" and g: "\<And>s. P s \<Longrightarrow> keeps P (g s)"
  shows "keeps P (\<lambda>s. bindE (f s) (g s))"
proof (rule keepsI)
  fix s t
  assume P: "P s" and run: "bindE (f s) (g s) = Inr t"
  then obtain u where u: "f s = Inr u" and gu: "g s u = Inr t"
    by (auto simp: bindE_eq_Inr_iff)
  from f P u have "P u" by (rule keepsD)
  from g [OF P] this gu show "P t" by (rule keepsD)
qed

subsection \<open>C integer casts\<close>

text \<open>
  \<open>(unsigned short) v\<close> and \<open>(short) v\<close> are \<open>word_of_int v :: 16 word\<close>, read back
  with \<open>uint\<close> and \<open>sint\<close>; a value in range survives the cast.
\<close>

lemma uint_word_of_int_in_range:
  "0 \<le> v \<Longrightarrow> v < 2 ^ LENGTH('a) \<Longrightarrow> uint (word_of_int v :: 'a::len word) = v"
  by (simp add: uint_word_of_int_eq take_bit_int_eq_self)

lemma sint_word_of_int_in_range:
  "- (2 ^ (LENGTH('a) - 1)) \<le> v \<Longrightarrow> v < 2 ^ (LENGTH('a) - 1) \<Longrightarrow>
   sint (word_of_int v :: 'a::len word) = v"
  by (simp add: sint_sbintrunc' signed_take_bit_int_eq_self)

lemma sint16_word_of_int:
  "- 32768 \<le> v \<Longrightarrow> v < 32768 \<Longrightarrow> sint (word_of_int v :: 16 word) = v"
  using sint_word_of_int_in_range [where 'a = 16, of v] by simp

lemma uint16_word_of_int:
  "0 \<le> v \<Longrightarrow> v < 65536 \<Longrightarrow> uint (word_of_int v :: 16 word) = v"
  using uint_word_of_int_in_range [where 'a = 16, of v] by simp

lemma sint32_word_of_int:
  "- 2147483648 \<le> v \<Longrightarrow> v < 2147483648 \<Longrightarrow> sint (word_of_int v :: 32 word) = v"
  using sint_word_of_int_in_range [where 'a = 32, of v] by simp

end
