(* ===== verification/Process.thy ===== *)
theory Process
  imports Prelude
begin

text \<open>
  The process and its operating system, shared by every component of the bootstrap.
  \<^item> \<open>world\<close>: what the environment answers and never changes during the bootstrap:
    the user and group databases, the internal-options file, the configuration file
    (as seen by \<open>ReadConfig\<close> and by the XML reader), name resolution, the existing
    directories, the process id, and a fault oracle \<open>w_fault\<close> that makes any single
    system call fail for reasons outside the model (I/O errors, resource limits).
  \<^item> \<open>proc\<close>: the state that the bootstrap changes: the credentials and root
    directory of the process, its signal handlers, the PID markers, the global
    variables of the program (\<open>mond\<close>, the debug, daemon and chroot flags), the
    heap of strings allocated by the XML reader and the resolver, and the trace of
    system calls and log lines in the order they were made.
  The library functions the bootstrap calls (\<open>Privsep_*\<close>, \<open>CreatePID\<close>,
  \<open>StartSIG\<close>, \<open>goDaemon\<close>, \<open>getDefine_Int\<close>, \<open>ReadConfig\<close>, \<open>OS_*XML\<close>,
  \<open>OS_GetHost\<close>) live outside \<open>src/\<close>; they are modelled here from their contract in
  the specification, each recording its call in the trace.
\<close>

type_synonym uid_t = "32 word"
type_synonym gid_t = "32 word"
type_synonym ptr = nat
type_synonym xml_doc = "string list \<rightharpoonup> string"

datatype signal = SIGHUP | SIGINT | SIGTERM

datatype sig_action = Sig_terminate | Sig_reload

datatype log_level = L_debug1 | L_info | L_error

datatype log_msg =
    STARTED_MSG
  | INVALID_SMTP string
  | SMTP_INVALID_DISABLING
  | SMTP_MISSING_DISABLING
  | PRIVSEP_MSG string string
  | STARTUP_MSG nat

datatype config_section = CREPORTS

datatype syscall =
    Sys_getpwnam string
  | Sys_getgrnam string
  | Sys_read_config "config_section set" string
  | Sys_read_xml string
  | Sys_clear_xml
  | Sys_get_host string nat
  | Sys_fork
  | Sys_setgid gid_t
  | Sys_chroot string
  | Sys_setuid uid_t
  | Sys_start_sig string
  | Sys_create_pid string nat
  | Sys_log log_level log_msg
  | Sys_exit int

text \<open>The reasons for which \<open>main\<close> ends before the work loop.\<close>

datatype fatal_error =
    Missing_arg char
  | User_error string string
  | Define_error string string
  | Config_error string
  | Daemon_error
  | Setgid_error string
  | Chroot_error string
  | Setuid_error string
  | Pid_error

datatype exit_reason = Fatal fatal_error | Help | Version | Test_ok

fun exit_code :: "exit_reason \<Rightarrow> int" where
  "exit_code (Fatal _) = 1"
| "exit_code Help = 1"
| "exit_code Version = 1"
| "exit_code Test_ok = 0"

record world =
  w_users :: "string \<rightharpoonup> uid_t"
  w_groups :: "string \<rightharpoonup> gid_t"
  w_defines :: "string \<Rightarrow> string \<Rightarrow> int option"
  w_reports :: "string \<rightharpoonup> bool"
  w_xml :: "string \<rightharpoonup> xml_doc"
  w_hosts :: "string \<rightharpoonup> string"
  w_dirs :: "string set"
  w_fault :: "syscall \<Rightarrow> bool"
  w_pid :: nat

text \<open>The global \<open>mond\<close> of type \<open>monitor_config\<close>, with the C field types.\<close>

record monitor_config =
  a_queue :: int
  day_wait :: "16 word"
  compress :: "16 word"
  sign :: "16 word"
  monitor_agents :: "16 word"
  keep_log_days :: "32 word"
  agents :: "ptr option"
  smtpserver :: "ptr option"
  emailfrom :: "ptr option"
  emailidsname :: "ptr option"
  reports :: bool

definition mond_zero :: monitor_config where
  "mond_zero = \<lparr>a_queue = 0, day_wait = 0, compress = 0, sign = 0, monitor_agents = 0,
     keep_log_days = 0, agents = None, smtpserver = None, emailfrom = None,
     emailidsname = None, reports = False\<rparr>"

record proc =
  cur_uid :: uid_t
  cur_gid :: gid_t
  root_dir :: string
  detached :: bool
  handlers :: "signal \<rightharpoonup> sig_action"
  pid_files :: "string \<rightharpoonup> nat"
  proc_name :: string
  dbg_flag :: nat
  daemon_flag :: bool
  chroot_flag :: bool
  mond :: monitor_config
  heap :: "ptr \<rightharpoonup> string"
  next_ptr :: ptr
  xml_open :: bool
  trace :: "syscall list"

text \<open>
  A process as \<open>exec\<close> starts it under \<open>root\<close>: uid and gid 0, the real root
  directory, default signal dispositions, no PID marker, and the globals of the
  program zero-initialised as C does for static storage.
\<close>

definition proc_start :: proc where
  "proc_start = \<lparr>cur_uid = 0, cur_gid = 0, root_dir = ''/'', detached = False,
     handlers = Map.empty, pid_files = Map.empty, proc_name = [], dbg_flag = 0,
     daemon_flag = False, chroot_flag = False, mond = mond_zero, heap = Map.empty,
     next_ptr = 0, xml_open = False, trace = []\<rparr>"

subsection \<open>Trace, logging and exit\<close>

definition emit :: "syscall \<Rightarrow> 'a proc_scheme \<Rightarrow> 'a proc_scheme" where
  "emit e s = s\<lparr>trace := trace s @ [e]\<rparr>"

definition merror :: "log_msg \<Rightarrow> 'a proc_scheme \<Rightarrow> 'a proc_scheme" where
  "merror m s = emit (Sys_log L_error m) s"

definition mdebug1 :: "log_msg \<Rightarrow> 'a proc_scheme \<Rightarrow> 'a proc_scheme" where
  "mdebug1 m s = emit (Sys_log L_debug1 m) s"

definition minfo :: "log_msg \<Rightarrow> 'a proc_scheme \<Rightarrow> 'a proc_scheme" where
  "minfo m s = emit (Sys_log L_info m) s"

text \<open>\<open>merror_exit\<close>, \<open>exit\<close>: the process ends; the exit code is the last event.\<close>

definition exit_with :: "exit_reason \<Rightarrow> 'a proc_scheme \<Rightarrow> (exit_reason, 'a proc_scheme) exn" where
  "exit_with r s = Inl (r, emit (Sys_exit (exit_code r)) s)"

subsection \<open>Heap of strings\<close>

text \<open>
  \<open>malloc\<close>'d copies of strings (\<open>strdup\<close>) get a fresh address; \<open>free\<close> removes
  the block.  A pointer is \<open>ptr option\<close>, \<open>None\<close> being \<open>NULL\<close>.  Every live
  block lies below \<open>next_ptr\<close>, so a fresh block never aliases a live one.
\<close>

definition os_strdup :: "string \<Rightarrow> 'a proc_scheme \<Rightarrow> ptr \<times> 'a proc_scheme" where
  "os_strdup str s =
     (next_ptr s, s\<lparr>heap := (heap s)(next_ptr s \<mapsto> str), next_ptr := Suc (next_ptr s)\<rparr>)"

definition os_free :: "ptr \<Rightarrow> 'a proc_scheme \<Rightarrow> 'a proc_scheme" where
  "os_free p s = s\<lparr>heap := (heap s)(p := None)\<rparr>"

text \<open>The idiom \<open>if (p) free(p);\<close>.\<close>

definition free_opt :: "ptr option \<Rightarrow> 'a proc_scheme \<Rightarrow> 'a proc_scheme" where
  "free_opt p s = (case p of None \<Rightarrow> s | Some q \<Rightarrow> os_free q s)"

text \<open>The string at a live pointer (a dangling one reads as the empty string).\<close>

definition deref :: "'a proc_scheme \<Rightarrow> ptr \<Rightarrow> string" where
  "deref s p = (case heap s p of None \<Rightarrow> [] | Some str \<Rightarrow> str)"

definition heap_wf :: "'a proc_scheme \<Rightarrow> bool" where
  "heap_wf s \<longleftrightarrow> (\<forall>p\<in>dom (heap s). p < next_ptr s)"

subsection \<open>Library calls, from their contracts\<close>

text \<open>
  \<open>Privsep_GetUser\<close> and \<open>Privsep_GetGroup\<close> return the id, or \<open>(uid_t) -1\<close> when
  the name is unknown.  The privilege calls follow POSIX: \<open>Privsep_SetGroup\<close> calls
  \<open>setgroups\<close> before \<open>setgid\<close>, and \<open>setgroups\<close> and
  \<open>chroot\<close> need an effective uid of 0, \<open>setuid\<close> needs uid 0 or the same uid;
  \<open>chroot\<close> also needs the directory to exist.  Each returns 0 or -1.
\<close>

definition Privsep_GetUser :: "world \<Rightarrow> string \<Rightarrow> 'a proc_scheme \<Rightarrow> uid_t \<times> 'a proc_scheme" where
  "Privsep_GetUser w name s =
     ((case w_users w name of None \<Rightarrow> -1 | Some u \<Rightarrow> u), emit (Sys_getpwnam name) s)"

definition Privsep_GetGroup :: "world \<Rightarrow> string \<Rightarrow> 'a proc_scheme \<Rightarrow> gid_t \<times> 'a proc_scheme" where
  "Privsep_GetGroup w name s =
     ((case w_groups w name of None \<Rightarrow> -1 | Some g \<Rightarrow> g), emit (Sys_getgrnam name) s)"

definition Privsep_SetGroup :: "world \<Rightarrow> gid_t \<Rightarrow> 'a proc_scheme \<Rightarrow> int \<times> 'a proc_scheme" where
  "Privsep_SetGroup w g s =
     (let s' = emit (Sys_setgid g) s in
      if cur_uid s = 0 \<and> \<not> w_fault w (Sys_setgid g)
      then (0, s'\<lparr>cur_gid := g\<rparr>) else (-1, s'))"

definition Privsep_Chroot :: "world \<Rightarrow> string \<Rightarrow> 'a proc_scheme \<Rightarrow> int \<times> 'a proc_scheme" where
  "Privsep_Chroot w d s =
     (let s' = emit (Sys_chroot d) s in
      if cur_uid s = 0 \<and> d \<in> w_dirs w \<and> \<not> w_fault w (Sys_chroot d)
      then (0, s'\<lparr>root_dir := d\<rparr>) else (-1, s'))"

definition Privsep_SetUser :: "world \<Rightarrow> uid_t \<Rightarrow> 'a proc_scheme \<Rightarrow> int \<times> 'a proc_scheme" where
  "Privsep_SetUser w u s =
     (let s' = emit (Sys_setuid u) s in
      if (cur_uid s = 0 \<or> cur_uid s = u) \<and> \<not> w_fault w (Sys_setuid u)
      then (0, s'\<lparr>cur_uid := u\<rparr>) else (-1, s'))"

text \<open>\<open>goDaemon\<close> forks and detaches; a failed fork ends the process.\<close>

definition goDaemon :: "world \<Rightarrow> 'a proc_scheme \<Rightarrow> (exit_reason, 'a proc_scheme) exn" where
  "goDaemon w s =
     (let s' = emit Sys_fork s in
      if w_fault w Sys_fork then exit_with (Fatal Daemon_error) s' else Inr (s'\<lparr>detached := True\<rparr>))"

text \<open>\<open>StartSIG\<close> installs the static handler table: termination and reload.\<close>

definition sig_table :: "signal \<rightharpoonup> sig_action" where
  "sig_table = [SIGTERM \<mapsto> Sig_terminate, SIGINT \<mapsto> Sig_terminate, SIGHUP \<mapsto> Sig_reload]"

definition StartSIG :: "string \<Rightarrow> 'a proc_scheme \<Rightarrow> 'a proc_scheme" where
  "StartSIG name s = (emit (Sys_start_sig name) s)\<lparr>handlers := handlers s ++ sig_table\<rparr>"

text \<open>\<open>CreatePID\<close> fails on an existing marker for the label or on an I/O fault.\<close>

definition CreatePID :: "world \<Rightarrow> string \<Rightarrow> nat \<Rightarrow> 'a proc_scheme \<Rightarrow> int \<times> 'a proc_scheme" where
  "CreatePID w name pid s =
     (let s' = emit (Sys_create_pid name pid) s in
      if name \<in> dom (pid_files s) \<or> w_fault w (Sys_create_pid name pid) then (-1, s')
      else (0, s'\<lparr>pid_files := (pid_files s)(name \<mapsto> pid)\<rparr>))"

text \<open>\<open>getDefine_Int\<close>: a missing or out-of-range internal option is fatal (\<open>None\<close>).\<close>

definition getDefine_Int :: "world \<Rightarrow> string \<Rightarrow> string \<Rightarrow> int \<Rightarrow> int \<Rightarrow> int option" where
  "getDefine_Int w high low mn mx =
     (case w_defines w high low of
        None \<Rightarrow> None
      | Some v \<Rightarrow> if v < mn \<or> mx < v then None else Some v)"

text \<open>
  \<open>ReadConfig\<close> with the \<open>CREPORTS\<close> flag parses the reports section only, so of
  \<open>mond\<close> it writes the \<open>reports\<close> field; -1 when the file does not parse.
\<close>

definition ReadConfig :: "world \<Rightarrow> config_section set \<Rightarrow> string \<Rightarrow> 'a proc_scheme \<Rightarrow> int \<times> 'a proc_scheme" where
  "ReadConfig w flags path s =
     (let s' = emit (Sys_read_config flags path) s in
      case w_reports w path of
        None \<Rightarrow> (-1, s')
      | Some r \<Rightarrow> (0, s'\<lparr>mond := (mond s')\<lparr>reports := r\<rparr>\<rparr>))"

definition OS_ReadXML :: "world \<Rightarrow> string \<Rightarrow> 'a proc_scheme \<Rightarrow> xml_doc option \<times> 'a proc_scheme" where
  "OS_ReadXML w path s =
     (let s' = emit (Sys_read_xml path) s in
      case w_xml w path of
        None \<Rightarrow> (None, s')
      | Some d \<Rightarrow> (Some d, s'\<lparr>xml_open := True\<rparr>))"

definition OS_ClearXML :: "'a proc_scheme \<Rightarrow> 'a proc_scheme" where
  "OS_ClearXML s = (emit Sys_clear_xml s)\<lparr>xml_open := False\<rparr>"

text \<open>The content of the element at a path, as a fresh \<open>malloc\<close>'d string, or \<open>NULL\<close>.\<close>

definition OS_GetOneContentforElement ::
  "xml_doc \<Rightarrow> string list \<Rightarrow> 'a proc_scheme \<Rightarrow> ptr option \<times> 'a proc_scheme" where
  "OS_GetOneContentforElement d path s =
     (case d path of
        None \<Rightarrow> (None, s)
      | Some str \<Rightarrow> (let (p, s') = os_strdup str s in (Some p, s')))"

text \<open>\<open>OS_GetHost\<close> resolves the string at a pointer into a fresh address string.\<close>

definition OS_GetHost :: "world \<Rightarrow> ptr \<Rightarrow> nat \<Rightarrow> 'a proc_scheme \<Rightarrow> ptr option \<times> 'a proc_scheme" where
  "OS_GetHost w p attempts s =
     (case heap s p of
        None \<Rightarrow> (None, s)
      | Some host \<Rightarrow>
          (let s' = emit (Sys_get_host host attempts) s in
           case w_hosts w host of
             None \<Rightarrow> (None, s')
           | Some addr \<Rightarrow> (let (q, s'') = os_strdup addr s' in (Some q, s''))))"

subsection \<open>Facts on the trace and the heap\<close>

lemma trace_emit [simp]: "trace (emit e s) = trace s @ [e]"
  by (simp add: emit_def)

lemma trace_logs [simp]:
  "trace (merror m s) = trace s @ [Sys_log L_error m]"
  "trace (mdebug1 m s) = trace s @ [Sys_log L_debug1 m]"
  "trace (minfo m s) = trace s @ [Sys_log L_info m]"
  by (simp_all add: merror_def mdebug1_def minfo_def)

lemma exit_with_eq_Inl_iff [simp]:
  "exit_with r s = Inl (r', t) \<longleftrightarrow> r' = r \<and> t = emit (Sys_exit (exit_code r)) s"
  by (auto simp: exit_with_def)

lemma exit_with_not_Inr [simp]: "exit_with r s \<noteq> Inr t"
  by (simp add: exit_with_def)

lemma os_strdup_heap:
  "os_strdup str s = (p, t) \<Longrightarrow>
   p = next_ptr s \<and> heap t = (heap s)(p \<mapsto> str) \<and> next_ptr t = Suc p"
  by (auto simp: os_strdup_def)

lemma heap_wf_os_strdup: "heap_wf s \<Longrightarrow> os_strdup str s = (p, t) \<Longrightarrow> heap_wf t"
  by (auto simp: heap_wf_def os_strdup_def domI less_SucI split: if_splits)

lemma heap_wf_os_free: "heap_wf s \<Longrightarrow> heap_wf (os_free p s)"
  by (auto simp: heap_wf_def os_free_def)

lemma heap_wf_above:
  assumes wf: "heap_wf s" and above: "next_ptr s \<le> p"
  shows "heap s p = None"
proof (rule ccontr)
  assume "heap s p \<noteq> None"
  then have "p \<in> dom (heap s)" by auto
  with wf have "p < next_ptr s" by (simp add: heap_wf_def)
  with above show False by simp
qed

lemma heap_wf_fresh: "heap_wf s \<Longrightarrow> heap s (next_ptr s) = None"
  by (simp add: heap_wf_above)

end
