(* ===== verification/Lifecycle.thy ===== *)
theory Lifecycle
  imports Process "HOL-Library.Product_Lexorder"
begin

text \<open>
  The abstract lifecycle of the bootstrap (specification, 4.8): after the
  configuration is loaded the process may detach, then must change group, confine
  its root, change user, arm its signal handlers and register its PID marker, in
  this order, and may end at any point before the work loop.  The machine reads
  only the lifecycle system calls of a trace (\<open>lc_proj\<close>): a state is the last
  lifecycle call attempted, so an attempt that fails is followed by the exit.
  \<open>lc_step\<close> is the labelled step relation, \<open>lc_run\<close> its closure over an event
  list; the orchestrator is shown to refine it in the root theory.  \<open>silent\<close> is the
  interface a bootstrap statement meets when it makes no lifecycle call but may exit;
  \<open>fatal_exits\<close> the one it meets when every exit it takes has code 1.  \<open>lc_next\<close> is
  the machine as an executable checker, equivalent to \<open>lc_step\<close>, and phases are
  linearly ordered so that every run passes through strictly increasing phases.
\<close>

datatype phase =
    Configured
  | Daemonized
  | Gid_dropped
  | Confined
  | Uid_dropped
  | Signals_armed
  | Registered
  | Exited int

fun is_exited :: "phase \<Rightarrow> bool" where
  "is_exited (Exited _) = True"
| "is_exited _ = False"

inductive lc_step :: "phase \<Rightarrow> syscall \<Rightarrow> phase \<Rightarrow> bool" where
  fork: "lc_step Configured Sys_fork Daemonized"
| setgid_fg: "lc_step Configured (Sys_setgid g) Gid_dropped"
| setgid: "lc_step Daemonized (Sys_setgid g) Gid_dropped"
| chroot: "lc_step Gid_dropped (Sys_chroot d) Confined"
| setuid: "lc_step Confined (Sys_setuid u) Uid_dropped"
| signals: "lc_step Uid_dropped (Sys_start_sig n) Signals_armed"
| pidfile: "lc_step Signals_armed (Sys_create_pid n p) Registered"
| exit: "\<not> is_exited ph \<Longrightarrow> lc_step ph (Sys_exit c) (Exited c)"

inductive lc_run :: "phase \<Rightarrow> syscall list \<Rightarrow> phase \<Rightarrow> bool" where
  nil: "lc_run ph [] ph"
| cons: "lc_step ph e ph' \<Longrightarrow> lc_run ph' es ph'' \<Longrightarrow> lc_run ph (e # es) ph''"

fun lc_event :: "syscall \<Rightarrow> bool" where
  "lc_event Sys_fork = True"
| "lc_event (Sys_setgid _) = True"
| "lc_event (Sys_chroot _) = True"
| "lc_event (Sys_setuid _) = True"
| "lc_event (Sys_start_sig _) = True"
| "lc_event (Sys_create_pid _ _) = True"
| "lc_event (Sys_exit _) = True"
| "lc_event _ = False"

definition lc_proj :: "syscall list \<Rightarrow> syscall list" where
  "lc_proj es = filter lc_event es"

text \<open>The privilege-changing calls alone.\<close>

fun priv_event :: "syscall \<Rightarrow> bool" where
  "priv_event (Sys_setgid _) = True"
| "priv_event (Sys_chroot _) = True"
| "priv_event (Sys_setuid _) = True"
| "priv_event _ = False"

text \<open>
  A statement is \<open>silent\<close> when it adds no lifecycle call to the trace, except the
  final \<open>exit\<close> with the code of its reason when it ends the process.
\<close>

definition silent :: "('a proc_scheme \<Rightarrow> (exit_reason, 'a proc_scheme) exn) \<Rightarrow> bool" where
  "silent f \<longleftrightarrow>
     (\<forall>s t. f s = Inr t \<longrightarrow> lc_proj (trace t) = lc_proj (trace s)) \<and>
     (\<forall>s r t. f s = Inl (r, t) \<longrightarrow> lc_proj (trace t) = lc_proj (trace s) @ [Sys_exit (exit_code r)])"

text \<open>A statement \<open>fatal_exits\<close> when every exit it takes has code 1: it can end the
  process only through \<open>merror_exit\<close>, never through the code 0 of \<open>-t\<close>.\<close>

definition fatal_exits :: "('a proc_scheme \<Rightarrow> (exit_reason, 'a proc_scheme) exn) \<Rightarrow> bool" where
  "fatal_exits f \<longleftrightarrow> (\<forall>s r t. f s = Inl (r, t) \<longrightarrow> exit_code r = 1)"

text \<open>The phase in which a bootstrap outcome leaves the machine.\<close>

fun outcome_phase :: "(exit_reason, 'a) exn \<Rightarrow> phase" where
  "outcome_phase (Inl (r, _)) = Exited (exit_code r)"
| "outcome_phase (Inr _) = Registered"

fun outcome_state :: "(exit_reason, 'a) exn \<Rightarrow> 'a" where
  "outcome_state (Inl (_, s)) = s"
| "outcome_state (Inr s) = s"

text \<open>The phases in the order of the machine, exits last: \<open>phase\<close> is a linear order, so
  that a run can be read as a sorted list of phases.\<close>

fun phase_key :: "phase \<Rightarrow> nat \<times> int" where
  "phase_key Configured = (0, 0)"
| "phase_key Daemonized = (1, 0)"
| "phase_key Gid_dropped = (2, 0)"
| "phase_key Confined = (3, 0)"
| "phase_key Uid_dropped = (4, 0)"
| "phase_key Signals_armed = (5, 0)"
| "phase_key Registered = (6, 0)"
| "phase_key (Exited c) = (7, c)"

text \<open>The machine as an executable step function, the way a checker runs it.\<close>

fun lc_next :: "phase \<Rightarrow> syscall \<Rightarrow> phase option" where
  "lc_next Configured Sys_fork = Some Daemonized"
| "lc_next Configured (Sys_setgid g) = Some Gid_dropped"
| "lc_next Daemonized (Sys_setgid g) = Some Gid_dropped"
| "lc_next Gid_dropped (Sys_chroot d) = Some Confined"
| "lc_next Confined (Sys_setuid u) = Some Uid_dropped"
| "lc_next Uid_dropped (Sys_start_sig n) = Some Signals_armed"
| "lc_next Signals_armed (Sys_create_pid n p) = Some Registered"
| "lc_next ph (Sys_exit c) = (if is_exited ph then None else Some (Exited c))"
| "lc_next _ _ = None"

text \<open>The phases a list of lifecycle calls passes through, as far as the machine
  accepts them.\<close>

fun lc_trace :: "phase \<Rightarrow> syscall list \<Rightarrow> phase list" where
  "lc_trace a [] = []"
| "lc_trace a (e # es) = (case lc_next a e of None \<Rightarrow> [] | Some b \<Rightarrow> b # lc_trace b es)"

instantiation phase :: linorder
begin

definition less_eq_phase :: "phase \<Rightarrow> phase \<Rightarrow> bool" where
  "a \<le> b \<longleftrightarrow> phase_key a \<le> phase_key b"

definition less_phase :: "phase \<Rightarrow> phase \<Rightarrow> bool" where
  "a < b \<longleftrightarrow> phase_key a < phase_key b"

instance
proof
  have inj: "phase_key a = phase_key b \<Longrightarrow> a = b" for a b
    by (cases a; cases b) auto
  fix x y z :: phase
  show "x < y \<longleftrightarrow> x \<le> y \<and> \<not> y \<le> x" by (auto simp: less_eq_phase_def less_phase_def)
  show "x \<le> x" by (simp add: less_eq_phase_def)
  show "x \<le> y \<Longrightarrow> y \<le> z \<Longrightarrow> x \<le> z" by (simp add: less_eq_phase_def)
  show "x \<le> y \<Longrightarrow> y \<le> x \<Longrightarrow> x = y" by (simp add: less_eq_phase_def inj)
  show "x \<le> y \<or> y \<le> x" by (auto simp: less_eq_phase_def)
qed

end

subsection \<open>The machine\<close>

inductive_cases lc_run_NilE [elim!]: "lc_run ph [] ph'"
inductive_cases lc_run_ConsE [elim!]: "lc_run ph (e # es) ph'"
inductive_simps lc_step_Exited_simps [simp]: "lc_step (Exited c) e b"

lemmas lc_exit_intros = lc_step.exit [of Configured, simplified] lc_step.exit [of Daemonized, simplified]
  lc_step.exit [of Gid_dropped, simplified] lc_step.exit [of Confined, simplified]
  lc_step.exit [of Uid_dropped, simplified] lc_step.exit [of Signals_armed, simplified]
  lc_step.exit [of Registered, simplified]

lemmas lc_intros = lc_step.intros lc_exit_intros lc_run.intros

lemma lc_run_append:
  "lc_run a xs b \<Longrightarrow> lc_run b ys c \<Longrightarrow> lc_run a (xs @ ys) c"
  by (induction rule: lc_run.induct) (auto intro: lc_run.cons)

lemma lc_run_appendD:
  "lc_run a (xs @ ys) c \<Longrightarrow> \<exists>b. lc_run a xs b \<and> lc_run b ys c"
proof (induction xs arbitrary: a)
  case Nil
  then have "lc_run a ys c" by simp
  then show ?case by (blast intro: lc_run.nil)
next
  case (Cons x xs)
  then obtain a' where "lc_step a x a'" and "lc_run a' (xs @ ys) c" by auto
  with Cons.IH show ?case by (blast intro: lc_run.cons)
qed

lemma lc_run_single: "lc_step a e b \<Longrightarrow> lc_run a [e] b"
  by (auto intro: lc_intros)

lemma lc_run_exit:
  "lc_run a xs b \<Longrightarrow> \<not> is_exited b \<Longrightarrow> lc_run a (xs @ [Sys_exit c]) (Exited c)"
  by (blast intro: lc_run_append lc_run_single lc_step.exit)

lemma lc_step_deterministic: "lc_step a e b \<Longrightarrow> lc_step a e b' \<Longrightarrow> b = b'"
  by (induction rule: lc_step.induct) (auto elim: lc_step.cases)

lemma lc_run_deterministic: "lc_run a es b \<Longrightarrow> lc_run a es b' \<Longrightarrow> b = b'"
  by (induction arbitrary: b' rule: lc_run.induct) (blast dest: lc_step_deterministic)+

text \<open>Nothing follows an exit: \<open>Exited\<close> is terminal.\<close>

lemma lc_run_from_Exited: "lc_run (Exited c) es b \<Longrightarrow> es = [] \<and> b = Exited c"
  by (cases es) auto

lemma lc_proj_append [simp]: "lc_proj (xs @ ys) = lc_proj xs @ lc_proj ys"
  by (simp add: lc_proj_def)

lemma lc_proj_simps [simp]:
  "lc_proj [] = []" "lc_proj (e # es) = (if lc_event e then e # lc_proj es else lc_proj es)"
  by (simp_all add: lc_proj_def)

lemma silentI:
  "(\<And>s t. f s = Inr t \<Longrightarrow> lc_proj (trace t) = lc_proj (trace s)) \<Longrightarrow>
   (\<And>s r t. f s = Inl (r, t) \<Longrightarrow> lc_proj (trace t) = lc_proj (trace s) @ [Sys_exit (exit_code r)]) \<Longrightarrow>
   silent f"
  by (auto simp: silent_def)

lemma silentD:
  "silent f \<Longrightarrow> f s = Inr t \<Longrightarrow> lc_proj (trace t) = lc_proj (trace s)"
  "silent f \<Longrightarrow> f s = Inl (r, t) \<Longrightarrow> lc_proj (trace t) = lc_proj (trace s) @ [Sys_exit (exit_code r)]"
  by (auto simp: silent_def)

lemma silent_bindE:
  assumes f: "silent f" and g: "\<And>s. silent (g s)"
  shows "silent (\<lambda>s. bindE (f s) (g s))"
proof (rule silentI)
  fix s t assume "bindE (f s) (g s) = Inr t"
  then obtain u where fu: "f s = Inr u" and gu: "g s u = Inr t" by (auto simp: bindE_eq_Inr_iff)
  have "lc_proj (trace u) = lc_proj (trace s)" by (rule silentD(1) [OF f fu])
  moreover have "lc_proj (trace t) = lc_proj (trace u)" by (rule silentD(1) [OF g gu])
  ultimately show "lc_proj (trace t) = lc_proj (trace s)" by simp
next
  fix s r t assume "bindE (f s) (g s) = Inl (r, t)"
  then consider "f s = Inl (r, t)" | u where "f s = Inr u" "g s u = Inl (r, t)"
    by (auto simp: bindE_eq_Inl_iff)
  then show "lc_proj (trace t) = lc_proj (trace s) @ [Sys_exit (exit_code r)]"
  proof cases
    case 1
    then show ?thesis by (rule silentD(2) [OF f])
  next
    case (2 u)
    have "lc_proj (trace u) = lc_proj (trace s)" by (rule silentD(1) [OF f 2(1)])
    with silentD(2) [OF g 2(2)] show ?thesis by simp
  qed
qed

lemma silent_exit_with: "silent (exit_with r)"
  by (rule silentI) (auto simp: exit_with_def emit_def)

lemma fatal_exitsI: "(\<And>s r t. f s = Inl (r, t) \<Longrightarrow> exit_code r = 1) \<Longrightarrow> fatal_exits f"
  by (auto simp: fatal_exits_def)

lemma fatal_exitsD: "fatal_exits f \<Longrightarrow> f s = Inl (r, t) \<Longrightarrow> exit_code r = 1"
  by (auto simp: fatal_exits_def)

lemma fatal_exits_bindE:
  "fatal_exits f \<Longrightarrow> (\<And>s. fatal_exits (g s)) \<Longrightarrow> fatal_exits (\<lambda>s. bindE (f s) (g s))"
  by (rule fatal_exitsI) (auto simp: bindE_eq_Inl_iff dest: fatal_exitsD)

lemma fatal_exits_Inr: "fatal_exits (\<lambda>s. Inr (h s))"
  by (rule fatal_exitsI) simp

subsection \<open>The executable machine and the order of phases\<close>

lemma lc_step_iff_next: "lc_step a e b \<longleftrightarrow> lc_next a e = Some b"
proof
  show "lc_step a e b \<Longrightarrow> lc_next a e = Some b"
  proof (induction rule: lc_step.induct)
    case (exit ph c)
    then show ?case by (cases ph) auto
  qed simp_all
  show "lc_next a e = Some b \<Longrightarrow> lc_step a e b"
    by (induction a e rule: lc_next.induct) (auto intro: lc_step.intros split: if_splits)
qed

lemma lc_step_less: "lc_step a e b \<Longrightarrow> a < b"
proof (induction rule: lc_step.induct)
  case (exit ph c)
  then show ?case by (cases ph) (auto simp: less_phase_def)
qed (simp_all add: less_phase_def)

lemma lc_run_trace:
  "lc_run a es b \<Longrightarrow>
   sorted_wrt (<) (a # lc_trace a es) \<and> length (lc_trace a es) = length es \<and> last (a # lc_trace a es) = b"
proof (induction rule: lc_run.induct)
  case (nil ph)
  then show ?case by simp
next
  case (cons ph e ph' es ph'')
  have "lc_next ph e = Some ph'" using cons.hyps(1) by (simp add: lc_step_iff_next)
  moreover have "ph < ph'" using cons.hyps(1) by (rule lc_step_less)
  moreover have "\<forall>x \<in> set (lc_trace ph' es). ph' < x"
    using cons.IH by simp
  ultimately show ?case using cons.IH by (auto intro: order.strict_trans)
qed

end
