(* ===== verification/Cli.thy ===== *)
theory Cli
  imports Lifecycle
begin

text \<open>
  The frame of \<open>main\<close> (\<open>src/monitord/main.c\<close>, lines 42--49): the local variables
  that hold the run configuration and the resolved ids, as an extension of the
  process state, and the option loop (lines 57--106).  \<open>getopt\<close> itself is a libc
  routine, modelled in \<open>Getopt\<close>: here \<open>parse_args\<close> runs the \<open>switch\<close> of the loop
  over the sequence of \<open>(c, optarg)\<close> pairs it returns.  \<open>-V\<close> (\<open>print_version\<close>)
  and \<open>-h\<close> (\<open>help_monitord\<close>) end the process at once.  The lemmas give the exit
  codes and traces of the loop, the locals it sets (\<open>opt_last\<close>: the last argument
  wins), the debug counter, and what it leaves untouched.
\<close>

record frame = proc +
  user :: string
  group :: string
  dir :: string
  cfg :: string
  test_config :: bool
  run_foreground :: bool
  no_agents :: bool
  uid :: uid_t
  gid :: gid_t

type_synonym getopt_tok = "char \<times> string option"

text \<open>Compile-time defaults of the program (\<open>monitord.h\<close>, \<open>defs.h\<close>).\<close>

definition ARGV0 :: string where "ARGV0 = ''ossec-monitord''"
definition DEFAULTDIR :: string where "DEFAULTDIR = ''/var/ossec''"
definition USER :: string where "USER = ''ossecm''"
definition GROUPGLOBAL :: string where "GROUPGLOBAL = ''ossec''"
definition DEFAULTCPATH :: string where "DEFAULTCPATH = ''etc/ossec.conf''"

text \<open>
  Lines 42--55: the locals get their defaults, \<open>mond.a_queue\<close> is reset and the
  program name is set.
\<close>

definition init_frame :: "proc \<Rightarrow> frame" where
  "init_frame p =
     proc.extend (p\<lparr>mond := (mond p)\<lparr>a_queue := 0\<rparr>, proc_name := ARGV0\<rparr>)
       (frame.fields USER GROUPGLOBAL DEFAULTDIR DEFAULTCPATH False False False 0 0)"

definition help_monitord :: "'a proc_scheme \<Rightarrow> (exit_reason, 'a proc_scheme) exn" where
  "help_monitord s = exit_with Help s"

definition print_version :: "'a proc_scheme \<Rightarrow> (exit_reason, 'a proc_scheme) exn" where
  "print_version s = exit_with Version s"

definition nowDebug :: "'a proc_scheme \<Rightarrow> 'a proc_scheme" where
  "nowDebug s = s\<lparr>dbg_flag := Suc (dbg_flag s)\<rparr>"

text \<open>One pass of the \<open>switch\<close> (lines 58--104).\<close>

definition parse_opt :: "getopt_tok \<Rightarrow> frame \<Rightarrow> (exit_reason, frame) exn" where
  "parse_opt t s =
     (case t of (c, optarg) \<Rightarrow>
       if c = CHR ''V'' then print_version s
       else if c = CHR ''h'' then help_monitord s
       else if c = CHR ''d'' then Inr (nowDebug s)
       else if c = CHR ''f'' then Inr (s\<lparr>run_foreground := True\<rparr>)
       else if c = CHR ''u'' then
         (case optarg of None \<Rightarrow> exit_with (Fatal (Missing_arg c)) s
          | Some a \<Rightarrow> Inr (s\<lparr>user := a\<rparr>))
       else if c = CHR ''g'' then
         (case optarg of None \<Rightarrow> exit_with (Fatal (Missing_arg c)) s
          | Some a \<Rightarrow> Inr (s\<lparr>group := a\<rparr>))
       else if c = CHR ''D'' then
         (case optarg of None \<Rightarrow> exit_with (Fatal (Missing_arg c)) s
          | Some a \<Rightarrow> Inr (s\<lparr>dir := a\<rparr>))
       else if c = CHR ''c'' then
         (case optarg of None \<Rightarrow> exit_with (Fatal (Missing_arg c)) s
          | Some a \<Rightarrow> Inr (s\<lparr>cfg := a\<rparr>))
       else if c = CHR ''t'' then Inr (s\<lparr>test_config := True\<rparr>)
       else if c = CHR ''n'' then Inr (s\<lparr>no_agents := True\<rparr>)
       else help_monitord s)"

text \<open>The \<open>while (getopt(...) != -1)\<close> loop (lines 57--106).\<close>

fun parse_args :: "getopt_tok list \<Rightarrow> frame \<Rightarrow> (exit_reason, frame) exn" where
  "parse_args [] s = Inr s"
| "parse_args (t # ts) s = bindE (parse_opt t s) (parse_args ts)"

text \<open>
  What the configuration stages leave alone: the credentials, root directory,
  handlers and PID markers of the process, the option values and the resolved ids.
\<close>

definition os_view :: "'a proc_scheme \<Rightarrow> uid_t \<times> gid_t \<times> string \<times> bool \<times> (signal \<rightharpoonup> sig_action) \<times> (string \<rightharpoonup> nat)" where
  "os_view s = (cur_uid s, cur_gid s, root_dir s, detached s, handlers s, pid_files s)"

definition args_view :: "frame \<Rightarrow> string \<times> string \<times> string \<times> string \<times> bool \<times> bool \<times> bool" where
  "args_view s = (user s, group s, dir s, cfg s, test_config s, run_foreground s, no_agents s)"

definition setup_of :: "frame \<Rightarrow> _" where
  "setup_of s = (os_view s, args_view s, uid s, gid s)"

definition same_setup :: "frame \<Rightarrow> frame \<Rightarrow> bool" where
  "same_setup s t \<longleftrightarrow> setup_of t = setup_of s"

subsection \<open>A reference installation\<close>

text \<open>
  A concrete environment used to instantiate the theorems: the default user and
  group exist, every internal option is in range, the configuration enables reports
  and names a resolvable SMTP server and a sender, the chroot directory exists and
  no system call faults.
\<close>

definition ex_doc :: xml_doc where
  "ex_doc = [[''ossec_config'', ''global'', ''smtp_server''] \<mapsto> ''mail.example.com'',
             [''ossec_config'', ''global'', ''email_from''] \<mapsto> ''alerts@example.com'']"

definition ex_world :: world where
  "ex_world = \<lparr>w_users = [USER \<mapsto> 1001], w_groups = [GROUPGLOBAL \<mapsto> 1001],
     w_defines = (\<lambda>high low. if low = ''day_wait'' then Some 7 else Some 1),
     w_reports = [DEFAULTCPATH \<mapsto> True], w_xml = [DEFAULTCPATH \<mapsto> ex_doc],
     w_hosts = [''mail.example.com'' \<mapsto> ''192.0.2.25''], w_dirs = {DEFAULTDIR},
     w_fault = (\<lambda>_. False), w_pid = 4242\<rparr>"

subsection \<open>Properties of the option loop\<close>

text \<open>Options accepted without ending the process.\<close>

definition valid_tok :: "getopt_tok \<Rightarrow> bool" where
  "valid_tok t \<longleftrightarrow>
     fst t \<in> set ''dftn'' \<or> (fst t \<in> set ''ugDc'' \<and> snd t \<noteq> None)"

definition is_debug_tok :: "getopt_tok \<Rightarrow> bool" where
  "is_debug_tok t \<longleftrightarrow> fst t = CHR ''d''"

text \<open>The value a string local holds after the loop: the argument of the last
  option \<open>c\<close>, or its default \<open>d\<close>.\<close>

fun opt_last :: "char \<Rightarrow> string \<Rightarrow> getopt_tok list \<Rightarrow> string" where
  "opt_last c d [] = d"
| "opt_last c d ((c', a) # ts) = opt_last c (if c' = c then (case a of Some x \<Rightarrow> x | None \<Rightarrow> d) else d) ts"

lemma init_frame_fields [simp]:
  "user (init_frame p) = USER" "frame.group (init_frame p) = GROUPGLOBAL"
  "dir (init_frame p) = DEFAULTDIR" "cfg (init_frame p) = DEFAULTCPATH"
  "test_config (init_frame p) = False" "run_foreground (init_frame p) = False"
  "no_agents (init_frame p) = False" "uid (init_frame p) = 0" "gid (init_frame p) = 0"
  "mond (init_frame p) = (mond p)\<lparr>a_queue := 0\<rparr>" "proc_name (init_frame p) = ARGV0"
  "trace (init_frame p) = trace p" "heap (init_frame p) = heap p"
  "next_ptr (init_frame p) = next_ptr p" "dbg_flag (init_frame p) = dbg_flag p"
  "cur_uid (init_frame p) = cur_uid p" "cur_gid (init_frame p) = cur_gid p"
  "root_dir (init_frame p) = root_dir p" "handlers (init_frame p) = handlers p"
  "pid_files (init_frame p) = pid_files p" "daemon_flag (init_frame p) = daemon_flag p"
  "chroot_flag (init_frame p) = chroot_flag p" "detached (init_frame p) = detached p"
  "xml_open (init_frame p) = xml_open p"
  by (simp_all add: init_frame_def proc.defs frame.defs)

lemma same_setup_refl [simp]: "same_setup s s"
  by (simp add: same_setup_def)

lemma same_setup_trans: "same_setup s u \<Longrightarrow> same_setup u t \<Longrightarrow> same_setup s t"
  by (simp add: same_setup_def)

lemma setup_of_updates [simp]:
  "setup_of (t\<lparr>trace := x\<rparr>) = setup_of t" "setup_of (t\<lparr>mond := m\<rparr>) = setup_of t"
  "setup_of (t\<lparr>heap := h\<rparr>) = setup_of t" "setup_of (t\<lparr>next_ptr := n\<rparr>) = setup_of t"
  "setup_of (t\<lparr>xml_open := b\<rparr>) = setup_of t" "setup_of (emit e t) = setup_of t"
  by (simp_all add: setup_of_def os_view_def args_view_def emit_def)

lemma parse_opt_Inr_iff: "(\<exists>s'. parse_opt t s = Inr s') \<longleftrightarrow> valid_tok t"
  by (cases t) (auto simp: parse_opt_def valid_tok_def help_monitord_def print_version_def
      split: option.splits)

lemma parse_opt_exit_code: "parse_opt t s = Inl (r, s') \<Longrightarrow> exit_code r = 1"
  by (cases t) (auto simp: parse_opt_def help_monitord_def print_version_def exit_with_def
      split: if_splits option.splits)

lemma parse_opt_dbg:
  "parse_opt t s = Inr s' \<Longrightarrow>
   dbg_flag s' = (if is_debug_tok t then Suc (dbg_flag s) else dbg_flag s)"
  by (cases t) (auto simp: parse_opt_def is_debug_tok_def nowDebug_def help_monitord_def
      print_version_def split: if_splits option.splits)

lemma parse_opt_trace: "parse_opt t s = Inr s' \<Longrightarrow> trace s' = trace s"
  by (cases t) (auto simp: parse_opt_def nowDebug_def help_monitord_def
      print_version_def split: if_splits option.splits)

lemma parse_opt_os_view: "parse_opt t s = Inr s' \<Longrightarrow> os_view s' = os_view s"
  by (cases t) (auto simp: parse_opt_def nowDebug_def os_view_def help_monitord_def
      print_version_def split: if_splits option.splits)

lemma parse_args_os_view: "parse_args ts s = Inr s' \<Longrightarrow> os_view s' = os_view s"
  by (induction ts arbitrary: s) (auto simp: bindE_eq_Inr_iff dest!: parse_opt_os_view)

lemma parse_opt_mem:
  "parse_opt t s = Inr s' \<Longrightarrow> heap s' = heap s \<and> next_ptr s' = next_ptr s \<and> mond s' = mond s"
  by (cases t) (auto simp: parse_opt_def nowDebug_def help_monitord_def
      print_version_def split: if_splits option.splits)

lemma parse_args_mem:
  "parse_args ts s = Inr s' \<Longrightarrow> heap s' = heap s \<and> next_ptr s' = next_ptr s \<and> mond s' = mond s"
  by (induction ts arbitrary: s) (auto simp: bindE_eq_Inr_iff dest!: parse_opt_mem)

lemma parse_opt_Inr_cases:
  "parse_opt (c, a) s = Inr s' \<Longrightarrow>
   (c = CHR ''d'' \<and> s' = nowDebug s) \<or> (c = CHR ''f'' \<and> s' = s\<lparr>run_foreground := True\<rparr>) \<or>
   (c = CHR ''u'' \<and> a \<noteq> None \<and> s' = s\<lparr>user := the a\<rparr>) \<or>
   (c = CHR ''g'' \<and> a \<noteq> None \<and> s' = s\<lparr>group := the a\<rparr>) \<or>
   (c = CHR ''D'' \<and> a \<noteq> None \<and> s' = s\<lparr>dir := the a\<rparr>) \<or>
   (c = CHR ''c'' \<and> a \<noteq> None \<and> s' = s\<lparr>cfg := the a\<rparr>) \<or>
   (c = CHR ''t'' \<and> s' = s\<lparr>test_config := True\<rparr>) \<or> (c = CHR ''n'' \<and> s' = s\<lparr>no_agents := True\<rparr>)"
  by (auto simp: parse_opt_def help_monitord_def print_version_def split: if_splits option.splits)

lemma parse_opt_locals:
  assumes "parse_opt (c, a) s = Inr s'"
  shows "user s' = (if c = CHR ''u'' then (case a of Some x \<Rightarrow> x | None \<Rightarrow> user s) else user s) \<and>
   frame.group s' = (if c = CHR ''g'' then (case a of Some x \<Rightarrow> x | None \<Rightarrow> frame.group s) else frame.group s) \<and>
   dir s' = (if c = CHR ''D'' then (case a of Some x \<Rightarrow> x | None \<Rightarrow> dir s) else dir s) \<and>
   cfg s' = (if c = CHR ''c'' then (case a of Some x \<Rightarrow> x | None \<Rightarrow> cfg s) else cfg s) \<and>
   test_config s' = (test_config s \<or> c = CHR ''t'') \<and>
   run_foreground s' = (run_foreground s \<or> c = CHR ''f'') \<and>
   no_agents s' = (no_agents s \<or> c = CHR ''n'')"
  using parse_opt_Inr_cases [OF assms]
  by (elim disjE conjE) (auto simp: nowDebug_def)

lemma parse_args_Inr_iff: "(\<exists>s'. parse_args ts s = Inr s') \<longleftrightarrow> list_all valid_tok ts"
proof (induction ts arbitrary: s)
  case Nil
  then show ?case by simp
next
  case (Cons t ts)
  show ?case
  proof (cases "parse_opt t s")
    case (Inl e)
    then show ?thesis using parse_opt_Inr_iff [of t s] by auto
  next
    case (Inr u)
    then show ?thesis using Cons.IH [of u] parse_opt_Inr_iff [of t s] by auto
  qed
qed

lemma parse_args_exit_code: "parse_args ts s = Inl (r, t) \<Longrightarrow> exit_code r = 1"
proof (induction ts arbitrary: s)
  case Nil
  then show ?case by simp
next
  case (Cons x ts)
  then show ?case
    by (cases "parse_opt x s") (auto dest: parse_opt_exit_code)
qed

lemma parse_opt_Inl_trace:
  "parse_opt t s = Inl (r, s') \<Longrightarrow> trace s' = trace s @ [Sys_exit (exit_code r)]"
  by (cases t) (auto simp: parse_opt_def help_monitord_def print_version_def exit_with_def emit_def
      split: if_splits option.splits)

lemma parse_args_Inl_trace:
  "parse_args ts s = Inl (r, s') \<Longrightarrow> trace s' = trace s @ [Sys_exit (exit_code r)]"
proof (induction ts arbitrary: s)
  case Nil
  then show ?case by simp
next
  case (Cons x ts)
  show ?case
  proof (cases "parse_opt x s")
    case (Inl e)
    with Cons.prems show ?thesis by (auto dest: parse_opt_Inl_trace)
  next
    case (Inr u)
    with Cons.prems Cons.IH [of u] show ?thesis by (auto dest: parse_opt_trace)
  qed
qed

lemma parse_opt_Missing_arg:
  "parse_opt x s = Inl (Fatal (Missing_arg c), t) \<Longrightarrow> x = (c, None) \<and> c \<in> set ''ugDc''"
  by (cases x) (auto simp: parse_opt_def help_monitord_def print_version_def exit_with_def
      split: if_splits option.splits)

lemma parse_args_Missing_arg:
  "parse_args ts s = Inl (Fatal (Missing_arg c), t) \<Longrightarrow> (c, None) \<in> set ts \<and> c \<in> set ''ugDc''"
proof (induction ts arbitrary: s)
  case Nil
  then show ?case by simp
next
  case (Cons x ts)
  then show ?case
    by (cases "parse_opt x s") (auto simp: bindE_eq_Inl_iff dest: parse_opt_Missing_arg)
qed

lemma parse_args_append: "parse_args (xs @ ys) s = bindE (parse_args xs s) (parse_args ys)"
proof (induction xs arbitrary: s)
  case Nil
  then show ?case by simp
next
  case (Cons x xs)
  then show ?case by (cases "parse_opt x s") simp_all
qed

lemma parse_args_dbg:
  "parse_args ts s = Inr s' \<Longrightarrow> dbg_flag s' = dbg_flag s + length (filter is_debug_tok ts)"
proof (induction ts arbitrary: s)
  case Nil
  then show ?case by simp
next
  case (Cons t ts)
  then obtain u where u: "parse_opt t s = Inr u" and rest: "parse_args ts u = Inr s'"
    by (auto simp: bindE_eq_Inr_iff)
  from Cons.IH [OF rest] parse_opt_dbg [OF u] show ?case by simp
qed

text \<open>C35 Each \<open>-d\<close> raises the debug level by one: when the option
  loop of a fresh process finishes, the level equals the number of \<open>-d\<close> options.\<close>

theorem debug_level_counts_d:
  assumes "parse_args ts (init_frame p) = Inr s'" and "dbg_flag p = 0"
  shows "dbg_flag s' = length (filter is_debug_tok ts)"
  using parse_args_dbg [OF assms(1)] assms(2) by simp

theorem debug_level_counts_d_witness:
  "\<exists>s'. parse_args [(CHR ''d'', None), (CHR ''f'', None), (CHR ''d'', None)]
          (init_frame proc_start) = Inr s' \<and> dbg_flag proc_start = 0 \<and> dbg_flag s' = 2"
proof -
  let ?ts = "[(CHR ''d'', None), (CHR ''f'', None), (CHR ''d'', None)] :: getopt_tok list"
  obtain s' where run: "parse_args ?ts (init_frame proc_start) = Inr s'"
    by (simp add: parse_opt_def nowDebug_def)
  have "dbg_flag proc_start = 0" by (simp add: proc_start_def)
  with debug_level_counts_d [OF run] run show ?thesis by (simp add: is_debug_tok_def)
qed

lemma silent_parse_opt: "silent (parse_opt t)"
  by (rule silentI; cases t)
     (auto simp: parse_opt_def nowDebug_def help_monitord_def print_version_def exit_with_def
       emit_def split: if_splits option.splits)

lemma silent_parse_args: "silent (parse_args ts)"
proof (induction ts)
  case Nil
  show ?case by (rule silentI) simp_all
next
  case (Cons t ts)
  have "silent (\<lambda>s. bindE (parse_opt t s) (\<lambda>u. parse_args ts u))"
    by (rule silent_bindE [OF silent_parse_opt Cons.IH])
  then show ?case by simp
qed


text \<open>C33 Every way the option loop ends the process (\<open>-h\<close>, \<open>-V\<close>, an
  unknown option, a missing argument) has exit code 1, and the loop falls through
  exactly when every option is known and has its argument.\<close>

theorem parse_args_exit:
  "(parse_args ts s = Inl (r, t) \<longrightarrow> exit_code r = 1) \<and>
   ((\<exists>s'. parse_args ts s = Inr s') \<longleftrightarrow> list_all valid_tok ts)"
  using parse_args_exit_code parse_args_Inr_iff by blast

theorem parse_args_exit_witness:
  "exit_code Help = 1 \<and> \<not> (\<exists>s'. parse_args [(CHR ''x'', None)] (init_frame proc_start) = Inr s')"
proof
  have "parse_args [(CHR ''x'', None)] (init_frame proc_start) = Inl (Help, emit (Sys_exit 1) (init_frame proc_start))"
    by (simp add: parse_opt_def help_monitord_def exit_with_def)
  with conjunct1 [OF parse_args_exit] show "exit_code Help = 1" by (rule mp)
next
  have iff: "(\<exists>s'. parse_args [(CHR ''x'', None)] (init_frame proc_start) = Inr s') \<longleftrightarrow>
      list_all valid_tok [(CHR ''x'', None)]"
    by (rule conjunct2 [OF parse_args_exit])
  have "\<not> list_all valid_tok [(CHR ''x'', None)]" by (simp add: valid_tok_def)
  with iff show "\<not> (\<exists>s'. parse_args [(CHR ''x'', None)] (init_frame proc_start) = Inr s')" by blast
qed

text \<open>C34 After the option loop, each of \<open>user\<close>, \<open>group\<close>, \<open>dir\<close> and
  \<open>cfg\<close> holds the argument of the last \<open>-u\<close>, \<open>-g\<close>, \<open>-D\<close>, \<open>-c\<close> given (its
  default otherwise), and \<open>test_config\<close>, \<open>run_foreground\<close> and \<open>no_agents\<close> are set
  exactly when \<open>-t\<close>, \<open>-f\<close>, \<open>-n\<close> occurred.\<close>

theorem parse_args_locals:
  assumes "parse_args ts s = Inr t"
  shows "user t = opt_last CHR ''u'' (user s) ts \<and> frame.group t = opt_last CHR ''g'' (frame.group s) ts \<and>
         dir t = opt_last CHR ''D'' (dir s) ts \<and> cfg t = opt_last CHR ''c'' (cfg s) ts \<and>
         test_config t = (test_config s \<or> CHR ''t'' \<in> fst ` set ts) \<and>
         run_foreground t = (run_foreground s \<or> CHR ''f'' \<in> fst ` set ts) \<and>
         no_agents t = (no_agents s \<or> CHR ''n'' \<in> fst ` set ts)"
  using assms
proof (induction ts arbitrary: s)
  case Nil
  then show ?case by simp
next
  case (Cons x ts)
  obtain c a where x: "x = (c, a)" by fastforce
  from Cons.prems obtain u where p: "parse_opt (c, a) s = Inr u" and r: "parse_args ts u = Inr t"
    by (auto simp: x bindE_eq_Inr_iff)
  from Cons.IH [OF r] parse_opt_locals [OF p] show ?case
    by (simp add: x split del: if_split) blast
qed

theorem parse_args_locals_witness:
  "\<exists>t. parse_args [(CHR ''u'', Some ''alice''), (CHR ''f'', None), (CHR ''u'', Some ''bob'')]
        (init_frame proc_start) = Inr t \<and>
     user t = ''bob'' \<and> frame.group t = GROUPGLOBAL \<and> dir t = DEFAULTDIR \<and> cfg t = DEFAULTCPATH \<and>
     \<not> test_config t \<and> run_foreground t \<and> \<not> no_agents t"
proof -
  obtain t where run: "parse_args [(CHR ''u'', Some ''alice''), (CHR ''f'', None), (CHR ''u'', Some ''bob'')]
        (init_frame proc_start) = Inr t"
    by (simp add: parse_opt_def)
  from parse_args_locals [OF run] run show ?thesis by auto
qed

end
