(* ===== verification/Identity.thy ===== *)
theory Identity
  imports Cli
begin

text \<open>
  The identity resolver (\<open>src/monitord/main.c\<close>, lines 111--116): both names are
  looked up, and the bootstrap ends unless both give an id other than the
  sentinel \<open>(uid_t) -1\<close> / \<open>(gid_t) -1\<close>.  The lemmas show which identities
  pass, that a failure ends the process before any privilege call, and that the
  sentinel test also rejects a database entry whose id is \<open>0xFFFFFFFF\<close>.
\<close>

definition resolve_identity :: "world \<Rightarrow> frame \<Rightarrow> (exit_reason, frame) exn" where
  "resolve_identity w s =
     (let (u, s1) = Privsep_GetUser w (user s) s;
          (g, s2) = Privsep_GetGroup w (group s) s1;
          s3 = s2\<lparr>uid := u, gid := g\<rparr>
      in if u = -1 \<or> g = -1 then exit_with (Fatal (User_error (user s) (group s))) s3
         else Inr s3)"

definition id_valid :: "'a::len word option \<Rightarrow> bool" where
  "id_valid x \<longleftrightarrow> (case x of None \<Rightarrow> False | Some i \<Rightarrow> i \<noteq> -1)"

lemma resolve_identity_Inr_iff:
  "resolve_identity w s = Inr t \<longleftrightarrow>
     id_valid (w_users w (user s)) \<and> id_valid (w_groups w (group s)) \<and>
     t = (emit (Sys_getgrnam (group s)) (emit (Sys_getpwnam (user s)) s))
           \<lparr>uid := the (w_users w (user s)), gid := the (w_groups w (group s))\<rparr>"
  by (auto simp: resolve_identity_def Privsep_GetUser_def Privsep_GetGroup_def id_valid_def Let_def
      emit_def split: option.splits)

lemma resolve_identity_Inl:
  "resolve_identity w s = Inl (r, t) \<Longrightarrow>
     r = Fatal (User_error (user s) (group s)) \<and>
     trace t = trace s @ [Sys_getpwnam (user s), Sys_getgrnam (group s), Sys_exit 1]"
  by (auto simp: resolve_identity_def Privsep_GetUser_def Privsep_GetGroup_def exit_with_def Let_def
      emit_def split: if_splits)

lemma resolve_identity_Inl_iff:
  "(\<exists>t. resolve_identity w s = Inl (r, t)) \<longleftrightarrow>
     r = Fatal (User_error (user s) (group s)) \<and>
     \<not> (id_valid (w_users w (user s)) \<and> id_valid (w_groups w (group s)))"
  by (auto simp: resolve_identity_def Privsep_GetUser_def Privsep_GetGroup_def id_valid_def Let_def
      exit_with_def split: option.splits)

lemma resolve_identity_setup:
  "resolve_identity w s = Inr t \<Longrightarrow>
   os_view t = os_view s \<and> args_view t = args_view s \<and>
   uid t = the (w_users w (user s)) \<and> gid t = the (w_groups w (frame.group s))"
  by (simp add: resolve_identity_Inr_iff os_view_def args_view_def emit_def)

lemma silent_resolve_identity: "silent (resolve_identity w)"
proof (rule silentI)
  fix s t assume "resolve_identity w s = Inr t"
  then show "lc_proj (trace t) = lc_proj (trace s)" by (simp add: resolve_identity_Inr_iff)
next
  fix s r t assume "resolve_identity w s = Inl (r, t)"
  then show "lc_proj (trace t) = lc_proj (trace s) @ [Sys_exit (exit_code r)]"
    by (auto dest: resolve_identity_Inl)
qed


subsection \<open>Which identities pass\<close>

text \<open>C24 The resolver falls through exactly when the user and the group are
  both in their databases with an id other than the sentinel \<open>-1\<close>; the ids it stores
  are the database's.\<close>

theorem resolve_identity_ok_iff:
  "(\<exists>t. resolve_identity w s = Inr t \<and> uid t = the (w_users w (user s)) \<and>
        gid t = the (w_groups w (frame.group s))) \<longleftrightarrow>
   id_valid (w_users w (user s)) \<and> id_valid (w_groups w (frame.group s))"
  by (auto simp: resolve_identity_Inr_iff)

text \<open>C25 A user whose database entry carries the id \<open>0xFFFFFFFF\<close> is
  rejected like an unknown one: the test against \<open>(uid_t) -1\<close> cannot tell the
  sentinel from a real id.\<close>

theorem resolve_identity_sentinel:
  assumes "w_users w (user s) = Some 0xFFFFFFFF"
  shows "\<exists>t. resolve_identity w s = Inl (Fatal (User_error (user s) (frame.group s)), t)"
  using assms resolve_identity_Inl_iff [of w s "Fatal (User_error (user s) (frame.group s))"]
  by (simp add: id_valid_def)

theorem resolve_identity_sentinel_witness:
  "\<exists>t. resolve_identity (ex_world\<lparr>w_users := [USER \<mapsto> 0xFFFFFFFF]\<rparr>) (init_frame proc_start) =
     Inl (Fatal (User_error USER GROUPGLOBAL), t)"
  using resolve_identity_sentinel [of "ex_world\<lparr>w_users := [USER \<mapsto> 0xFFFFFFFF]\<rparr>" "init_frame proc_start"]
  by simp

lemma fatal_resolve_identity: "fatal_exits (resolve_identity w)"
  by (rule fatal_exitsI) (auto simp: resolve_identity_def Privsep_GetUser_def Privsep_GetGroup_def
      exit_with_def Let_def split: if_splits)

text \<open>Progress: valid ids let the resolver fall through.\<close>

lemma resolve_identity_progress:
  "id_valid (w_users w (user s)) \<Longrightarrow> id_valid (w_groups w (group s)) \<Longrightarrow> \<exists>t. resolve_identity w s = Inr t"
  by (simp add: resolve_identity_Inr_iff)

end
