(* ===== verification/Settings.thy ===== *)
theory Settings
  imports Cli
begin

text \<open>
  The configuration loader as \<open>main\<close> drives it (\<open>src/monitord/main.c\<close>, lines
  118--134): five internal options read with \<open>getDefine_Int\<close> and cast to the C
  types of the \<open>mond\<close> fields, the pointer fields reset to \<open>NULL\<close>, then
  \<open>ReadConfig\<close> on the reports section.  \<open>monitor_agents\<close> is not read at all when
  \<open>-n\<close> was given (the \<open>?:\<close> of line 122).  The lemmas show that every value that
  passes lies in its range and survives its cast, and which failures end the process.
\<close>

text \<open>An assignment \<open>mond.x = (T) getDefine_Int(...)\<close>; a bad value is fatal.\<close>

definition define_step ::
  "world \<Rightarrow> string \<Rightarrow> int \<Rightarrow> int \<Rightarrow> (int \<Rightarrow> monitor_config \<Rightarrow> monitor_config) \<Rightarrow>
   'a proc_scheme \<Rightarrow> (exit_reason, 'a proc_scheme) exn" where
  "define_step w name mn mx upd s =
     (case getDefine_Int w ''monitord'' name mn mx of
        None \<Rightarrow> exit_with (Fatal (Define_error ''monitord'' name)) s
      | Some v \<Rightarrow> Inr (s\<lparr>mond := upd v (mond s)\<rparr>))"

definition load_settings :: "world \<Rightarrow> frame \<Rightarrow> (exit_reason, frame) exn" where
  "load_settings w s0 =
     bindE (define_step w ''day_wait'' 5 240 (\<lambda>v m. m\<lparr>day_wait := word_of_int v\<rparr>) s0) (\<lambda>s1.
     bindE (define_step w ''compress'' 0 1 (\<lambda>v m. m\<lparr>compress := word_of_int v\<rparr>) s1) (\<lambda>s2.
     bindE (define_step w ''sign'' 0 1 (\<lambda>v m. m\<lparr>sign := word_of_int v\<rparr>) s2) (\<lambda>s3.
     bindE (if no_agents s3 then Inr (s3\<lparr>mond := (mond s3)\<lparr>monitor_agents := 0\<rparr>\<rparr>)
            else define_step w ''monitor_agents'' 0 1 (\<lambda>v m. m\<lparr>monitor_agents := word_of_int v\<rparr>) s3)
       (\<lambda>s4.
     bindE (define_step w ''keep_log_days'' 0 500 (\<lambda>v m. m\<lparr>keep_log_days := word_of_int v\<rparr>) s4)
       (\<lambda>s5.
     Inr (s5\<lparr>mond := (mond s5)\<lparr>agents := None, smtpserver := None, emailfrom := None,
                                  emailidsname := None\<rparr>\<rparr>))))))"

definition read_reports_config :: "world \<Rightarrow> frame \<Rightarrow> (exit_reason, frame) exn" where
  "read_reports_config w s =
     (let c = {CREPORTS}; (r, s') = ReadConfig w c (cfg s) s
      in if r < 0 then exit_with (Fatal (Config_error (cfg s))) s' else Inr s')"

subsection \<open>Ranges and casts\<close>

definition define_ok :: "world \<Rightarrow> string \<Rightarrow> int \<Rightarrow> int \<Rightarrow> bool" where
  "define_ok w name mn mx \<longleftrightarrow>
     (case w_defines w ''monitord'' name of None \<Rightarrow> False | Some v \<Rightarrow> mn \<le> v \<and> v \<le> mx)"

definition define_val :: "world \<Rightarrow> string \<Rightarrow> int" where
  "define_val w name = (case w_defines w ''monitord'' name of None \<Rightarrow> 0 | Some v \<Rightarrow> v)"

text \<open>The options \<open>load_settings\<close> reads, in source order, with their ranges.\<close>

definition required_defines :: "frame \<Rightarrow> (string \<times> int \<times> int) list" where
  "required_defines s =
     [(''day_wait'', 5, 240), (''compress'', 0, 1), (''sign'', 0, 1)] @
     (if no_agents s then [] else [(''monitor_agents'', 0, 1)]) @ [(''keep_log_days'', 0, 500)]"

fun define_entry_ok :: "world \<Rightarrow> string \<times> int \<times> int \<Rightarrow> bool" where
  "define_entry_ok w (n, lo, hi) = define_ok w n lo hi"

text \<open>The reference installation with an out-of-range \<open>sign\<close> option.\<close>

definition ex_world_bad_sign :: world where
  "ex_world_bad_sign = ex_world\<lparr>w_defines := (\<lambda>h l. if l = ''sign'' then Some 2 else w_defines ex_world h l)\<rparr>"

lemma define_step_Inr_iff:
  "define_step w name mn mx upd s = Inr t \<longleftrightarrow>
     define_ok w name mn mx \<and> t = s\<lparr>mond := upd (define_val w name) (mond s)\<rparr>"
  by (auto simp: define_step_def getDefine_Int_def define_ok_def define_val_def
      split: option.splits)

lemma define_step_Inl:
  "define_step w name mn mx upd s = Inl (r, t) \<Longrightarrow>
     r = Fatal (Define_error ''monitord'' name) \<and> \<not> define_ok w name mn mx"
  by (auto simp: define_step_def getDefine_Int_def define_ok_def
      split: option.splits if_splits)

lemma define_step_ok:
  "define_ok w name mn mx \<Longrightarrow>
   define_step w name mn mx upd s = Inr (s\<lparr>mond := upd (define_val w name) (mond s)\<rparr>)"
  by (simp add: define_step_Inr_iff)

lemma bindE_define_step:
  "bindE (define_step w n lo hi upd s) k =
     (if define_ok w n lo hi then k (s\<lparr>mond := upd (define_val w n) (mond s)\<rparr>)
      else exit_with (Fatal (Define_error ''monitord'' n)) s)"
  by (cases "define_ok w n lo hi") (auto simp: define_step_ok, auto simp: define_step_def
      getDefine_Int_def define_ok_def exit_with_def split: option.splits)

lemma define_step_setup: "define_step w name mn mx upd s = Inr t \<Longrightarrow> same_setup s t"
  by (auto simp: define_step_def same_setup_def split: option.splits)

lemma load_settings_setup: "load_settings w s = Inr t \<Longrightarrow> same_setup s t"
  by (auto simp: load_settings_def bindE_eq_Inr_iff same_setup_def split: if_splits
      dest!: define_step_setup)

lemma read_reports_config_setup: "read_reports_config w s = Inr t \<Longrightarrow> same_setup s t"
  by (auto simp: read_reports_config_def ReadConfig_def Let_def same_setup_def
      split: option.splits if_splits)

lemma silent_define_step: "silent (define_step w name mn mx upd)"
  by (rule silentI) (auto simp: define_step_def exit_with_def emit_def split: option.splits)

lemma silent_load_settings: "silent (load_settings w)"
proof -
  have agents: "silent (\<lambda>s. if no_agents s then Inr (s\<lparr>mond := (mond s)\<lparr>monitor_agents := 0\<rparr>\<rparr>)
      else define_step w ''monitor_agents'' 0 1 (\<lambda>v m. m\<lparr>monitor_agents := word_of_int v\<rparr>) s)"
    by (rule silentI) (auto simp: define_step_def exit_with_def emit_def split: option.splits if_splits)
  have last: "silent (\<lambda>s. Inr (s\<lparr>mond := (mond s)\<lparr>agents := None, smtpserver := None,
      emailfrom := None, emailidsname := None\<rparr>\<rparr>) :: (exit_reason, frame) exn)"
    by (rule silentI) auto
  show ?thesis
    unfolding load_settings_def
    by (intro silent_bindE silent_define_step agents last)
qed

lemma silent_read_reports_config: "silent (read_reports_config w)"
  by (rule silentI) (auto simp: read_reports_config_def ReadConfig_def exit_with_def emit_def Let_def
      split: option.splits if_splits)


subsection \<open>Ranges, casts and the \<open>-n\<close> shortcut\<close>

text \<open>C19 When the internal options are loaded, every value lies in its
  documented range and survives its C cast: \<open>day_wait\<close> as \<open>unsigned short\<close> in
  [5, 240], the three flags as \<open>short\<close> in {0, 1}, \<open>keep_log_days\<close> as \<open>int\<close> in
  [0, 500], the first and the last equal to the configured values; the pointer fields
  are \<open>NULL\<close>.\<close>

theorem load_settings_bounds:
  assumes "load_settings w s = Inr t"
  shows "uint (day_wait (mond t)) = define_val w ''day_wait'' \<and>
         5 \<le> uint (day_wait (mond t)) \<and> uint (day_wait (mond t)) \<le> 240 \<and>
         sint (compress (mond t)) \<in> {0, 1} \<and> sint (sign (mond t)) \<in> {0, 1} \<and>
         sint (monitor_agents (mond t)) \<in> {0, 1} \<and>
         sint (keep_log_days (mond t)) = define_val w ''keep_log_days'' \<and>
         0 \<le> sint (keep_log_days (mond t)) \<and> sint (keep_log_days (mond t)) \<le> 500 \<and>
         agents (mond t) = None \<and> smtpserver (mond t) = None \<and> emailfrom (mond t) = None \<and>
         emailidsname (mond t) = None"
  using assms
  by (auto simp: load_settings_def bindE_eq_Inr_iff define_step_Inr_iff define_ok_def define_val_def
      uint16_word_of_int sint16_word_of_int sint32_word_of_int split: option.splits if_splits)

theorem load_settings_bounds_witness:
  "\<exists>t. load_settings ex_world (init_frame proc_start) = Inr t \<and>
     uint (day_wait (mond t)) = 7 \<and> 5 \<le> uint (day_wait (mond t)) \<and> uint (day_wait (mond t)) \<le> 240 \<and>
     sint (compress (mond t)) \<in> {0, 1} \<and> sint (sign (mond t)) \<in> {0, 1} \<and>
     sint (monitor_agents (mond t)) \<in> {0, 1} \<and>
     sint (keep_log_days (mond t)) = 1 \<and>
     0 \<le> sint (keep_log_days (mond t)) \<and> sint (keep_log_days (mond t)) \<le> 500 \<and>
     agents (mond t) = None \<and> smtpserver (mond t) = None \<and> emailfrom (mond t) = None \<and>
         emailidsname (mond t) = None"
proof -
  obtain t where run: "load_settings ex_world (init_frame proc_start) = Inr t"
    by (simp add: load_settings_def define_step_def getDefine_Int_def ex_world_def proc_start_def)
  have "define_val ex_world ''day_wait'' = 7" "define_val ex_world ''keep_log_days'' = 1"
    by (simp_all add: define_val_def ex_world_def)
  with load_settings_bounds [OF run] run show ?thesis by simp
qed

text \<open>C20 With \<open>-n\<close> the \<open>monitor_agents\<close> option is never read: loading
  succeeds whenever the four other options are valid, even if \<open>monitor_agents\<close> is
  missing or out of range, and agent monitoring ends disabled.\<close>

theorem load_settings_no_agents:
  assumes "no_agents s" and "define_ok w ''day_wait'' 5 240" and "define_ok w ''compress'' 0 1"
    and "define_ok w ''sign'' 0 1" and "define_ok w ''keep_log_days'' 0 500"
  shows "\<exists>t. load_settings w s = Inr t \<and> monitor_agents (mond t) = 0"
  using assms by (simp add: load_settings_def define_step_ok)

theorem load_settings_no_agents_witness:
  "\<exists>t. load_settings (ex_world\<lparr>w_defines := (\<lambda>h l. if l = ''monitor_agents'' then None
                                      else w_defines ex_world h l)\<rparr>)
          ((init_frame proc_start)\<lparr>no_agents := True\<rparr>) = Inr t \<and> monitor_agents (mond t) = 0"
  by (rule load_settings_no_agents) (simp_all add: define_ok_def ex_world_def)

subsection \<open>Which configurations load\<close>

text \<open>C21 Loading falls through exactly when every option it reads (all
  five, or the four other than \<open>monitor_agents\<close> under \<open>-n\<close>) is defined and in range.\<close>

theorem load_settings_Inr_iff:
  "(\<exists>t. load_settings w s = Inr t) \<longleftrightarrow> list_all (define_entry_ok w) (required_defines s)"
  by (auto simp: load_settings_def required_defines_def bindE_eq_Inr_iff define_step_Inr_iff)

text \<open>C22 When loading ends the process, it reports the first option in
  source order that is missing or out of range, with exit code 1, and makes no other
  call.\<close>

theorem load_settings_first_error:
  assumes "load_settings w s = Inl (r, t)"
  shows "r = Fatal (Define_error ''monitord'' (fst (hd (dropWhile (define_entry_ok w) (required_defines s))))) \<and>
         exit_code r = 1 \<and> trace t = trace s @ [Sys_exit 1]"
  using assms
  by (auto simp: load_settings_def required_defines_def bindE_define_step exit_with_def emit_def
      split: if_splits)

theorem load_settings_first_error_witness:
  "\<exists>t. load_settings ex_world_bad_sign (init_frame proc_start) = Inl (Fatal (Define_error ''monitord'' ''sign''), t) \<and>
     exit_code (Fatal (Define_error ''monitord'' ''sign'')) = 1 \<and> trace t = trace proc_start @ [Sys_exit 1]"
proof -
  obtain r t where run: "load_settings ex_world_bad_sign (init_frame proc_start) = Inl (r, t)"
    by (simp add: load_settings_def bindE_define_step define_ok_def ex_world_bad_sign_def ex_world_def
        exit_with_def)
  have "dropWhile (define_entry_ok ex_world_bad_sign) (required_defines (init_frame proc_start)) =
        [(''sign'', 0, 1), (''monitor_agents'', 0, 1), (''keep_log_days'', 0, 500)]"
    by (simp add: required_defines_def define_ok_def ex_world_bad_sign_def ex_world_def)
  with load_settings_first_error [OF run] run show ?thesis by auto
qed

lemma fatal_define_step: "fatal_exits (define_step w name mn mx upd)"
  by (rule fatal_exitsI) (auto simp: define_step_def exit_with_def split: option.splits)

lemma fatal_load_settings: "fatal_exits (load_settings w)"
proof -
  have agents: "fatal_exits (\<lambda>s. if no_agents s then Inr (s\<lparr>mond := (mond s)\<lparr>monitor_agents := 0\<rparr>\<rparr>)
      else define_step w ''monitor_agents'' 0 1 (\<lambda>v m. m\<lparr>monitor_agents := word_of_int v\<rparr>) s)"
    by (rule fatal_exitsI) (auto simp: define_step_def exit_with_def split: option.splits if_splits)
  show ?thesis
    unfolding load_settings_def
    by (intro fatal_exits_bindE fatal_define_step agents fatal_exits_Inr)
qed

lemma fatal_read_reports_config: "fatal_exits (read_reports_config w)"
  by (rule fatal_exitsI) (auto simp: read_reports_config_def ReadConfig_def exit_with_def Let_def
      split: option.splits if_splits)

text \<open>C23 Reading the reports section (lines 130--134) fails exactly when
  the configuration file does not load; the process then ends with code 1 naming the
  file, after the one read attempt.\<close>

theorem read_reports_config_error:
  "read_reports_config w s = Inl (r, t) \<longleftrightarrow>
     w_reports w (cfg s) = None \<and> r = Fatal (Config_error (cfg s)) \<and>
     t = emit (Sys_exit 1) (emit (Sys_read_config {CREPORTS} (cfg s)) s)"
  by (auto simp: read_reports_config_def ReadConfig_def exit_with_def Let_def split: option.splits)

text \<open>Progress of the loader and of the reports section.\<close>

lemma load_settings_progress:
  "list_all (define_entry_ok w) (required_defines s) \<Longrightarrow> \<exists>t. load_settings w s = Inr t"
  by (cases "no_agents s") (simp_all add: load_settings_def required_defines_def define_step_ok)

lemma read_reports_config_progress:
  "w_reports w (cfg s) = Some r \<Longrightarrow> \<exists>t. read_reports_config w s = Inr t \<and> reports (mond t) = r"
  by (simp add: read_reports_config_def ReadConfig_def Let_def emit_def)

end
