(* ===== verification/Email_Alert.thy ===== *)
theory Email_Alert
  imports Settings
begin

text \<open>
  The email-alert validator (\<open>src/monitord/main.c\<close>, lines 136--176).  When reports
  are configured, the configuration file is opened a second time as an XML
  document and three optional leaves are read: \<open>smtp_server\<close>, \<open>email_from\<close>,
  \<open>email_idsname\<close>.  Alerting stays on only when both the server and the sender are
  present and the server resolves; every other case degrades (warning, sender
  released) and the bootstrap goes on.  \<open>smtp_check\<close> is the decision of lines
  153--173, \<open>email_alert\<close> the whole block.

  The abstract contract is \<open>email_decision\<close>, the pure function of the
  specification from the optional host and sender to \<open>Email_enabled\<close> or
  \<open>Email_disabled\<close>; \<open>email_state_of\<close> reads that state back from \<open>mond\<close> and
  the heap, and the refinement theorem relates the two.  The heap lemmas show which
  strings stay allocated, and that the host string read from the document is never
  released on the path that resolves it.
\<close>

definition xml_smtp :: "string list" where
  "xml_smtp = [''ossec_config'', ''global'', ''smtp_server'']"

definition xml_from :: "string list" where
  "xml_from = [''ossec_config'', ''global'', ''email_from'']"

definition xml_idsname :: "string list" where
  "xml_idsname = [''ossec_config'', ''global'', ''email_idsname'']"

definition smtp_check :: "world \<Rightarrow> ptr option \<Rightarrow> 'a proc_scheme \<Rightarrow> 'a proc_scheme" where
  "smtp_check w tmpsmtp s =
     (case (tmpsmtp, emailfrom (mond s)) of
        (Some h, Some _) \<Rightarrow>
          (let (sv, s1) = OS_GetHost w h 5 s;
               s1' = s1\<lparr>mond := (mond s1)\<lparr>smtpserver := sv\<rparr>\<rparr>
           in if sv = None then
                (let s2 = merror (INVALID_SMTP (deref s1' h)) s1';
                     s3 = free_opt (emailfrom (mond s2)) s2;
                     s4 = s3\<lparr>mond := (mond s3)\<lparr>emailfrom := None\<rparr>\<rparr>
                 in merror SMTP_INVALID_DISABLING s4)
              else s1')
      | _ \<Rightarrow>
          (let s1 = free_opt tmpsmtp s;
               s2 = free_opt (emailfrom (mond s1)) s1;
               s3 = s2\<lparr>mond := (mond s2)\<lparr>emailfrom := None\<rparr>\<rparr>
           in merror SMTP_MISSING_DISABLING s3))"

definition email_alert :: "world \<Rightarrow> frame \<Rightarrow> (exit_reason, frame) exn" where
  "email_alert w s =
     (if \<not> reports (mond s) then Inr s
      else
        (case OS_ReadXML w (cfg s) s of
           (None, s1) \<Rightarrow> exit_with (Fatal (Config_error (cfg s))) s1
         | (Some xml, s1) \<Rightarrow>
             (let (tmpsmtp, s2) = OS_GetOneContentforElement xml xml_smtp s1;
                  (ef, s3) = OS_GetOneContentforElement xml xml_from s2;
                  s3' = s3\<lparr>mond := (mond s3)\<lparr>emailfrom := ef\<rparr>\<rparr>;
                  (ids, s4) = OS_GetOneContentforElement xml xml_idsname s3';
                  s4' = s4\<lparr>mond := (mond s4)\<lparr>emailidsname := ids\<rparr>\<rparr>
              in Inr (OS_ClearXML (smtp_check w tmpsmtp s4')))))"

subsection \<open>Abstract contract\<close>

datatype email_state = Email_enabled string string | Email_disabled

definition email_decision :: "world \<Rightarrow> string option \<Rightarrow> string option \<Rightarrow> email_state" where
  "email_decision w host from =
     (case (host, from) of
        (Some h, Some f) \<Rightarrow>
          (case w_hosts w h of Some a \<Rightarrow> Email_enabled a f | None \<Rightarrow> Email_disabled)
      | _ \<Rightarrow> Email_disabled)"

definition email_state_of :: "'a proc_scheme \<Rightarrow> email_state" where
  "email_state_of s =
     (case (smtpserver (mond s), emailfrom (mond s)) of
        (Some a, Some f) \<Rightarrow>
          (case (heap s a, heap s f) of
             (Some x, Some y) \<Rightarrow> Email_enabled x y
           | _ \<Rightarrow> Email_disabled)
      | _ \<Rightarrow> Email_disabled)"

definition mond_ptrs :: "monitor_config \<Rightarrow> ptr set" where
  "mond_ptrs m = set_option (agents m) \<union> set_option (smtpserver m) \<union>
     set_option (emailfrom m) \<union> set_option (emailidsname m)"

text \<open>Blocks that are allocated but referenced by no field of \<open>mond\<close>.\<close>

definition unreferenced :: "'a proc_scheme \<Rightarrow> ptr set" where
  "unreferenced s = dom (heap s) - mond_ptrs (mond s)"

text \<open>The heap invariant the work loop relies on: the heap is well formed and every
  pointer held in \<open>mond\<close> refers to a live block.\<close>

definition heap_ok :: "'a proc_scheme \<Rightarrow> bool" where
  "heap_ok s \<longleftrightarrow> heap_wf s \<and> mond_ptrs (mond s) \<subseteq> dom (heap s)"

text \<open>Instances for the witnesses: reports enabled in a fresh process, and documents
  without a sender.\<close>

definition ex_email_frame :: frame where
  "ex_email_frame = (init_frame proc_start)\<lparr>mond := (mond (init_frame proc_start))\<lparr>reports := True\<rparr>\<rparr>"

definition ex_doc_nofrom :: xml_doc where
  "ex_doc_nofrom = (ex_doc(xml_from := None))(xml_idsname \<mapsto> ''ossec-prod'')"

subsection \<open>Reading the document\<close>

lemma OS_GetOne_None [simp]:
  "d path = None \<Longrightarrow> OS_GetOneContentforElement d path s = (None, s)"
  by (simp add: OS_GetOneContentforElement_def)

lemma OS_GetOne_Some [simp]:
  "d path = Some str \<Longrightarrow> OS_GetOneContentforElement d path s =
     (Some (next_ptr s), s\<lparr>heap := (heap s)(next_ptr s \<mapsto> str), next_ptr := Suc (next_ptr s)\<rparr>)"
  by (simp add: OS_GetOneContentforElement_def os_strdup_def)

lemma OS_GetOne_shape:
  "\<exists>h n. snd (OS_GetOneContentforElement d path s) = s\<lparr>heap := h, next_ptr := n\<rparr>"
proof (cases "d path")
  case None
  then show ?thesis by (intro exI [of _ "heap s"] exI [of _ "next_ptr s"]) simp
next
  case (Some str)
  then show ?thesis
    by (intro exI [of _ "(heap s)(next_ptr s \<mapsto> str)"] exI [of _ "Suc (next_ptr s)"])
       (simp add: OS_GetOneContentforElement_def os_strdup_def)
qed

lemmas email_unfold = email_alert_def OS_ReadXML_def smtp_check_def OS_ClearXML_def emit_def
  merror_def free_opt_def os_free_def OS_GetHost_def os_strdup_def deref_def

lemmas ex_email_defs = ex_email_frame_def ex_doc_nofrom_def ex_doc_def ex_world_def proc_start_def
  mond_zero_def xml_smtp_def xml_from_def xml_idsname_def heap_wf_def email_decision_def

lemma heap_wf_fresh3:
  "heap_wf s \<Longrightarrow> heap s (next_ptr s) = None \<and> heap s (Suc (next_ptr s)) = None \<and>
     heap s (Suc (Suc (next_ptr s))) = None \<and> heap s (Suc (Suc (Suc (next_ptr s)))) = None"
  using heap_wf_above [of s] by simp

subsection \<open>The three branches of the decision\<close>

lemma smtp_check_resolved:
  assumes "heap s h = Some host" and "emailfrom (mond s) = Some f" and "w_hosts w host = Some a"
  shows "smtp_check w (Some h) s =
           (emit (Sys_get_host host 5) s)\<lparr>heap := (heap s)(next_ptr s \<mapsto> a),
              next_ptr := Suc (next_ptr s), mond := (mond s)\<lparr>smtpserver := Some (next_ptr s)\<rparr>\<rparr>"
  using assms by (simp add: smtp_check_def OS_GetHost_def os_strdup_def emit_def)

lemma smtp_check_unresolved:
  assumes "heap s h = Some host" and "emailfrom (mond s) = Some f" and "w_hosts w host = None"
  shows "smtp_check w (Some h) s =
           (s\<lparr>trace := trace s @ [Sys_get_host host 5, Sys_log L_error (INVALID_SMTP host),
                                   Sys_log L_error SMTP_INVALID_DISABLING],
              heap := (heap s)(f := None),
              mond := (mond s)\<lparr>smtpserver := None, emailfrom := None\<rparr>\<rparr>)"
  using assms by (simp add: smtp_check_def OS_GetHost_def merror_def emit_def free_opt_def
      os_free_def deref_def)

lemma smtp_check_missing:
  assumes "tmpsmtp = None \<or> emailfrom (mond s) = None"
  shows "heap (smtp_check w tmpsmtp s) =
           heap s |` (- (set_option tmpsmtp \<union> set_option (emailfrom (mond s)))) \<and>
         mond (smtp_check w tmpsmtp s) = (mond s)\<lparr>emailfrom := None\<rparr> \<and>
         trace (smtp_check w tmpsmtp s) = trace s @ [Sys_log L_error SMTP_MISSING_DISABLING]"
  using assms
  by (cases tmpsmtp; cases "emailfrom (mond s)")
     (auto simp: smtp_check_def merror_def emit_def free_opt_def os_free_def
       restrict_complement_singleton_eq fun_upd_twist)


text \<open>The outcomes the code distinguishes for a document: host and sender missing,
  only the host missing, only the sender missing, an unresolvable host, a resolved
  host.\<close>

lemma email_doc_cases [case_names neither no_host no_from unresolved resolved]:
  obtains (neither) "d xml_smtp = None" "d xml_from = None"
  | (no_host) f where "d xml_smtp = None" "d xml_from = Some f"
  | (no_from) h where "d xml_smtp = Some h" "d xml_from = None"
  | (unresolved) h f where "d xml_smtp = Some h" "d xml_from = Some f" "w_hosts w h = None"
  | (resolved) h f a where "d xml_smtp = Some h" "d xml_from = Some f" "w_hosts w h = Some a"
  by (metis option.exhaust)

lemma ex_email_alert_runs: "\<exists>t. email_alert ex_world ex_email_frame = Inr t"
  by (simp add: email_unfold ex_email_frame_def ex_world_def ex_doc_def xml_smtp_def
      xml_from_def xml_idsname_def split: prod.split)

subsection \<open>Refinement of the contract\<close>

text \<open>C7 With reports configured and a readable document, the validator
  never ends the process, and the alerting state it leaves in \<open>mond\<close> is the one the
  specification's pure decision computes from the document's host and sender.\<close>

theorem email_alert_refines:
  assumes "reports (mond s)" and "w_xml w (cfg s) = Some d" and "heap_wf s"
    and "smtpserver (mond s) = None"
  shows "\<exists>t. email_alert w s = Inr t \<and> email_state_of t = email_decision w (d xml_smtp) (d xml_from)"
  using assms heap_wf_fresh3 [OF assms(3)]
  by (cases rule: email_doc_cases [where d = d and w = w]; cases "d xml_idsname")
     (simp_all add: email_unfold email_state_of_def email_decision_def)

theorem email_alert_refines_witness:
  "\<exists>t. email_alert ex_world ((init_frame proc_start)\<lparr>mond := (mond (init_frame proc_start))\<lparr>reports := True\<rparr>\<rparr>) = Inr t
     \<and> email_state_of t = Email_enabled ''192.0.2.25'' ''alerts@example.com''"
proof -
  let ?s = "(init_frame proc_start)\<lparr>mond := (mond (init_frame proc_start))\<lparr>reports := True\<rparr>\<rparr>"
  have r: "reports (mond ?s)" and x: "w_xml ex_world (cfg ?s) = Some ex_doc"
    and h: "heap_wf ?s" and n: "smtpserver (mond ?s) = None"
    by (simp_all add: init_frame_def proc_start_def ex_world_def heap_wf_def mond_zero_def
        proc.defs frame.defs)
  have "email_decision ex_world (ex_doc xml_smtp) (ex_doc xml_from) =
        Email_enabled ''192.0.2.25'' ''alerts@example.com''"
    by (simp add: email_decision_def ex_doc_def ex_world_def xml_smtp_def xml_from_def)
  with email_alert_refines [OF r x h n] show ?thesis by simp
qed


text \<open>With no reports configured the validator is skipped (line 137): no
  document is read and the process state is unchanged.\<close>

lemma email_alert_no_reports:
  "\<not> reports (mond s) \<Longrightarrow> email_alert w s = Inr s"
  by (simp add: email_alert_def)

lemma email_alert_no_reports_witness:
  "email_alert ex_world (init_frame proc_start) = Inr (init_frame proc_start)"
  by (rule email_alert_no_reports) (simp add: proc_start_def mond_zero_def)

subsection \<open>The degraded paths\<close>

text \<open>C18 When the document lacks the SMTP host or the sender, the validator
  continues, makes no resolution attempt, logs the "missing" warning, and leaves
  neither a sender nor a server in \<open>mond\<close>.\<close>

theorem email_alert_missing:
  assumes "reports (mond s)" and "w_xml w (cfg s) = Some d"
    and "d xml_smtp = None \<or> d xml_from = None" and "smtpserver (mond s) = None"
  shows "\<exists>t. email_alert w s = Inr t \<and> emailfrom (mond t) = None \<and> smtpserver (mond t) = None \<and>
           trace t = trace s @ [Sys_read_xml (cfg s), Sys_log L_error SMTP_MISSING_DISABLING,
                                Sys_clear_xml]"
  using assms
  by (cases rule: email_doc_cases [where d = d and w = w]; cases "d xml_idsname") (simp_all add: email_unfold)

theorem email_alert_missing_witness:
  "\<exists>t. email_alert (ex_world\<lparr>w_xml := [DEFAULTCPATH \<mapsto> ex_doc_nofrom]\<rparr>) ex_email_frame = Inr t \<and> emailfrom (mond t) = None \<and>
     smtpserver (mond t) = None \<and>
     trace t = trace ex_email_frame @ [Sys_read_xml (cfg ex_email_frame),
       Sys_log L_error SMTP_MISSING_DISABLING, Sys_clear_xml]"
  by (rule email_alert_missing [where d = ex_doc_nofrom])
     (simp_all add: ex_email_defs)

text \<open>C17 When host and sender are present but the host does not resolve,
  the validator continues, logs both warnings after the one resolution attempt, clears
  the sender, and releases the sender's buffer (the second string read).\<close>

theorem email_alert_unresolvable:
  assumes "reports (mond s)" and "w_xml w (cfg s) = Some d" and "heap_wf s"
    and "d xml_smtp = Some h" and "d xml_from = Some f" and "w_hosts w h = None"
  shows "\<exists>t. email_alert w s = Inr t \<and> emailfrom (mond t) = None \<and> smtpserver (mond t) = None \<and>
           heap t (Suc (next_ptr s)) = None \<and>
           trace t = trace s @ [Sys_read_xml (cfg s), Sys_get_host h 5,
             Sys_log L_error (INVALID_SMTP h), Sys_log L_error SMTP_INVALID_DISABLING, Sys_clear_xml]"
  using assms heap_wf_fresh3 [OF assms(3)]
  by (cases "d xml_idsname") (simp_all add: email_unfold)

theorem email_alert_unresolvable_witness:
  "\<exists>t. email_alert (ex_world\<lparr>w_hosts := Map.empty\<rparr>) ex_email_frame = Inr t \<and> emailfrom (mond t) = None \<and>
     smtpserver (mond t) = None \<and> heap t (Suc (next_ptr ex_email_frame)) = None \<and>
     trace t = trace ex_email_frame @ [Sys_read_xml (cfg ex_email_frame),
       Sys_get_host ''mail.example.com'' 5, Sys_log L_error (INVALID_SMTP ''mail.example.com''),
       Sys_log L_error SMTP_INVALID_DISABLING, Sys_clear_xml]"
  by (rule email_alert_unresolvable [where d = ex_doc and f = "''alerts@example.com''"])
     (simp_all add: ex_email_defs)

subsection \<open>Heap effects\<close>

text \<open>C26 Whenever host and sender are both present, the copy of the host string
  read from the document (the first string allocated) stays allocated after the
  validator returns while no field of \<open>mond\<close> refers to it: lines 153--162 never
  free \<open>tmpsmtp\<close>.\<close>

theorem email_alert_leaks_host:
  assumes "reports (mond s)" and "w_xml w (cfg s) = Some d" and "heap_wf s"
    and "d xml_smtp = Some h" and "d xml_from = Some f" and "agents (mond s) = None"
  shows "\<exists>t. email_alert w s = Inr t \<and> heap t (next_ptr s) = Some h \<and>
           next_ptr s \<in> unreferenced t"
  using assms heap_wf_fresh3 [OF assms(3)]
  by (cases "d xml_idsname"; cases "w_hosts w h")
     (simp_all add: email_unfold unreferenced_def mond_ptrs_def)

theorem email_alert_leaks_host_witness:
  "\<exists>t. email_alert ex_world ex_email_frame = Inr t \<and>
     heap t (next_ptr ex_email_frame) = Some ''mail.example.com'' \<and>
     next_ptr ex_email_frame \<in> unreferenced t"
  by (rule email_alert_leaks_host [where d = ex_doc and f = "''alerts@example.com''"])
     (simp_all add: ex_email_defs)

text \<open>C28 On the paths that disable alerting, the display name read from the
  document is kept in \<open>mond.emailidsname\<close>: only the host and the sender are
  released.\<close>

theorem email_alert_keeps_idsname:
  assumes "reports (mond s)" and "w_xml w (cfg s) = Some d" and "heap_wf s"
    and "d xml_idsname = Some n" and "email_decision w (d xml_smtp) (d xml_from) = Email_disabled"
  shows "\<exists>t p. email_alert w s = Inr t \<and> emailidsname (mond t) = Some p \<and> heap t p = Some n"
  using assms heap_wf_fresh3 [OF assms(3)]
  by (cases rule: email_doc_cases [where d = d and w = w]) (simp_all add: email_unfold email_decision_def)

theorem email_alert_keeps_idsname_witness:
  "\<exists>t p. email_alert (ex_world\<lparr>w_xml := [DEFAULTCPATH \<mapsto> ex_doc_nofrom]\<rparr>) ex_email_frame = Inr t \<and> emailidsname (mond t) = Some p \<and>
     heap t p = Some ''ossec-prod''"
  by (rule email_alert_keeps_idsname [where d = ex_doc_nofrom])
     (simp_all add: ex_email_defs)

text \<open>C27 The validator releases the XML document on every path on which
  it continues; on the fatal path it never acquired it.\<close>

theorem email_alert_xml_released:
  assumes "\<not> xml_open s"
  shows "(email_alert w s = Inr t \<longrightarrow> \<not> xml_open t) \<and>
         (email_alert w s = Inl (r, t) \<longrightarrow> \<not> xml_open t \<and> r = Fatal (Config_error (cfg s)))"
  using assms
  by (auto simp: email_alert_def OS_ReadXML_def OS_ClearXML_def Let_def exit_with_def emit_def
      split: option.splits prod.splits)

theorem email_alert_xml_released_witness:
  "\<exists>t. email_alert ex_world ex_email_frame = Inr t \<and> \<not> xml_open t"
proof -
  have closed: "\<not> xml_open ex_email_frame" by (simp add: ex_email_frame_def proc_start_def)
  obtain t where run: "email_alert ex_world ex_email_frame = Inr t"
    using ex_email_alert_runs ..
  with email_alert_xml_released [OF closed, of ex_world t] show ?thesis by blast
qed

text \<open>The validator keeps the heap well formed: every live block stays below the
  allocation frontier, so later allocations never alias.\<close>

lemma heap_wf_mond_trace [simp]:
  "heap_wf (s\<lparr>mond := m\<rparr>) = heap_wf s" "heap_wf (emit e s) = heap_wf s"
  "heap_wf (s\<lparr>xml_open := b\<rparr>) = heap_wf s" "heap_wf (merror msg s) = heap_wf s"
  by (simp_all add: heap_wf_def emit_def merror_def)

lemma heap_wf_alloc [simp]:
  "heap_wf s \<Longrightarrow> heap_wf (s\<lparr>heap := (heap s)(next_ptr s \<mapsto> x), next_ptr := Suc (next_ptr s)\<rparr>)"
  using heap_wf_os_strdup [of s x] by (simp add: os_strdup_def)

lemma heap_wf_dealloc [simp]: "heap_wf s \<Longrightarrow> heap_wf (s\<lparr>heap := (heap s)(p := None)\<rparr>)"
  using heap_wf_os_free [of s p] by (simp add: os_free_def)

lemma heap_wf_OS_GetOne:
  "heap_wf s \<Longrightarrow> heap_wf (snd (OS_GetOneContentforElement d path s))"
  by (cases "d path") (simp_all add: OS_GetOneContentforElement_def os_strdup_def)

lemma heap_wf_smtp_check: "heap_wf s \<Longrightarrow> heap_wf (smtp_check w tmp s)"
  unfolding smtp_check_def OS_GetHost_def os_strdup_def free_opt_def os_free_def Let_def
  by (simp split: option.split prod.split)

lemma email_alert_read:
  assumes r: "reports (mond s)" and d: "w_xml w (cfg s) = Some d"
  obtains p1 s4 where "email_alert w s = Inr (OS_ClearXML (smtp_check w p1 s4))"
    and "\<exists>h n m. s4 = ((emit (Sys_read_xml (cfg s)) s)\<lparr>xml_open := True\<rparr>)
                     \<lparr>heap := h, next_ptr := n, mond := m\<rparr>"
    and "heap_wf s \<Longrightarrow> heap_wf s4"
proof -
  let ?s1 = "(emit (Sys_read_xml (cfg s)) s)\<lparr>xml_open := True\<rparr>"
  let ?g = "OS_GetOneContentforElement d"
  obtain p1 s2 where g1: "?g xml_smtp ?s1 = (p1, s2)" by fastforce
  obtain p2 s3 where g2: "?g xml_from s2 = (p2, s3)" by fastforce
  obtain p3 s4 where g3: "?g xml_idsname (s3\<lparr>mond := (mond s3)\<lparr>emailfrom := p2\<rparr>\<rparr>) = (p3, s4)"
    by fastforce
  let ?s4 = "s4\<lparr>mond := (mond s4)\<lparr>emailidsname := p3\<rparr>\<rparr>"
  have run: "email_alert w s = Inr (OS_ClearXML (smtp_check w p1 ?s4))"
    using r d g1 g2 g3 by (simp add: email_alert_def OS_ReadXML_def)
  obtain h2 n2 where e2: "s2 = ?s1\<lparr>heap := h2, next_ptr := n2\<rparr>"
    using OS_GetOne_shape [of d xml_smtp ?s1] g1 by auto
  obtain h3 n3 where e3: "s3 = s2\<lparr>heap := h3, next_ptr := n3\<rparr>"
    using OS_GetOne_shape [of d xml_from s2] g2 by auto
  obtain h4 n4 where e4: "s4 = (s3\<lparr>mond := (mond s3)\<lparr>emailfrom := p2\<rparr>\<rparr>)\<lparr>heap := h4, next_ptr := n4\<rparr>"
    using OS_GetOne_shape [of d xml_idsname "s3\<lparr>mond := (mond s3)\<lparr>emailfrom := p2\<rparr>\<rparr>"] g3 by auto
  have shape: "\<exists>h n m. ?s4 = ?s1\<lparr>heap := h, next_ptr := n, mond := m\<rparr>"
    using e2 e3 e4 by auto
  have wf: "heap_wf ?s4" if "heap_wf s"
  proof -
    have "heap_wf s2" using heap_wf_OS_GetOne [of ?s1 d xml_smtp] that g1 by simp
    then have "heap_wf s3" using heap_wf_OS_GetOne [of s2 d xml_from] g2 by simp
    then show ?thesis
      using heap_wf_OS_GetOne [of "s3\<lparr>mond := (mond s3)\<lparr>emailfrom := p2\<rparr>\<rparr>" d xml_idsname] g3 by simp
  qed
  from run shape wf show ?thesis by (rule that)
qed

text \<open>When reports are off or the document cannot be read, a validator that falls
  through leaves the state as it was.\<close>

lemma email_alert_skip:
  "email_alert w s = Inr t \<Longrightarrow> \<not> (reports (mond s) \<and> w_xml w (cfg s) \<noteq> None) \<Longrightarrow> t = s"
  by (cases "reports (mond s)") (auto simp: email_alert_def OS_ReadXML_def Let_def exit_with_def)

text \<open>Progress: the validator falls through whenever the document it needs can be read.\<close>

lemma email_alert_progress:
  assumes "reports (mond s) \<Longrightarrow> w_xml w (cfg s) \<noteq> None"
  shows "\<exists>t. email_alert w s = Inr t"
proof (cases "reports (mond s)")
  case False
  then show ?thesis by (simp add: email_alert_def)
next
  case True
  with assms obtain d where "w_xml w (cfg s) = Some d" by auto
  with True show ?thesis using email_alert_read by blast
qed

lemma heap_wf_email_alert:
  assumes "heap_wf s" and "email_alert w s = Inr t"
  shows "heap_wf t"
proof (cases "reports (mond s) \<and> w_xml w (cfg s) \<noteq> None")
  case False
  with assms email_alert_skip [of w s t] show ?thesis by simp
next
  case True
  then obtain d where "reports (mond s)" and "w_xml w (cfg s) = Some d" by auto
  then obtain p1 s4 where run: "email_alert w s = Inr (OS_ClearXML (smtp_check w p1 s4))"
    and "\<exists>h n m. s4 = ((emit (Sys_read_xml (cfg s)) s)\<lparr>xml_open := True\<rparr>)
                     \<lparr>heap := h, next_ptr := n, mond := m\<rparr>"
    and wf: "heap_wf s \<Longrightarrow> heap_wf s4"
    using email_alert_read by blast
  from assms(2) run have "t = OS_ClearXML (smtp_check w p1 s4)" by simp
  with wf assms(1) show ?thesis by (simp add: OS_ClearXML_def heap_wf_smtp_check)
qed

lemma mond_ptrs_below: "heap_ok s \<Longrightarrow> p \<in> mond_ptrs (mond s) \<Longrightarrow> p < next_ptr s"
  by (auto simp: heap_ok_def heap_wf_def)

text \<open>No pointer of \<open>mond\<close> dangles after the validator: what it frees it also
  resets, and what it stores it has just allocated.\<close>

lemma email_alert_mond_ptrs:
  assumes ok: "heap_ok s" and run: "email_alert w s = Inr t"
  shows "mond_ptrs (mond t) \<subseteq> dom (heap t)"
proof (cases "reports (mond s) \<and> w_xml w (cfg s) \<noteq> None")
  case False
  with assms email_alert_skip [of w s t] show ?thesis by (simp add: heap_ok_def)
next
  case True
  then obtain d where r: "reports (mond s)" and d: "w_xml w (cfg s) = Some d" by auto
  note fresh = heap_wf_fresh3 [OF ok [unfolded heap_ok_def, THEN conjunct1]]
  have below: "\<And>p. p \<in> mond_ptrs (mond s) \<Longrightarrow> p < next_ptr s" by (rule mond_ptrs_below [OF ok])
  have sub: "mond_ptrs (mond s) \<subseteq> dom (heap s)" using ok by (simp add: heap_ok_def)
  show ?thesis
    using run r d fresh below sub
    by (cases rule: email_doc_cases [where d = d and w = w]; cases "d xml_idsname")
       (auto simp: email_unfold mond_ptrs_def split: option.splits)
qed

text \<open>The validator amends only the three email fields of the settings.\<close>

lemma email_alert_mond_other:
  assumes run: "email_alert w s = Inr t"
  shows "mond t = (mond s)\<lparr>smtpserver := smtpserver (mond t), emailfrom := emailfrom (mond t),
                            emailidsname := emailidsname (mond t)\<rparr>"
proof (cases "reports (mond s) \<and> w_xml w (cfg s) \<noteq> None")
  case False
  with run email_alert_skip [of w s t] show ?thesis by simp
next
  case True
  then obtain d where r: "reports (mond s)" and d: "w_xml w (cfg s) = Some d" by auto
  show ?thesis
    using run r d
    by (cases rule: email_doc_cases [where d = d and w = w]; cases "d xml_idsname")
       (auto simp: email_unfold split: option.splits)
qed

lemma lc_proj_smtp_check: "lc_proj (trace (smtp_check w tmp s)) = lc_proj (trace s)"
  unfolding smtp_check_def OS_GetHost_def os_strdup_def free_opt_def os_free_def merror_def
    emit_def Let_def deref_def
  by (simp split: option.split prod.split)

lemma trace_OS_GetOne [simp]: "trace (snd (OS_GetOneContentforElement d path s)) = trace s"
  by (cases "d path") (simp_all add: OS_GetOneContentforElement_def os_strdup_def)

lemma smtp_check_setup: "same_setup s (smtp_check w tmp s)"
  unfolding smtp_check_def OS_GetHost_def os_strdup_def free_opt_def os_free_def merror_def
    emit_def Let_def deref_def
  by (simp add: same_setup_def setup_of_def os_view_def args_view_def split: option.split prod.split)

lemma email_alert_setup: "email_alert w s = Inr t \<Longrightarrow> same_setup s t"
proof (cases "reports (mond s) \<and> w_xml w (cfg s) \<noteq> None")
  case False
  then show "email_alert w s = Inr t \<Longrightarrow> same_setup s t"
    by (cases "reports (mond s)") (auto simp: email_alert_def OS_ReadXML_def Let_def exit_with_def)
next
  case True
  assume run: "email_alert w s = Inr t"
  from True obtain d where "reports (mond s)" and "w_xml w (cfg s) = Some d" by auto
  then obtain p1 s4 where run4: "email_alert w s = Inr (OS_ClearXML (smtp_check w p1 s4))"
    and shape: "\<exists>h n m. s4 = ((emit (Sys_read_xml (cfg s)) s)\<lparr>xml_open := True\<rparr>)
                     \<lparr>heap := h, next_ptr := n, mond := m\<rparr>"
    and "heap_wf s \<Longrightarrow> heap_wf s4"
    using email_alert_read by blast
  from shape have "same_setup s s4" by (auto simp: same_setup_def)
  then have "same_setup s (smtp_check w p1 s4)" using smtp_check_setup same_setup_trans by blast
  with run run4 show ?thesis by (auto simp: OS_ClearXML_def same_setup_def)
qed

lemma silent_email_alert: "silent (email_alert w)"
proof (rule silentI)
  fix s t assume run: "email_alert w s = Inr t"
  show "lc_proj (trace t) = lc_proj (trace s)"
  proof (cases "reports (mond s)")
    case False
    with run show ?thesis by (simp add: email_alert_def)
  next
    case True
    with run obtain d where d: "w_xml w (cfg s) = Some d"
      by (cases "w_xml w (cfg s)") (auto simp: email_alert_def OS_ReadXML_def Let_def)
    from True d obtain p1 s4 where run4: "email_alert w s = Inr (OS_ClearXML (smtp_check w p1 s4))"
      and shape: "\<exists>h n m. s4 = ((emit (Sys_read_xml (cfg s)) s)\<lparr>xml_open := True\<rparr>)
                               \<lparr>heap := h, next_ptr := n, mond := m\<rparr>"
      and "heap_wf s \<Longrightarrow> heap_wf s4"
      using email_alert_read by blast
    from shape have "trace s4 = trace s @ [Sys_read_xml (cfg s)]" by auto
    with run run4 show ?thesis by (auto simp: OS_ClearXML_def lc_proj_smtp_check)
  qed
next
  fix s r t assume "email_alert w s = Inl (r, t)"
  then show "lc_proj (trace t) = lc_proj (trace s) @ [Sys_exit (exit_code r)]"
    by (auto simp: email_alert_def OS_ReadXML_def Let_def exit_with_def emit_def
        split: if_splits option.splits prod.splits)
qed

lemma fatal_email_alert: "fatal_exits (email_alert w)"
  by (rule fatal_exitsI) (auto simp: email_alert_def OS_ReadXML_def Let_def exit_with_def
      split: if_splits option.splits prod.splits)

end
