(* ===== verification/Privsep.thy ===== *)
theory Privsep
  imports Cli
begin

text \<open>
  Daemonization and privilege separation (\<open>src/monitord/main.c\<close>, lines 183--206).
  \<open>daemonize\<close> is lines 183--187: unless \<open>-f\<close> was given, \<open>nowDaemon\<close> sets the
  daemon flag and \<open>goDaemon\<close> forks.  \<open>drop_privileges\<close> is lines 189--206: group,
  then chroot, then \<open>nowChroot\<close>, then user, each failure fatal with its own reason.
  The lemmas give the outcome of each branch, the order of the privilege calls, the
  credentials after success, and why the order matters under POSIX rules:
  \<open>drop_privileges_user_first\<close> is the same sequence with the user changed first,
  which is not the code but the alternative the specification rules out.
\<close>

definition nowDaemon :: "'a proc_scheme \<Rightarrow> 'a proc_scheme" where
  "nowDaemon s = s\<lparr>daemon_flag := True\<rparr>"

definition nowChroot :: "'a proc_scheme \<Rightarrow> 'a proc_scheme" where
  "nowChroot s = s\<lparr>chroot_flag := True\<rparr>"

definition daemonize :: "world \<Rightarrow> frame \<Rightarrow> (exit_reason, frame) exn" where
  "daemonize w s = (if \<not> run_foreground s then goDaemon w (nowDaemon s) else Inr s)"

definition drop_privileges :: "world \<Rightarrow> frame \<Rightarrow> (exit_reason, frame) exn" where
  "drop_privileges w s =
     (let (r1, s1) = Privsep_SetGroup w (gid s) s in
      if r1 < 0 then exit_with (Fatal (Setgid_error (group s))) s1 else
      let (r2, s2) = Privsep_Chroot w (dir s1) s1 in
      if r2 < 0 then exit_with (Fatal (Chroot_error (dir s1))) s2 else
      let s3 = nowChroot s2;
          (r3, s4) = Privsep_SetUser w (uid s3) s3 in
      if r3 < 0 then exit_with (Fatal (Setuid_error (user s3))) s4 else
      Inr (mdebug1 (PRIVSEP_MSG (dir s4) (user s4)) s4))"

definition drop_privileges_user_first :: "world \<Rightarrow> frame \<Rightarrow> (exit_reason, frame) exn" where
  "drop_privileges_user_first w s =
     (let (r3, s1) = Privsep_SetUser w (uid s) s in
      if r3 < 0 then exit_with (Fatal (Setuid_error (user s))) s1 else
      let (r1, s2) = Privsep_SetGroup w (gid s1) s1 in
      if r1 < 0 then exit_with (Fatal (Setgid_error (group s1))) s2 else
      let (r2, s3) = Privsep_Chroot w (dir s2) s2 in
      if r2 < 0 then exit_with (Fatal (Chroot_error (dir s2))) s3 else Inr s3)"

text \<open>When each privilege call succeeds, under the POSIX rules of \<open>Process\<close>.\<close>

definition setgid_ok :: "world \<Rightarrow> 'a proc_scheme \<Rightarrow> gid_t \<Rightarrow> bool" where
  "setgid_ok w s g \<longleftrightarrow> cur_uid s = 0 \<and> \<not> w_fault w (Sys_setgid g)"

definition chroot_ok :: "world \<Rightarrow> 'a proc_scheme \<Rightarrow> string \<Rightarrow> bool" where
  "chroot_ok w s d \<longleftrightarrow> cur_uid s = 0 \<and> d \<in> w_dirs w \<and> \<not> w_fault w (Sys_chroot d)"

definition setuid_ok :: "world \<Rightarrow> 'a proc_scheme \<Rightarrow> uid_t \<Rightarrow> bool" where
  "setuid_ok w s u \<longleftrightarrow> (cur_uid s = 0 \<or> cur_uid s = u) \<and> \<not> w_fault w (Sys_setuid u)"

text \<open>A fresh process after its ids were resolved to those of \<open>ex_world\<close>.\<close>

definition ex_priv_frame :: frame where
  "ex_priv_frame = (init_frame proc_start)\<lparr>uid := 1001, gid := 1001\<rparr>"

subsection \<open>The branches of \<open>drop_privileges\<close>\<close>

lemmas ex_priv_defs = ex_priv_frame_def proc_start_def ex_world_def DEFAULTDIR_def setgid_ok_def
  chroot_ok_def setuid_ok_def

lemmas privsep_unfold = drop_privileges_def Privsep_SetGroup_def Privsep_Chroot_def
  Privsep_SetUser_def nowChroot_def mdebug1_def exit_with_def emit_def Let_def
  setgid_ok_def chroot_ok_def setuid_ok_def

lemma drop_privileges_setgid_fails:
  "\<not> setgid_ok w s (gid s) \<Longrightarrow>
   drop_privileges w s =
     Inl (Fatal (Setgid_error (group s)), s\<lparr>trace := trace s @ [Sys_setgid (gid s), Sys_exit 1]\<rparr>)"
  by (auto simp: privsep_unfold)

lemma drop_privileges_chroot_fails:
  "setgid_ok w s (gid s) \<Longrightarrow> \<not> chroot_ok w s (dir s) \<Longrightarrow>
   drop_privileges w s =
     Inl (Fatal (Chroot_error (dir s)),
          s\<lparr>trace := trace s @ [Sys_setgid (gid s), Sys_chroot (dir s), Sys_exit 1],
            cur_gid := gid s\<rparr>)"
  by (simp add: privsep_unfold)

lemma drop_privileges_setuid_fails:
  "setgid_ok w s (gid s) \<Longrightarrow> chroot_ok w s (dir s) \<Longrightarrow> \<not> setuid_ok w s (uid s) \<Longrightarrow>
   drop_privileges w s =
     Inl (Fatal (Setuid_error (user s)),
          s\<lparr>trace := trace s @ [Sys_setgid (gid s), Sys_chroot (dir s), Sys_setuid (uid s), Sys_exit 1],
            cur_gid := gid s, root_dir := dir s, chroot_flag := True\<rparr>)"
  by (simp add: privsep_unfold)

lemma drop_privileges_succeeds:
  "setgid_ok w s (gid s) \<Longrightarrow> chroot_ok w s (dir s) \<Longrightarrow> setuid_ok w s (uid s) \<Longrightarrow>
   drop_privileges w s =
     Inr (s\<lparr>trace := trace s @ [Sys_setgid (gid s), Sys_chroot (dir s), Sys_setuid (uid s),
                                 Sys_log L_debug1 (PRIVSEP_MSG (dir s) (user s))],
            cur_gid := gid s, root_dir := dir s, chroot_flag := True, cur_uid := uid s\<rparr>)"
  by (simp add: privsep_unfold)

lemmas drop_privileges_branches = drop_privileges_setgid_fails drop_privileges_chroot_fails
  drop_privileges_setuid_fails drop_privileges_succeeds

lemma daemonize_foreground: "run_foreground s \<Longrightarrow> daemonize w s = Inr s"
  by (simp add: daemonize_def)

lemma daemonize_background:
  "\<not> run_foreground s \<Longrightarrow>
   daemonize w s =
     (if w_fault w Sys_fork
      then Inl (Fatal Daemon_error, s\<lparr>daemon_flag := True, trace := trace s @ [Sys_fork, Sys_exit 1]\<rparr>)
      else Inr (s\<lparr>daemon_flag := True, trace := trace s @ [Sys_fork], detached := True\<rparr>))"
  by (simp add: daemonize_def goDaemon_def nowDaemon_def exit_with_def emit_def Let_def)


lemma drop_privileges_cases:
  obtains (setgid) "\<not> setgid_ok w s (gid s)"
  | (chroot) "setgid_ok w s (gid s)" "\<not> chroot_ok w s (dir s)"
  | (setuid) "setgid_ok w s (gid s)" "chroot_ok w s (dir s)" "\<not> setuid_ok w s (uid s)"
  | (ok) "setgid_ok w s (gid s)" "chroot_ok w s (dir s)" "setuid_ok w s (uid s)"
  by blast

lemma drop_privileges_Inr_ok:
  "drop_privileges w s = Inr t \<Longrightarrow> setgid_ok w s (gid s) \<and> chroot_ok w s (dir s) \<and> setuid_ok w s (uid s)"
  by (cases rule: drop_privileges_cases [of w s]) (simp_all add: drop_privileges_branches)

subsection \<open>Order and effect of the privilege calls\<close>

text \<open>C4 Whatever the outcome, the privilege calls made by lines 189--206 are a
  non-empty prefix of: change group to the resolved gid, chroot into the directory,
  change user to the resolved uid; no other privilege call is made.\<close>

theorem drop_privileges_call_order:
  "\<exists>k. 0 < k \<and> k \<le> 3 \<and>
     filter priv_event (trace (outcome_state (drop_privileges w s))) =
       filter priv_event (trace s) @ take k [Sys_setgid (gid s), Sys_chroot (dir s), Sys_setuid (uid s)]"
proof (cases rule: drop_privileges_cases [of w s])
  case setgid
  then show ?thesis by (intro exI [of _ 1]) (simp add: drop_privileges_branches)
next
  case chroot
  then show ?thesis by (intro exI [of _ 2]) (simp add: drop_privileges_branches)
next
  case setuid
  then show ?thesis by (intro exI [of _ 3]) (simp add: drop_privileges_branches)
next
  case ok
  then show ?thesis by (intro exI [of _ 3]) (simp add: drop_privileges_branches)
qed

text \<open>C5 A failed chroot ends the process with exit code 1 before any change of
  user: the process keeps its uid and makes no \<open>setuid\<close> call.\<close>

theorem drop_privileges_chroot_failure:
  assumes "\<not> chroot_ok w s (dir s)"
  shows "\<exists>r t. drop_privileges w s = Inl (r, t) \<and> exit_code r = 1 \<and> cur_uid t = cur_uid s \<and>
           Sys_setuid (uid s) \<notin> set (drop (length (trace s)) (trace t))"
  using assms by (cases "setgid_ok w s (gid s)") (simp_all add: drop_privileges_branches)

theorem drop_privileges_chroot_failure_witness:
  "\<exists>r t. drop_privileges ex_world (ex_priv_frame\<lparr>dir := ''/srv''\<rparr>) = Inl (r, t) \<and>
     exit_code r = 1 \<and> cur_uid t = 0 \<and> Sys_setuid 1001 \<notin> set (drop 0 (trace t))"
proof -
  have "\<not> chroot_ok ex_world (ex_priv_frame\<lparr>dir := ''/srv''\<rparr>) (dir (ex_priv_frame\<lparr>dir := ''/srv''\<rparr>))"
    by (simp add: ex_priv_frame_def proc_start_def ex_world_def DEFAULTDIR_def chroot_ok_def)
  from drop_privileges_chroot_failure [OF this] show ?thesis
    by (simp add: ex_priv_frame_def proc_start_def)
qed

text \<open>C15 When privilege separation falls through, the process runs with the
  resolved gid and uid, confined to the chroot directory, and the confinement
  indicator is set.\<close>

theorem drop_privileges_success:
  assumes "drop_privileges w s = Inr t"
  shows "cur_gid t = gid s \<and> cur_uid t = uid s \<and> root_dir t = dir s \<and> chroot_flag t"
  using assms by (cases rule: drop_privileges_cases [of w s]) (auto simp: drop_privileges_branches)

theorem drop_privileges_success_witness:
  "\<exists>t. drop_privileges ex_world ex_priv_frame = Inr t \<and>
     cur_gid t = 1001 \<and> cur_uid t = 1001 \<and> root_dir t = DEFAULTDIR \<and> chroot_flag t"
proof -
  have "setgid_ok ex_world ex_priv_frame (gid ex_priv_frame)"
    "chroot_ok ex_world ex_priv_frame (dir ex_priv_frame)"
    "setuid_ok ex_world ex_priv_frame (uid ex_priv_frame)"
    by (simp_all add: ex_priv_defs)
  then obtain t where run: "drop_privileges ex_world ex_priv_frame = Inr t"
    by (simp add: drop_privileges_succeeds)
  from drop_privileges_success [OF run] run show ?thesis by (simp add: ex_priv_frame_def)
qed

text \<open>C16 The order matters: for a process started as root with a non-root
  target user and nothing else failing, the code's order (group, chroot, user)
  succeeds, while changing the user first leaves the process unable to change its
  group (\<open>setgroups\<close> needs root).\<close>

theorem privsep_order_rationale:
  assumes "cur_uid s = 0" and "uid s \<noteq> 0" and "dir s \<in> w_dirs w"
    and "\<forall>e. \<not> w_fault w e"
  shows "(\<exists>t. drop_privileges w s = Inr t) \<and>
         (\<exists>t. drop_privileges_user_first w s = Inl (Fatal (Setgid_error (group s)), t))"
  using assms
  by (simp add: drop_privileges_succeeds setgid_ok_def chroot_ok_def setuid_ok_def
      drop_privileges_user_first_def Privsep_SetGroup_def Privsep_SetUser_def exit_with_def
      emit_def Let_def)

theorem privsep_order_rationale_witness:
  "(\<exists>t. drop_privileges ex_world ex_priv_frame = Inr t) \<and>
   (\<exists>t. drop_privileges_user_first ex_world ex_priv_frame =
          Inl (Fatal (Setgid_error (group ex_priv_frame)), t))"
  by (rule privsep_order_rationale) (simp_all add: ex_priv_defs)

text \<open>C29 The confinement indicator is set before the user change: when
  \<open>setuid\<close> fails after a successful chroot, the process ends with the indicator
  already set.\<close>

theorem drop_privileges_flag_before_setuid:
  assumes "setgid_ok w s (gid s)" and "chroot_ok w s (dir s)" and "\<not> setuid_ok w s (uid s)"
  shows "\<exists>t. drop_privileges w s = Inl (Fatal (Setuid_error (user s)), t) \<and> chroot_flag t"
  using assms by (simp add: drop_privileges_setuid_fails)

theorem drop_privileges_flag_before_setuid_witness:
  "\<exists>t. drop_privileges (ex_world\<lparr>w_fault := (\<lambda>e. e = Sys_setuid 1001)\<rparr>) ex_priv_frame =
     Inl (Fatal (Setuid_error (user ex_priv_frame)), t) \<and> chroot_flag t"
  by (rule drop_privileges_flag_before_setuid) (simp_all add: ex_priv_defs)

end
