(* ===== verification/Guard.thy ===== *)
theory Guard
  imports Cli
begin

text \<open>
  The signal controller and the instance guard (\<open>src/monitord/main.c\<close>, lines
  208--217): \<open>StartSIG(ARGV0)\<close> installs the handler table, then \<open>CreatePID\<close>
  writes the marker for this program's label and a failure is fatal; on success the
  start-up message with the process id is logged.
\<close>

definition start_signals :: "frame \<Rightarrow> frame" where
  "start_signals s = StartSIG ARGV0 s"

definition register_pid :: "world \<Rightarrow> frame \<Rightarrow> (exit_reason, frame) exn" where
  "register_pid w s =
     (let (r, s1) = CreatePID w ARGV0 (w_pid w) s in
      if r < 0 then exit_with (Fatal Pid_error) s1
      else Inr (minfo (STARTUP_MSG (w_pid w)) s1))"

definition pid_ok :: "world \<Rightarrow> 'a proc_scheme \<Rightarrow> bool" where
  "pid_ok w s \<longleftrightarrow> ARGV0 \<notin> dom (pid_files s) \<and> \<not> w_fault w (Sys_create_pid ARGV0 (w_pid w))"

subsection \<open>Outcomes\<close>

lemma start_signals_effect [simp]:
  "trace (start_signals s) = trace s @ [Sys_start_sig ARGV0]"
  "handlers (start_signals s) = handlers s ++ sig_table"
  by (simp_all add: start_signals_def StartSIG_def emit_def)

lemma register_pid_fails:
  "\<not> pid_ok w s \<Longrightarrow>
   register_pid w s = Inl (Fatal Pid_error,
     s\<lparr>trace := trace s @ [Sys_create_pid ARGV0 (w_pid w), Sys_exit 1]\<rparr>)"
  by (auto simp: register_pid_def CreatePID_def pid_ok_def exit_with_def emit_def Let_def)

lemma register_pid_succeeds:
  "pid_ok w s \<Longrightarrow>
   register_pid w s = Inr (s\<lparr>trace := trace s @ [Sys_create_pid ARGV0 (w_pid w),
                                                Sys_log L_info (STARTUP_MSG (w_pid w))],
                            pid_files := (pid_files s)(ARGV0 \<mapsto> w_pid w)\<rparr>)"
  by (auto simp: register_pid_def CreatePID_def pid_ok_def minfo_def emit_def Let_def)

end
