(* ===== verification/Getopt.thy ===== *)
theory Getopt
  imports Cli
begin

text \<open>
  The option scanner \<open>main\<close> calls at line 57 of \<open>src/monitord/main.c\<close>:
  \<open>getopt(argc, argv, "Vdhtfu:g:D:c:n")\<close>.  \<open>getopt\<close> belongs to the C library; it is
  modelled from its POSIX/GNU contract.  A word \<open>-xyz\<close> holds the options \<open>x\<close>,
  \<open>y\<close>, \<open>z\<close>; an option followed by \<open>:\<close> in the option string takes the rest of
  its word or, if that is empty, the next word; an unknown option or a missing argument
  yields \<open>'?'\<close>; non-option words are skipped (GNU permutation) and \<open>--\<close> ends the
  scan.  \<open>getopt_go os cs args\<close> scans the rest \<open>cs\<close> of the current word, then the
  words \<open>args\<close>; it is what the \<open>while\<close> loop of \<open>main\<close> sees, one token per call.
\<close>

definition OPTSTRING :: string where
  "OPTSTRING = ''Vdhtfu:g:D:c:n''"

fun takes_arg :: "string \<Rightarrow> char \<Rightarrow> bool" where
  "takes_arg (x # CHR '':'' # r) c = (x = c \<or> takes_arg r c)"
| "takes_arg (x # r) c = takes_arg r c"
| "takes_arg [] c = False"

definition opt_char :: "string \<Rightarrow> char \<Rightarrow> bool" where
  "opt_char os c \<longleftrightarrow> c \<in> set os \<and> c \<noteq> CHR '':''"

function getopt_go :: "string \<Rightarrow> string \<Rightarrow> string list \<Rightarrow> getopt_tok list" where
  "getopt_go os [] [] = []"
| "getopt_go os [] (a # as) =
     (if a = ''--'' then []
      else case a of
             d # c # cs \<Rightarrow> if d = CHR ''-'' then getopt_go os (c # cs) as else getopt_go os [] as
           | _ \<Rightarrow> getopt_go os [] as)"
| "getopt_go os (c # cs) as =
     (if \<not> opt_char os c then (CHR ''?'', None) # getopt_go os cs as
      else if takes_arg os c then
        (if cs \<noteq> [] then (c, Some cs) # getopt_go os [] as
         else case as of
                [] \<Rightarrow> [(CHR ''?'', None)]
              | b # bs \<Rightarrow> (c, Some b) # getopt_go os [] bs)
      else (c, None) # getopt_go os cs as)"
  by pat_completeness auto

termination
  by (relation "measure (\<lambda>(os, cs, as). length cs + sum_list (map (Suc \<circ> length) as))") auto

definition getopt_all :: "string list \<Rightarrow> getopt_tok list" where
  "getopt_all argv = getopt_go OPTSTRING [] (drop 1 argv)"

text \<open>One call of \<open>getopt\<close>: the next token and the scanner's hidden position
  (\<open>nextchar\<close>, the words from \<open>optind\<close> on), or \<open>None\<close> for the \<open>-1\<close> that ends the
  loop.\<close>

function getopt_next :: "string \<Rightarrow> string \<Rightarrow> string list \<Rightarrow> (getopt_tok \<times> string \<times> string list) option" where
  "getopt_next os [] [] = None"
| "getopt_next os [] (a # as) =
     (if a = ''--'' then None
      else case a of
             d # c # cs \<Rightarrow> if d = CHR ''-'' then getopt_next os (c # cs) as else getopt_next os [] as
           | _ \<Rightarrow> getopt_next os [] as)"
| "getopt_next os (c # cs) as =
     (if \<not> opt_char os c then Some ((CHR ''?'', None), cs, as)
      else if takes_arg os c then
        (if cs \<noteq> [] then Some ((c, Some cs), [], as)
         else case as of
                [] \<Rightarrow> Some ((CHR ''?'', None), [], [])
              | b # bs \<Rightarrow> Some ((c, Some b), [], bs))
      else Some ((c, None), cs, as))"
  by pat_completeness auto

termination
  by (relation "measure (\<lambda>(os, cs, as). length cs + sum_list (map (Suc \<circ> length) as))") auto

text \<open>The characters and words left to scan: the fuel that suffices for the loop.\<close>

definition scan_size :: "string \<Rightarrow> string list \<Rightarrow> nat" where
  "scan_size cs as = length cs + sum_list (map (Suc \<circ> length) as)"

text \<open>The loop of lines 57--106 as \<open>main\<close> runs it: one \<open>getopt\<close> call, one pass
  of the \<open>switch\<close>, with fuel; \<open>None\<close> is running out of fuel.\<close>

fun getopt_loop :: "nat \<Rightarrow> string \<Rightarrow> string list \<Rightarrow> frame \<Rightarrow> (exit_reason, frame) exn option" where
  "getopt_loop 0 cs as s = None"
| "getopt_loop (Suc n) cs as s =
     (case getopt_next OPTSTRING cs as of
        None \<Rightarrow> Some (Inr s)
      | Some (t, cs', as') \<Rightarrow>
          (case parse_opt t s of
             Inl e \<Rightarrow> Some (Inl e)
           | Inr s' \<Rightarrow> getopt_loop n cs' as' s'))"

text \<open>The tokens \<open>getopt\<close> can return for an option string: an option character with
  an argument exactly when it takes one.\<close>

fun tok_ok :: "string \<Rightarrow> getopt_tok \<Rightarrow> bool" where
  "tok_ok os (c, a) \<longleftrightarrow> opt_char os c \<and> (takes_arg os c \<longleftrightarrow> a \<noteq> None)"

text \<open>Printing tokens back to command-line words, one word per option and argument.\<close>

fun render_tok :: "getopt_tok \<Rightarrow> string list" where
  "render_tok (c, None) = [[CHR ''-'', c]]"
| "render_tok (c, Some a) = [[CHR ''-'', c], a]"

definition render :: "string \<Rightarrow> getopt_tok list \<Rightarrow> string list" where
  "render argv0 ts = argv0 # concat (map render_tok ts)"

subsection \<open>The scanner on rendered words\<close>

lemma opt_char_OPTSTRING: "opt_char OPTSTRING c \<longleftrightarrow> c \<in> set ''VdhtfugDcn''"
  by (auto simp: opt_char_def OPTSTRING_def)

lemma takes_arg_OPTSTRING: "takes_arg OPTSTRING c \<longleftrightarrow> c \<in> set ''ugDc''"
  by (auto simp: OPTSTRING_def)

lemma getopt_go_tok:
  assumes "tok_ok os (c, a)" and "c \<noteq> CHR ''-''"
  shows "getopt_go os [] (render_tok (c, a) @ rest) = (c, a) # getopt_go os [] rest"
  using assms by (cases a) auto

lemma getopt_go_render:
  "list_all (\<lambda>t. tok_ok os t \<and> fst t \<noteq> CHR ''-'') ts \<Longrightarrow>
   getopt_go os [] (concat (map render_tok ts) @ rest) = ts @ getopt_go os [] rest"
proof (induction ts)
  case Nil
  then show ?case by simp
next
  case (Cons t ts)
  obtain c a where t: "t = (c, a)" by fastforce
  with Cons show ?case using getopt_go_tok [of os c a "concat (map render_tok ts) @ rest"] by simp
qed

lemma getopt_all_render:
  "list_all (tok_ok OPTSTRING) ts \<Longrightarrow>
   getopt_all (render argv0 ts @ rest) = ts @ getopt_go OPTSTRING [] rest"
proof -
  assume "list_all (tok_ok OPTSTRING) ts"
  then have "list_all (\<lambda>t. tok_ok OPTSTRING t \<and> fst t \<noteq> CHR ''-'') ts"
    by (auto simp: list_all_iff opt_char_OPTSTRING)
  then show ?thesis by (simp add: getopt_all_def render_def getopt_go_render)
qed

lemma getopt_go_wf:
  "t \<in> set (getopt_go os cs as) \<Longrightarrow> t = (CHR ''?'', None) \<or> tok_ok os t"
  by (induction os cs as rule: getopt_go.induct) (auto split: if_splits list.splits)

lemma getopt_go_next:
  "getopt_go os cs as =
     (case getopt_next os cs as of None \<Rightarrow> [] | Some (t, cs', as') \<Rightarrow> t # getopt_go os cs' as')"
  by (induction os cs as rule: getopt_go.induct) (auto split: list.splits)

lemma getopt_next_size:
  "getopt_next os cs as = Some (t, cs', as') \<Longrightarrow> scan_size cs' as' < scan_size cs as"
  by (induction os cs as rule: getopt_next.induct)
     (auto simp: scan_size_def split: if_splits list.splits)

subsection \<open>What the option loop receives\<close>

text \<open>Printing a list of well-formed tokens as command-line words and
  scanning the words with the option string of line 57 gives the tokens back.\<close>

lemma getopt_roundtrip:
  assumes "list_all (tok_ok OPTSTRING) ts"
  shows "getopt_all (render argv0 ts) = ts"
  using getopt_all_render [OF assms, of argv0 "[]"] by simp

lemma getopt_roundtrip_example:
  "getopt_all (render ''ossec-monitord'' [(CHR ''u'', Some ''-n''), (CHR ''f'', None)]) =
     [(CHR ''u'', Some ''-n''), (CHR ''f'', None)]"
  by (rule getopt_roundtrip) (simp add: opt_char_def OPTSTRING_def)

text \<open>Every token the loop of \<open>main\<close> receives is \<open>'?'\<close> or an option
  of the option string carrying an argument exactly when the option takes one.\<close>

lemma getopt_tokens_wf:
  "list_all (\<lambda>t. t = (CHR ''?'', None) \<or> tok_ok OPTSTRING t) (getopt_all argv)"
  by (auto simp: list_all_iff getopt_all_def dest: getopt_go_wf)

text \<open>C32 The four \<open>"-x needs an argument"\<close> exits of lines 71--91 are
  unreachable: on the tokens \<open>getopt\<close> returns, the option loop never ends with
  \<open>Missing_arg\<close>; a missing argument arrives as \<open>'?'\<close> and takes the \<open>default\<close>
  branch.\<close>

theorem getopt_no_missing_arg:
  "parse_args (getopt_all argv) s \<noteq> Inl (Fatal (Missing_arg c), t)"
proof
  assume "parse_args (getopt_all argv) s = Inl (Fatal (Missing_arg c), t)"
  then have "(c, None) \<in> set (getopt_all argv)" and c: "c \<in> set ''ugDc''"
    by (blast dest: parse_args_Missing_arg)+
  then have "tok_ok OPTSTRING (c, None)"
    using getopt_go_wf [of "(c, None)"] by (auto simp: getopt_all_def)
  with c show False by (simp add: takes_arg_OPTSTRING)
qed

subsection \<open>The loop with the stateful scanner\<close>

text \<open>The option loop of \<open>main\<close> ends: with more fuel than characters
  and words left on the command line it returns, and its outcome is the option loop
  over the scanned tokens.\<close>

lemma getopt_loop_terminates:
  "scan_size cs as < n \<Longrightarrow> getopt_loop n cs as s = Some (parse_args (getopt_go OPTSTRING cs as) s)"
proof (induction n arbitrary: cs as s)
  case 0
  then show ?case by simp
next
  case (Suc n)
  show ?case
  proof (cases "getopt_next OPTSTRING cs as")
    case None
    then show ?thesis by (simp add: getopt_go_next [of _ cs as])
  next
    case (Some x)
    then obtain t cs' as' where x: "getopt_next OPTSTRING cs as = Some (t, cs', as')"
      by (cases x) auto
    have "scan_size cs' as' < n" using getopt_next_size [OF x] Suc.prems by simp
    with Suc.IH x show ?thesis
      by (cases "parse_opt t s") (simp_all add: getopt_go_next [of _ cs as])
  qed
qed

lemma getopt_loop_terminates_example:
  "getopt_loop 20 [] [''-f'', ''-u'', ''ossec''] (init_frame proc_start) =
     Some (parse_args (getopt_go OPTSTRING [] [''-f'', ''-u'', ''ossec'']) (init_frame proc_start))"
  by (rule getopt_loop_terminates) (simp add: scan_size_def)

text \<open>Interleaving the \<open>getopt\<close> calls with the \<open>switch\<close>, as the C loop
  does, is equivalent to scanning the whole command line first and then running the
  option loop on the tokens (\<open>parse_args\<close>, on which \<open>monitord_main\<close> is built),
  whatever fuel the loop is given.\<close>

lemma getopt_loop_equiv:
  "getopt_loop n cs as s = Some r \<Longrightarrow> r = parse_args (getopt_go OPTSTRING cs as) s"
proof (induction n arbitrary: cs as s)
  case 0
  then show ?case by simp
next
  case (Suc n)
  show ?case
  proof (cases "getopt_next OPTSTRING cs as")
    case None
    with Suc.prems show ?thesis by (simp add: getopt_go_next [of _ cs as])
  next
    case (Some x)
    then obtain t cs' as' where x: "getopt_next OPTSTRING cs as = Some (t, cs', as')"
      by (cases x) auto
    with Suc show ?thesis
      by (cases "parse_opt t s") (auto simp: getopt_go_next [of _ cs as])
  qed
qed

lemma getopt_loop_equiv_example:
  "getopt_loop 3 [] [''-t''] (init_frame proc_start) = Some (Inr ((init_frame proc_start)\<lparr>test_config := True\<rparr>)) \<and>
   Inr ((init_frame proc_start)\<lparr>test_config := True\<rparr>) = parse_args (getopt_go OPTSTRING [] [''-t'']) (init_frame proc_start)"
proof -
  have run: "getopt_loop 3 [] [''-t''] (init_frame proc_start) = Some (Inr ((init_frame proc_start)\<lparr>test_config := True\<rparr>))"
    by (simp add: eval_nat_numeral OPTSTRING_def opt_char_def parse_opt_def)
  with getopt_loop_equiv [OF run] show ?thesis by simp
qed

lemma ex_getopt: "getopt_all [''ossec-monitord'', ''-fdu'', ''ossec'', ''x'', ''-c/etc/o.conf'', ''--'', ''-t''] =
   [(CHR ''f'', None), (CHR ''d'', None), (CHR ''u'', Some ''ossec''), (CHR ''c'', Some ''/etc/o.conf'')]"
  by (simp add: getopt_all_def OPTSTRING_def opt_char_def)

lemma ex_getopt_missing: "getopt_all [''ossec-monitord'', ''-t'', ''-g''] = [(CHR ''t'', None), (CHR ''?'', None)]"
  by (simp add: getopt_all_def OPTSTRING_def opt_char_def)

end
