(* ===== verification/Orchestrator.thy ===== *)
theory Orchestrator
  imports Identity Settings Email_Alert Privsep Guard Getopt
begin

text \<open>
  The bootstrap orchestrator: \<open>main\<close> of \<open>src/monitord/main.c\<close> (lines 40--222)
  composed from the components, in the order of the source.  \<open>configure\<close> is lines
  108--176 (start message, identity, settings, reports section, email alerting),
  \<open>go_live\<close> lines 183--217 (daemonize, privilege separation, signals, PID marker),
  \<open>bootstrap\<close> joins them at the \<open>-t\<close> exit of lines 178--181, and
  \<open>monitord_main\<close> runs the option loop first.  \<open>Inr\<close> is the call of the work
  loop \<open>Monitord()\<close> (line 220) with the final state.
  \<open>main_argv\<close> is \<open>main\<close> over its command line, through \<open>getopt\<close>.
  The lemmas here give the lifecycle calls of each part, the settings \<open>configure\<close>
  hands on, the heap invariant across the stages, and that only root gets through
  privilege separation; the root theory derives the refinement of the abstract
  lifecycle and the end-to-end properties.
\<close>

definition configure :: "world \<Rightarrow> frame \<Rightarrow> (exit_reason, frame) exn" where
  "configure w s0 =
     bindE (resolve_identity w (mdebug1 STARTED_MSG s0)) (\<lambda>s1.
     bindE (load_settings w s1) (\<lambda>s2.
     bindE (read_reports_config w s2) (\<lambda>s3.
     email_alert w s3)))"

definition go_live :: "world \<Rightarrow> frame \<Rightarrow> (exit_reason, frame) exn" where
  "go_live w s4 =
     bindE (daemonize w s4) (\<lambda>s5.
     bindE (drop_privileges w s5) (\<lambda>s6.
     register_pid w (start_signals s6)))"

definition bootstrap :: "world \<Rightarrow> frame \<Rightarrow> (exit_reason, frame) exn" where
  "bootstrap w s =
     bindE (configure w s) (\<lambda>s4. if test_config s4 then exit_with Test_ok s4 else go_live w s4)"

definition monitord_main :: "world \<Rightarrow> proc \<Rightarrow> getopt_tok list \<Rightarrow> (exit_reason, frame) exn" where
  "monitord_main w p opts = bindE (parse_args opts (init_frame p)) (bootstrap w)"

text \<open>\<open>main (argc, argv)\<close>: the option loop fed by \<open>getopt\<close> over the command line.\<close>

definition main_argv :: "world \<Rightarrow> proc \<Rightarrow> string list \<Rightarrow> (exit_reason, frame) exn" where
  "main_argv w p argv = monitord_main w p (getopt_all argv)"

subsection \<open>Lifecycle calls of each part\<close>

declare monitord_main_def [boot_defs] bootstrap_def [boot_defs] configure_def [boot_defs]
  go_live_def [boot_defs] resolve_identity_def [boot_defs] Privsep_GetUser_def [boot_defs]
  Privsep_GetGroup_def [boot_defs] load_settings_def [boot_defs] define_step_def [boot_defs]
  getDefine_Int_def [boot_defs] read_reports_config_def [boot_defs] ReadConfig_def [boot_defs]
  email_alert_def [boot_defs] OS_ReadXML_def [boot_defs] smtp_check_def [boot_defs]
  OS_ClearXML_def [boot_defs] OS_GetHost_def [boot_defs] os_strdup_def [boot_defs]
  merror_def [boot_defs] free_opt_def [boot_defs] os_free_def [boot_defs] deref_def [boot_defs]
  daemonize_def [boot_defs] goDaemon_def [boot_defs] nowDaemon_def [boot_defs]
  drop_privileges_def [boot_defs] Privsep_SetGroup_def [boot_defs] Privsep_Chroot_def [boot_defs]
  Privsep_SetUser_def [boot_defs] nowChroot_def [boot_defs] mdebug1_def [boot_defs]
  register_pid_def [boot_defs] CreatePID_def [boot_defs] start_signals_def [boot_defs]
  StartSIG_def [boot_defs] minfo_def [boot_defs] exit_with_def [boot_defs] emit_def [boot_defs]
  ex_world_def [boot_defs] ex_doc_def [boot_defs] proc_start_def [boot_defs] xml_smtp_def [boot_defs]
  xml_from_def [boot_defs] xml_idsname_def [boot_defs] USER_def [boot_defs]
  GROUPGLOBAL_def [boot_defs] DEFAULTCPATH_def [boot_defs] DEFAULTDIR_def [boot_defs]

lemma main_parse_Inl:
  "parse_args opts (init_frame p) = Inl e \<Longrightarrow> monitord_main w p opts = Inl e"
  by (simp add: monitord_main_def)

lemma main_parse_Inr:
  "parse_args opts (init_frame p) = Inr s \<Longrightarrow> monitord_main w p opts = bootstrap w s"
  by (simp add: monitord_main_def)

lemma lc_run_exit_only: "lc_run Configured [Sys_exit c] (Exited c)"
  by (blast intro: lc_intros)

lemma silent_mdebug1_then:
  "silent f \<Longrightarrow> silent (\<lambda>s. f (mdebug1 m s))"
  by (rule silentI) (auto simp: mdebug1_def emit_def dest: silentD)

lemma silent_configure: "silent (configure w)"
  unfolding configure_def
  by (intro silent_bindE silent_mdebug1_then silent_resolve_identity silent_load_settings
      silent_read_reports_config silent_email_alert)

lemma fatal_configure: "fatal_exits (configure w)"
proof -
  have "fatal_exits (\<lambda>s. resolve_identity w (mdebug1 STARTED_MSG s))"
    using fatal_resolve_identity by (auto simp: fatal_exits_def)
  then show ?thesis
    unfolding configure_def
    by (intro fatal_exits_bindE fatal_load_settings fatal_read_reports_config fatal_email_alert)
qed

lemma configure_InrE:
  assumes "configure w s = Inr t"
  obtains s1 s2 s3 where "resolve_identity w (mdebug1 STARTED_MSG s) = Inr s1"
    and "load_settings w s1 = Inr s2" and "read_reports_config w s2 = Inr s3"
    and "email_alert w s3 = Inr t"
  using assms by (auto simp: configure_def bindE_eq_Inr_iff)

lemma configure_Inr:
  assumes "configure w s = Inr t"
  shows "os_view t = os_view s \<and> args_view t = args_view s \<and>
         uid t = the (w_users w (user s)) \<and> gid t = the (w_groups w (frame.group s)) \<and>
         lc_proj (trace t) = lc_proj (trace s)"
proof -
  from assms obtain s1 s2 s3 where r1: "resolve_identity w (mdebug1 STARTED_MSG s) = Inr s1"
    and r2: "load_settings w s1 = Inr s2" and r3: "read_reports_config w s2 = Inr s3"
    and r4: "email_alert w s3 = Inr t"
    by (rule configure_InrE)
  have "same_setup s1 t"
    using load_settings_setup [OF r2] read_reports_config_setup [OF r3] email_alert_setup [OF r4]
    by (simp add: same_setup_def)
  moreover have "lc_proj (trace t) = lc_proj (trace s)"
    using silentD(1) [OF silent_configure assms] .
  ultimately show ?thesis using resolve_identity_setup [OF r1]
    by (simp add: same_setup_def setup_of_def os_view_def args_view_def mdebug1_def emit_def)
qed

text \<open>The lifecycle calls of \<open>go_live\<close> follow the abstract machine from \<open>Configured\<close>.\<close>

lemma lc_tail:
  assumes run: "lc_run Configured (lc_proj (trace s6)) Uid_dropped"
  shows "lc_run Configured (lc_proj (trace (outcome_state (register_pid w (start_signals s6)))))
           (outcome_phase (register_pid w (start_signals s6)))"
proof (cases "pid_ok w (start_signals s6)")
  case True
  have "lc_run Uid_dropped [Sys_start_sig ARGV0, Sys_create_pid ARGV0 (w_pid w)] Registered"
    by (blast intro: lc_intros)
  with run True show ?thesis by (simp add: register_pid_succeeds lc_run_append)
next
  case False
  have "lc_run Uid_dropped [Sys_start_sig ARGV0, Sys_create_pid ARGV0 (w_pid w), Sys_exit 1] (Exited 1)"
    by (blast intro: lc_intros)
  with run False show ?thesis by (simp add: register_pid_fails lc_run_append)
qed

lemma lc_drop_then_tail:
  assumes run: "lc_run Configured (lc_proj (trace s5)) ph" and ph: "ph = Configured \<or> ph = Daemonized"
  shows "lc_run Configured
           (lc_proj (trace (outcome_state (bindE (drop_privileges w s5) (\<lambda>s6. register_pid w (start_signals s6))))))
           (outcome_phase (bindE (drop_privileges w s5) (\<lambda>s6. register_pid w (start_signals s6))))"
proof -
  have gid: "lc_step ph (Sys_setgid g) Gid_dropped" for g using ph by (auto intro: lc_intros)
  have nx: "\<not> is_exited ph" using ph by auto
  show ?thesis
  proof (cases rule: drop_privileges_cases [of w s5])
    case setgid
    have "lc_run ph [Sys_setgid (gid s5), Sys_exit 1] (Exited 1)"
      by (blast intro: lc_intros gid)
    with run setgid show ?thesis by (simp add: drop_privileges_branches lc_run_append)
  next
    case chroot
    have "lc_run ph [Sys_setgid (gid s5), Sys_chroot (dir s5), Sys_exit 1] (Exited 1)"
      by (blast intro: lc_intros gid)
    with run chroot show ?thesis by (simp add: drop_privileges_branches lc_run_append)
  next
    case setuid
    have "lc_run ph [Sys_setgid (gid s5), Sys_chroot (dir s5), Sys_setuid (uid s5), Sys_exit 1] (Exited 1)"
      by (blast intro: lc_intros gid)
    with run setuid show ?thesis by (simp add: drop_privileges_branches lc_run_append)
  next
    case ok
    have "lc_run ph [Sys_setgid (gid s5), Sys_chroot (dir s5), Sys_setuid (uid s5)] Uid_dropped"
      by (blast intro: lc_intros gid)
    with run have a: "lc_run Configured (lc_proj (trace s5) @
        [Sys_setgid (gid s5), Sys_chroot (dir s5), Sys_setuid (uid s5)]) Uid_dropped"
      by (rule lc_run_append)
    from ok obtain s6 where d: "drop_privileges w s5 = Inr s6"
      and tr: "trace s6 = trace s5 @ [Sys_setgid (gid s5), Sys_chroot (dir s5), Sys_setuid (uid s5),
                                       Sys_log L_debug1 (PRIVSEP_MSG (dir s5) (user s5))]"
      by (simp add: drop_privileges_succeeds)
    from a tr have "lc_run Configured (lc_proj (trace s6)) Uid_dropped" by simp
    then have "lc_run Configured (lc_proj (trace (outcome_state (register_pid w (start_signals s6)))))
           (outcome_phase (register_pid w (start_signals s6)))"
      by (rule lc_tail)
    with d show ?thesis by simp
  qed
qed

lemma go_live_lc:
  assumes "lc_proj (trace s) = []"
  shows "lc_run Configured (lc_proj (trace (outcome_state (go_live w s)))) (outcome_phase (go_live w s))"
proof (cases "run_foreground s")
  case True
  have "lc_run Configured (lc_proj (trace s)) Configured" using assms by (simp add: lc_run.nil)
  with True show ?thesis
    unfolding go_live_def by (simp add: daemonize_foreground lc_drop_then_tail)
next
  case False
  show ?thesis
  proof (cases "w_fault w Sys_fork")
    case True
    have "lc_run Configured [Sys_fork, Sys_exit 1] (Exited 1)" by (blast intro: lc_intros)
    with assms False True show ?thesis unfolding go_live_def by (simp add: daemonize_background)
  next
    case nofault: False
    let ?s5 = "s\<lparr>daemon_flag := True, trace := trace s @ [Sys_fork], detached := True\<rparr>"
    have "lc_run Configured (lc_proj (trace ?s5)) Daemonized"
      using assms by (simp add: lc_run_single lc_step.fork)
    then have "lc_run Configured
           (lc_proj (trace (outcome_state (bindE (drop_privileges w ?s5) (\<lambda>s6. register_pid w (start_signals s6))))))
           (outcome_phase (bindE (drop_privileges w ?s5) (\<lambda>s6. register_pid w (start_signals s6))))"
      by (rule lc_drop_then_tail) simp
    with False nofault show ?thesis unfolding go_live_def by (simp add: daemonize_background)
  qed
qed


lemma go_live_Inr:
  assumes "go_live w s = Inr t"
  shows "lc_proj (trace t) = lc_proj (trace s) @ (if run_foreground s then [] else [Sys_fork]) @
           [Sys_setgid (gid s), Sys_chroot (dir s), Sys_setuid (uid s), Sys_start_sig ARGV0,
            Sys_create_pid ARGV0 (w_pid w)] \<and>
         cur_uid t = uid s \<and> cur_gid t = gid s \<and> root_dir t = dir s \<and>
         handlers t = handlers s ++ sig_table \<and> pid_files t = (pid_files s)(ARGV0 \<mapsto> w_pid w) \<and>
         ARGV0 \<notin> dom (pid_files s) \<and> detached t = (detached s \<or> \<not> run_foreground s)"
proof -
  from assms obtain s5 s6 where d: "daemonize w s = Inr s5" and p: "drop_privileges w s5 = Inr s6"
    and r: "register_pid w (start_signals s6) = Inr t"
    by (auto simp: go_live_def bindE_eq_Inr_iff)
  have s5: "s5 = (if run_foreground s then s
                  else s\<lparr>daemon_flag := True, trace := trace s @ [Sys_fork], detached := True\<rparr>)"
    using d by (cases "run_foreground s") (auto simp: daemonize_foreground daemonize_background
      split: if_splits)
  have ok5: "setgid_ok w s5 (gid s5)" "chroot_ok w s5 (dir s5)" "setuid_ok w s5 (uid s5)"
    using drop_privileges_Inr_ok [OF p] by simp_all
  then have s6: "s6 = s5\<lparr>trace := trace s5 @ [Sys_setgid (gid s5), Sys_chroot (dir s5),
      Sys_setuid (uid s5), Sys_log L_debug1 (PRIVSEP_MSG (dir s5) (user s5))],
      cur_gid := gid s5, root_dir := dir s5, chroot_flag := True, cur_uid := uid s5\<rparr>"
    using p by (simp add: drop_privileges_succeeds)
  have okp: "pid_ok w (start_signals s6)"
    using r by (cases "pid_ok w (start_signals s6)") (simp_all add: register_pid_fails)
  with r have t: "t = (start_signals s6)\<lparr>trace := trace (start_signals s6) @
      [Sys_create_pid ARGV0 (w_pid w), Sys_log L_info (STARTUP_MSG (w_pid w))],
      pid_files := (pid_files (start_signals s6))(ARGV0 \<mapsto> w_pid w)\<rparr>"
    by (simp add: register_pid_succeeds)
  show ?thesis
    using s5 s6 t okp
    by (cases "run_foreground s") (simp_all add: pid_ok_def start_signals_def StartSIG_def emit_def)
qed

text \<open>Every outcome of \<open>main\<close> is a run of the lifecycle machine.\<close>

lemma monitord_lc_run:
  assumes "lc_proj (trace p) = []"
  shows "lc_run Configured (lc_proj (trace (outcome_state (monitord_main w p opts))))
           (outcome_phase (monitord_main w p opts))"
proof (cases "parse_args opts (init_frame p)")
  case (Inl e)
  then obtain r t where e: "e = (r, t)" by fastforce
  have "lc_proj (trace t) = [Sys_exit (exit_code r)]"
    using silentD(2) [OF silent_parse_args Inl [unfolded e]] assms by simp
  with Inl e show ?thesis by (simp add: main_parse_Inl lc_run_exit_only)
next
  case (Inr s)
  have s: "lc_proj (trace s) = []" using silentD(1) [OF silent_parse_args Inr] assms by simp
  show ?thesis
  proof (cases "configure w s")
    case (Inl e)
    then obtain r t where e: "e = (r, t)" by fastforce
    have "lc_proj (trace t) = [Sys_exit (exit_code r)]"
      using silentD(2) [OF silent_configure Inl [unfolded e]] s by simp
    with Inr Inl e show ?thesis
      by (simp add: main_parse_Inr bootstrap_def lc_run_exit_only)
  next
    case (Inr s4)
    have s4: "lc_proj (trace s4) = []" using silentD(1) [OF silent_configure Inr] s by simp
    show ?thesis
    proof (cases "test_config s4")
      case True
      with \<open>parse_args opts (init_frame p) = Inr s\<close> Inr s4 show ?thesis
        by (simp add: main_parse_Inr bootstrap_def exit_with_def lc_run_exit_only)
    next
      case False
      with \<open>parse_args opts (init_frame p) = Inr s\<close> Inr go_live_lc [OF s4, of w] show ?thesis
        by (simp add: main_parse_Inr bootstrap_def)
    qed
  qed
qed

subsection \<open>The settings handed to the work loop\<close>

lemma configure_mond:
  assumes "configure w s = Inr t"
  shows "a_queue (mond t) = a_queue (mond s) \<and>
     day_wait (mond t) = word_of_int (define_val w ''day_wait'') \<and>
     compress (mond t) = word_of_int (define_val w ''compress'') \<and>
     sign (mond t) = word_of_int (define_val w ''sign'') \<and>
     monitor_agents (mond t) = (if no_agents s then 0 else word_of_int (define_val w ''monitor_agents'')) \<and>
     keep_log_days (mond t) = word_of_int (define_val w ''keep_log_days'') \<and>
     agents (mond t) = None \<and> w_reports w (cfg s) = Some (reports (mond t))"
proof -
  from assms obtain s1 s2 s3 where r1: "resolve_identity w (mdebug1 STARTED_MSG s) = Inr s1"
    and r2: "load_settings w s1 = Inr s2" and r3: "read_reports_config w s2 = Inr s3"
    and r4: "email_alert w s3 = Inr t"
    by (rule configure_InrE)
  from r1 have m1: "mond s1 = mond s \<and> args_view s1 = args_view s"
    by (simp add: resolve_identity_Inr_iff mdebug1_def emit_def args_view_def)
  from r2 have m2: "mond s2 = (mond s1)\<lparr>day_wait := word_of_int (define_val w ''day_wait''),
      compress := word_of_int (define_val w ''compress''), sign := word_of_int (define_val w ''sign''),
      monitor_agents := (if no_agents s1 then 0 else word_of_int (define_val w ''monitor_agents'')),
      keep_log_days := word_of_int (define_val w ''keep_log_days''),
      agents := None, smtpserver := None, emailfrom := None, emailidsname := None\<rparr> \<and> cfg s2 = cfg s1"
    by (auto simp: load_settings_def bindE_eq_Inr_iff define_step_Inr_iff split: if_splits)
  from r3 obtain r where m3: "w_reports w (cfg s2) = Some r \<and> mond s3 = (mond s2)\<lparr>reports := r\<rparr>"
    by (auto simp: read_reports_config_def ReadConfig_def Let_def emit_def exit_with_def
        split: option.splits if_splits)
  from m1 have "no_agents s1 = no_agents s" "cfg s1 = cfg s" by (simp_all add: args_view_def)
  moreover obtain a b c where "mond t = (mond s3)\<lparr>smtpserver := a, emailfrom := b, emailidsname := c\<rparr>"
    using email_alert_mond_other [OF r4] by blast
  ultimately show ?thesis using m1 m2 m3 by simp
qed

subsection \<open>The heap across the bootstrap\<close>

lemma configure_heap_ok:
  assumes wf: "heap_wf s" and run: "configure w s = Inr t"
  shows "heap_ok t"
proof -
  from run obtain s1 s2 s3 where r1: "resolve_identity w (mdebug1 STARTED_MSG s) = Inr s1"
    and r2: "load_settings w s1 = Inr s2" and r3: "read_reports_config w s2 = Inr s3"
    and r4: "email_alert w s3 = Inr t"
    by (rule configure_InrE)
  from r1 have m1: "heap s1 = heap s \<and> next_ptr s1 = next_ptr s"
    by (simp add: resolve_identity_Inr_iff mdebug1_def emit_def)
  from r2 have m2: "heap s2 = heap s1 \<and> next_ptr s2 = next_ptr s1 \<and> mond_ptrs (mond s2) = {}"
    by (auto simp: load_settings_def bindE_eq_Inr_iff define_step_Inr_iff mond_ptrs_def split: if_splits)
  from r3 have m3: "heap s3 = heap s2 \<and> next_ptr s3 = next_ptr s2 \<and> mond_ptrs (mond s3) = mond_ptrs (mond s2)"
    by (auto simp: read_reports_config_def ReadConfig_def Let_def emit_def mond_ptrs_def
        split: option.splits if_splits)
  have ok3: "heap_ok s3" using wf m1 m2 m3 by (simp add: heap_ok_def heap_wf_def)
  have "heap_wf t" using heap_wf_email_alert [OF _ r4] ok3 by (simp add: heap_ok_def)
  with email_alert_mond_ptrs [OF ok3 r4] show ?thesis by (simp add: heap_ok_def)
qed

lemma go_live_mem:
  "go_live w s = Inr t \<Longrightarrow> heap t = heap s \<and> next_ptr t = next_ptr s \<and> mond t = mond s"
  by (auto simp: go_live_def bindE_eq_Inr_iff daemonize_def goDaemon_def nowDaemon_def
      drop_privileges_def Privsep_SetGroup_def Privsep_Chroot_def Privsep_SetUser_def nowChroot_def
      register_pid_def CreatePID_def start_signals_def StartSIG_def minfo_def mdebug1_def emit_def
      exit_with_def Let_def split: if_splits prod.splits)

text \<open>Only a process running as root gets through privilege separation: the chroot
  of line 195 needs it, and nothing before it changes the user.\<close>

lemma go_live_needs_root: "go_live w s = Inr t \<Longrightarrow> cur_uid s = 0"
proof -
  assume "go_live w s = Inr t"
  then obtain s5 s6 where d: "daemonize w s = Inr s5" and p: "drop_privileges w s5 = Inr s6"
    by (auto simp: go_live_def bindE_eq_Inr_iff)
  have "cur_uid s5 = cur_uid s"
    using d by (cases "run_foreground s") (auto simp: daemonize_foreground daemonize_background
      split: if_splits)
  with drop_privileges_Inr_ok [OF p] show ?thesis by (simp add: chroot_ok_def)
qed

subsection \<open>Progress\<close>

text \<open>The stages compose: each falls through when its own preconditions hold, and the
  preconditions of the later stages survive the earlier ones.\<close>

lemma configure_progress:
  assumes "id_valid (w_users w (user s))" and "id_valid (w_groups w (group s))"
    and "list_all (define_entry_ok w) (required_defines s)"
    and "w_reports w (cfg s) = Some r" and "r \<Longrightarrow> w_xml w (cfg s) \<noteq> None"
  shows "\<exists>t. configure w s = Inr t"
proof -
  obtain s1 where r1: "resolve_identity w (mdebug1 STARTED_MSG s) = Inr s1"
    using resolve_identity_progress [of w "mdebug1 STARTED_MSG s"] assms(1,2)
    by (auto simp: mdebug1_def emit_def)
  have a1: "args_view s1 = args_view s"
    using resolve_identity_setup [OF r1] by (simp add: mdebug1_def emit_def args_view_def)
  then have "required_defines s1 = required_defines s"
    by (simp add: required_defines_def args_view_def)
  then obtain s2 where r2: "load_settings w s1 = Inr s2"
    using load_settings_progress assms(3) by metis
  have "cfg s2 = cfg s"
    using load_settings_setup [OF r2] a1 by (simp add: same_setup_def setup_of_def args_view_def)
  then obtain s3 where r3: "read_reports_config w s2 = Inr s3" and rep: "reports (mond s3) = r"
    using read_reports_config_progress assms(4) by metis
  have "cfg s3 = cfg s"
    using read_reports_config_setup [OF r3] \<open>cfg s2 = cfg s\<close>
    by (simp add: same_setup_def setup_of_def args_view_def)
  then obtain t where "email_alert w s3 = Inr t"
    using email_alert_progress [of s3 w] assms(5) rep by auto
  with r1 r2 r3 show ?thesis by (auto simp: configure_def)
qed

lemma go_live_progress:
  assumes "cur_uid s = 0" and "dir s \<in> w_dirs w" and "\<forall>e. \<not> w_fault w e"
    and "ARGV0 \<notin> dom (pid_files s)"
  shows "\<exists>t. go_live w s = Inr t"
proof -
  obtain s5 where d: "daemonize w s = Inr s5" and s5: "cur_uid s5 = 0" "dir s5 = dir s"
      "pid_files s5 = pid_files s"
    using assms(1,3) by (cases "run_foreground s") (auto simp: daemonize_foreground daemonize_background)
  have "setgid_ok w s5 (gid s5)" "chroot_ok w s5 (dir s5)" "setuid_ok w s5 (uid s5)"
    using s5 assms(2,3) by (simp_all add: setgid_ok_def chroot_ok_def setuid_ok_def)
  then obtain s6 where p: "drop_privileges w s5 = Inr s6" and "pid_files s6 = pid_files s"
    using s5 by (simp add: drop_privileges_succeeds)
  then have "pid_ok w (start_signals s6)"
    using assms(3,4) by (simp add: pid_ok_def start_signals_def StartSIG_def emit_def)
  then show ?thesis using d p by (simp add: go_live_def register_pid_succeeds)
qed

end
