(* ===== verification/Spec2Isabelle.thy ===== *)
theory Spec2Isabelle
  imports Orchestrator
begin

text \<open>
  \<^bold>\<open>Bootstrap of the monitoring daemon \<open>ossec-monitord\<close>.\<close>
  The program is \<open>main\<close> of \<open>src/src/monitord/main.c\<close> (lines 40--222): it
  parses its options, resolves the run-as user and group, loads five internal
  settings and the reports section, validates the optional email alerting, and then,
  unless only testing the configuration (\<open>-t\<close>, exit code 0), daemonizes, drops its
  privileges in the order group, chroot, user, installs its signal handlers, writes
  its PID marker and enters the work loop \<open>Monitord()\<close>.  Every fatal error ends the
  process through \<open>merror_exit\<close> with exit code 1; \<open>-h\<close>, \<open>-V\<close> and usage errors
  end it with code 1 as well.

  \<^bold>\<open>Execution model.\<close>  A C statement of \<open>main\<close> is a function from the state to
  \<open>(exit_reason, state) exn\<close>: \<open>Inr s\<close> falls through to the next statement,
  \<open>Inl (r, s)\<close> is a call of \<open>exit\<close> with the code \<open>exit_code r\<close>, and \<open>bindE\<close> is
  the semicolon.  The state is the record \<open>frame\<close> (the locals of \<open>main\<close>) extending
  \<open>proc\<close> (the globals \<open>mond\<close>, \<open>dbg_flag\<close>, \<open>daemon_flag\<close>, \<open>chroot_flag\<close>, the
  process credentials, root directory, signal handlers, PID markers, a heap of
  C strings and the trace of system calls).  The environment is the read-only record
  \<open>world\<close>: user and group databases, the internal options, the parsed configuration
  and XML document, the resolver, the directories, the PID and a fault oracle
  \<open>w_fault\<close> telling which system calls fail for reasons outside the program.
  Integers keep their C width where main casts them: \<open>uid_t\<close>/\<open>gid_t\<close> are 32-bit
  words, the \<open>(unsigned short)\<close> and \<open>(short)\<close> casts are \<open>word_of_int\<close> into 16-bit
  words.

  \<^bold>\<open>Theories.\<close>
  \<^item> \<open>Prelude\<close>: \<open>exn\<close>, \<open>bindE\<close> and its laws, the frame predicate \<open>keeps\<close>, and the
    word facts for the C casts (a cast of a value in range is exact).
  \<^item> \<open>Process\<close>: \<open>world\<close>, \<open>proc\<close>, \<open>monitor_config\<close>, the log and exit helpers, the
    heap (\<open>os_strdup\<close>, \<open>os_free\<close>, \<open>heap_wf\<close>) and the library calls of \<open>main\<close>
    whose code is not under \<open>src/\<close>, modelled from their contract in the
    specification: \<open>Privsep_GetUser/GetGroup\<close> (sentinel -1), \<open>getDefine_Int\<close>,
    \<open>ReadConfig\<close>, \<open>OS_ReadXML\<close>, \<open>OS_GetOneContentforElement\<close>, \<open>OS_GetHost\<close>,
    \<open>OS_ClearXML\<close>, \<open>goDaemon\<close>, \<open>Privsep_SetGroup/Chroot/SetUser\<close> (POSIX rules:
    only root changes the root directory, a group change needs root (\<open>setgroups\<close>),
    a user change root or the same uid), \<open>StartSIG\<close> (the handler table
    \<open>sig_table\<close>) and \<open>CreatePID\<close> (fails on an existing marker).
  \<^item> \<open>Lifecycle\<close>: the abstract lifecycle of the specification as the step relation
    \<open>lc_step\<close> over the lifecycle calls, its runs \<open>lc_run\<close>, and the interface
    \<open>silent\<close> met by statements that make no lifecycle call.
  \<^item> \<open>Cli\<close>: \<open>frame\<close> and \<open>init_frame\<close> (lines 42--55), the switch \<open>parse_opt\<close> and
    the loop \<open>parse_args\<close> (lines 57--106), \<open>help_monitord\<close> (lines 20--38).
  \<^item> \<open>Getopt\<close>: the option string of line 57, \<open>getopt\<close> modelled from its POSIX/GNU
    contract (\<open>getopt_next\<close>, one call with the scanner's hidden position;
    \<open>getopt_go\<close>/\<open>getopt_all\<close>, the whole scan), and the C loop \<open>getopt_loop\<close> that
    interleaves the calls with the switch; its equivalence with \<open>parse_args\<close> over the
    scanned tokens, termination, a round trip, and the dead \<open>Missing_arg\<close> exits.
  \<^item> \<open>Identity\<close>: \<open>resolve_identity\<close> (lines 111--116).
  \<^item> \<open>Settings\<close>: \<open>define_step\<close>, \<open>load_settings\<close> (lines 118--128) and
    \<open>read_reports_config\<close> (lines 130--134).
  \<^item> \<open>Email_Alert\<close>: \<open>smtp_check\<close> and \<open>email_alert\<close> (lines 136--176), the contract
    \<open>email_decision\<close> of the specification and the refinement, heap and leak lemmas.
  \<^item> \<open>Privsep\<close>: \<open>daemonize\<close> (lines 183--187) and \<open>drop_privileges\<close> (lines
    189--206), its four outcomes, and the reversed order used only to show why the
    code's order is needed.
  \<^item> \<open>Guard\<close>: \<open>start_signals\<close> (lines 208--209) and \<open>register_pid\<close> (lines
    211--217).
  \<^item> \<open>Orchestrator\<close>: \<open>configure\<close> (lines 108--176), \<open>go_live\<close> (183--217),
    \<open>bootstrap\<close> (with the \<open>-t\<close> exit of lines 178--181), \<open>monitord_main\<close> over the
    tokens and \<open>main_argv\<close> over the command line, the lifecycle calls of each part and
    the heap invariant across them.
  \<^item> this theory: the properties of the whole program.

  \<^bold>\<open>Results.\<close>  \<open>main\<close> refines the lifecycle machine on every input
  (\<open>monitord_refines_lifecycle\<close>), so that, by \<open>lc_run_trace\<close>, it moves
  the machine through strictly increasing phases; in an environment where every step can succeed it
  reaches the work loop (\<open>monitord_progress\<close>, the liveness half); a run that reaches the work loop made exactly
  the calls fork (unless \<open>-f\<close>), setgid, chroot, setuid, signal set-up, PID marker
  and runs confined as the resolved identity (\<open>monitord_running\<close>); an invalid
  identity, a usage error, a missing option argument and a failed fork end the process
  before any privilege change with code 1; with \<open>-t\<close> it exits with code 0 exactly
  when the configuration stages succeed (\<open>test_mode_validates\<close>); a second instance
  and a process not started as root cannot reach the work loop; when the work loop
  starts, the settings it receives are exactly the loaded ones
  (\<open>work_loop_settings\<close>), the heap is well formed and no pointer of \<open>mond\<close> dangles
  (\<open>monitord_heap_ok\<close>).  The statements that make no lifecycle call are \<open>silent\<close>,
  and the configuration stages exit only with code 1 (\<open>fatal_exits\<close>); these two
  interfaces carry the end-to-end proofs.  The component
  theories prove the behaviour of every branch of their statements, the bounds of the
  loaded settings, the refinement of the email contract, and the defects found: the
  SMTP host string leaks, the display name is kept when alerting is disabled, the
  confinement flag is set before \<open>setuid\<close>, a real id 0xFFFFFFFF is rejected, and the
  four \<open>"needs an argument"\<close> exits are dead code under \<open>getopt\<close>.
  The witnesses run the whole program on the reference installation \<open>ex_world\<close>
  by simplification.

  \<^bold>\<open>Not modelled.\<close>  The diagnostics \<open>getopt\<close> prints, the text
  printed by \<open>help_monitord\<close> and \<open>print_version\<close> (whose exit code the
  specification leaves open; 1 is taken), the debug-level filtering of log lines, the
  work loop \<open>Monitord()\<close>, and the internals of the configuration and XML parsers
  (their answers are part of \<open>world\<close>).  The logging calls (\<open>mdebug1\<close>, \<open>minfo\<close>,
  \<open>merror\<close>) are trace events carrying their message; whether a debug line is printed
  at the current debug level is decided in the shared logging library, which is neither
  under \<open>src/\<close> nor described by the specification, so it is not modelled.

  \<^bold>\<open>Fuel.\<close>  The only loop of the bootstrap is the option loop.  Over the scanned
  tokens it is structural recursion (\<open>parse_args\<close>); the C form \<open>getopt_loop\<close> runs
  on fuel, and \<open>getopt_loop_terminates\<close> shows that one more unit than the characters
  and words left on the command line (\<open>scan_size\<close>) always suffices, since each
  \<open>getopt\<close> call consumes at least one of them.
\<close>


subsection \<open>Refinement of the lifecycle\<close>

text \<open>C1 Every run of \<open>main\<close> is a run of the abstract lifecycle: the
  lifecycle calls it makes (fork, setgid, chroot, setuid, signal set-up, PID marker,
  exit) are accepted by the machine of the specification from \<open>Configured\<close>, and it
  stops in the phase its outcome names (\<open>Registered\<close> when the work loop is entered,
  \<open>Exited c\<close> when the process ends with code \<open>c\<close>).\<close>

theorem monitord_refines_lifecycle:
  assumes "lc_proj (trace p) = []"
  shows "lc_run Configured (lc_proj (trace (outcome_state (monitord_main w p opts))))
           (outcome_phase (monitord_main w p opts))"
  by (rule monitord_lc_run [OF assms])

theorem monitord_refines_lifecycle_witness:
  "lc_run Configured (lc_proj (trace (outcome_state (monitord_main ex_world proc_start []))))
     (outcome_phase (monitord_main ex_world proc_start []))"
  by (rule monitord_refines_lifecycle) (simp add: proc_start_def)

subsection \<open>End-to-end behaviour\<close>

lemma main_Inr_stages:
  assumes "monitord_main w p opts = Inr t"
  obtains s s4 where "parse_args opts (init_frame p) = Inr s" and "configure w s = Inr s4"
    and "\<not> test_config s4" and "go_live w s4 = Inr t"
  using assms
  by (auto simp: monitord_main_def bootstrap_def bindE_eq_Inr_iff split: if_splits)

lemma main_Inr_marker:
  assumes "monitord_main w p opts = Inr t"
  shows "ARGV0 \<notin> dom (pid_files p) \<and> pid_files t ARGV0 = Some (w_pid w)"
proof -
  obtain s s4 where ps: "parse_args opts (init_frame p) = Inr s" and cs: "configure w s = Inr s4"
    and gl: "go_live w s4 = Inr t"
    using assms by (rule main_Inr_stages)
  have "os_view s4 = os_view p"
    using configure_Inr [OF cs] parse_args_os_view [OF ps] by (simp add: os_view_def)
  then have "pid_files s4 = pid_files p" by (simp add: os_view_def)
  with go_live_Inr [OF gl] show ?thesis by simp
qed

lemma sig_table_handlers [simp]:
  "(h ++ sig_table) SIGTERM = Some Sig_terminate" "(h ++ sig_table) SIGINT = Some Sig_terminate"
  "(h ++ sig_table) SIGHUP = Some Sig_reload"
  by (simp_all add: sig_table_def)

text \<open>C2 When \<open>main\<close> reaches the work loop, test mode was off, and its
  lifecycle calls were exactly: a fork unless \<open>-f\<close>, then setgid to the resolved group,
  chroot into the directory, setuid to the resolved user, signal set-up, and the PID
  marker; the process then runs as that user and group inside the directory, with the
  termination and reload handlers installed and its marker registered.\<close>

theorem monitord_running:
  assumes "monitord_main w p opts = Inr t"
  shows "\<exists>s. parse_args opts (init_frame p) = Inr s \<and> \<not> test_config s \<and>
     lc_proj (trace t) = lc_proj (trace p) @ (if run_foreground s then [] else [Sys_fork]) @
       [Sys_setgid (the (w_groups w (frame.group s))), Sys_chroot (dir s),
        Sys_setuid (the (w_users w (user s))), Sys_start_sig ARGV0, Sys_create_pid ARGV0 (w_pid w)] \<and>
     cur_uid t = the (w_users w (user s)) \<and> cur_gid t = the (w_groups w (frame.group s)) \<and>
     root_dir t = dir s \<and> handlers t SIGTERM = Some Sig_terminate \<and>
     handlers t SIGHUP = Some Sig_reload \<and> pid_files t ARGV0 = Some (w_pid w)"
proof -
  obtain s s4 where ps: "parse_args opts (init_frame p) = Inr s" and cs: "configure w s = Inr s4"
    and nt: "\<not> test_config s4" and gl: "go_live w s4 = Inr t"
    using assms by (rule main_Inr_stages)
  have ptr: "lc_proj (trace s) = lc_proj (trace p)"
    using silentD(1) [OF silent_parse_args ps] by simp
  from configure_Inr [OF cs] have c: "args_view s4 = args_view s" "uid s4 = the (w_users w (user s))"
    "gid s4 = the (w_groups w (frame.group s))" "lc_proj (trace s4) = lc_proj (trace s)"
    by simp_all
  then have "test_config s4 = test_config s" "run_foreground s4 = run_foreground s" "dir s4 = dir s"
    by (simp_all add: args_view_def)
  with go_live_Inr [OF gl] c ptr nt ps show ?thesis by auto
qed

lemma ex_main_runs: "\<exists>t. monitord_main ex_world proc_start [] = Inr t"
  by (simp add: boot_defs Let_def split: prod.split)

theorem monitord_running_witness:
  "\<exists>t s. monitord_main ex_world proc_start [] = Inr t \<and>
     parse_args [] (init_frame proc_start) = Inr s \<and> \<not> test_config s \<and>
     lc_proj (trace t) = lc_proj (trace proc_start) @ (if run_foreground s then [] else [Sys_fork]) @
       [Sys_setgid (the (w_groups ex_world (frame.group s))), Sys_chroot (dir s),
        Sys_setuid (the (w_users ex_world (user s))), Sys_start_sig ARGV0,
        Sys_create_pid ARGV0 (w_pid ex_world)] \<and>
     cur_uid t = the (w_users ex_world (user s)) \<and> cur_gid t = the (w_groups ex_world (frame.group s)) \<and>
     root_dir t = dir s \<and> handlers t SIGTERM = Some Sig_terminate \<and>
     handlers t SIGHUP = Some Sig_reload \<and> pid_files t ARGV0 = Some (w_pid ex_world)"
proof -
  obtain t where run: "monitord_main ex_world proc_start [] = Inr t" using ex_main_runs ..
  from monitord_running [OF run] run show ?thesis by blast
qed

text \<open>C6 An unknown or invalid user or group ends the process with exit
  code 1 right after the lookups: no lifecycle call but the exit, and the credentials,
  root directory, handlers and PID markers of the process are untouched.\<close>

theorem invalid_identity_no_privilege_change:
  assumes "parse_args opts (init_frame p) = Inr s"
    and "\<not> (id_valid (w_users w (user s)) \<and> id_valid (w_groups w (frame.group s)))"
  shows "\<exists>t. monitord_main w p opts = Inl (Fatal (User_error (user s) (frame.group s)), t) \<and>
           lc_proj (trace t) = lc_proj (trace p) @ [Sys_exit 1] \<and> os_view t = os_view p"
proof -
  let ?s = "mdebug1 STARTED_MSG s"
  obtain t where ri: "resolve_identity w ?s = Inl (Fatal (User_error (user s) (frame.group s)), t)"
    using resolve_identity_Inl_iff [of w ?s "Fatal (User_error (user s) (frame.group s))"] assms(2)
    by (auto simp: mdebug1_def emit_def)
  have tr: "trace t = trace s @ [Sys_log L_debug1 STARTED_MSG, Sys_getpwnam (user s),
                                 Sys_getgrnam (frame.group s), Sys_exit 1]"
    using resolve_identity_Inl [OF ri] by (simp add: mdebug1_def emit_def)
  have ov: "os_view t = os_view s"
    using ri by (auto simp: resolve_identity_def Privsep_GetUser_def Privsep_GetGroup_def Let_def
        exit_with_def emit_def mdebug1_def os_view_def split: if_splits)
  have "lc_proj (trace s) = lc_proj (trace p)"
    using silentD(1) [OF silent_parse_args assms(1)] by simp
  moreover have "os_view s = os_view p"
    using parse_args_os_view [OF assms(1)] by (simp add: os_view_def)
  ultimately show ?thesis
    using ri tr ov assms(1) by (simp add: main_parse_Inr bootstrap_def configure_def)
qed

theorem invalid_identity_no_privilege_change_witness:
  "\<exists>t. monitord_main (ex_world\<lparr>w_users := Map.empty\<rparr>) proc_start [] =
          Inl (Fatal (User_error USER GROUPGLOBAL), t) \<and>
     lc_proj (trace t) = lc_proj (trace proc_start) @ [Sys_exit 1] \<and> os_view t = os_view proc_start"
proof -
  have ps: "parse_args [] (init_frame proc_start) = Inr (init_frame proc_start)" by simp
  have "\<not> (id_valid (w_users (ex_world\<lparr>w_users := Map.empty\<rparr>) (user (init_frame proc_start))) \<and>
          id_valid (w_groups (ex_world\<lparr>w_users := Map.empty\<rparr>) (frame.group (init_frame proc_start))))"
    by (simp add: id_valid_def)
  from invalid_identity_no_privilege_change [OF ps this] show ?thesis by simp
qed


text \<open>C8 With \<open>-t\<close> and a configuration that loads, \<open>main\<close> exits with code 0
  right after the configuration stages: no fork, no privilege change, no signal
  set-up and no PID marker, and the process credentials are untouched.\<close>

theorem test_mode_exit:
  assumes "parse_args opts (init_frame p) = Inr s" and "test_config s" and "configure w s = Inr s4"
  shows "monitord_main w p opts = Inl (Test_ok, emit (Sys_exit 0) s4) \<and> exit_code Test_ok = 0 \<and>
         lc_proj (trace (emit (Sys_exit 0) s4)) = lc_proj (trace p) @ [Sys_exit 0] \<and>
         os_view s4 = os_view p"
proof -
  from configure_Inr [OF assms(3)] have "args_view s4 = args_view s" "os_view s4 = os_view s"
    "lc_proj (trace s4) = lc_proj (trace s)" by simp_all
  moreover have "lc_proj (trace s) = lc_proj (trace p)"
    using silentD(1) [OF silent_parse_args assms(1)] by simp
  moreover have "os_view s = os_view p"
    using parse_args_os_view [OF assms(1)] by (simp add: os_view_def)
  ultimately show ?thesis
    using assms by (simp add: main_parse_Inr bootstrap_def args_view_def exit_with_def)
qed

lemma ex_configure_test:
  "\<exists>s4. configure ex_world ((init_frame proc_start)\<lparr>test_config := True\<rparr>) = Inr s4"
  by (simp add: boot_defs Let_def split: prod.split)

theorem test_mode_exit_witness:
  "\<exists>s4. monitord_main ex_world proc_start [(CHR ''t'', None)] = Inl (Test_ok, emit (Sys_exit 0) s4) \<and>
     exit_code Test_ok = 0 \<and>
     lc_proj (trace (emit (Sys_exit 0) s4)) = lc_proj (trace proc_start) @ [Sys_exit 0] \<and>
     os_view s4 = os_view proc_start"
proof -
  obtain s4 where cs: "configure ex_world ((init_frame proc_start)\<lparr>test_config := True\<rparr>) = Inr s4"
    using ex_configure_test ..
  have ps: "parse_args [(CHR ''t'', None)] (init_frame proc_start) =
            Inr ((init_frame proc_start)\<lparr>test_config := True\<rparr>)"
    by (simp add: parse_opt_def)
  from test_mode_exit [OF ps _ cs] show ?thesis by auto
qed

text \<open>C9 With \<open>-t\<close>, \<open>main\<close> always ends before the lifecycle, and it
  ends with code 0 exactly when the configuration stages (identity, internal options,
  reports section, email alerting) all succeed: \<open>-t\<close> is a faithful configuration check.\<close>

theorem test_mode_validates:
  assumes "parse_args opts (init_frame p) = Inr s" and "test_config s"
  shows "\<exists>r t. monitord_main w p opts = Inl (r, t) \<and> (exit_code r = 0 \<longleftrightarrow> (\<exists>s4. configure w s = Inr s4))"
proof (cases "configure w s")
  case (Inl e)
  then obtain r t where e: "configure w s = Inl (r, t)" by (cases e) auto
  then have "exit_code r = 1" by (rule fatal_exitsD [OF fatal_configure])
  with e assms(1) show ?thesis by (simp add: main_parse_Inr bootstrap_def)
next
  case (Inr s4)
  then have "test_config s4 = test_config s"
    using configure_Inr [OF Inr] by (simp add: args_view_def)
  with Inr assms show ?thesis by (simp add: main_parse_Inr bootstrap_def exit_with_def)
qed

theorem test_mode_validates_witness:
  "\<exists>r t. monitord_main (ex_world\<lparr>w_users := Map.empty\<rparr>) proc_start [(CHR ''t'', None)] = Inl (r, t) \<and>
     (exit_code r = 0 \<longleftrightarrow>
       (\<exists>s4. configure (ex_world\<lparr>w_users := Map.empty\<rparr>) ((init_frame proc_start)\<lparr>test_config := True\<rparr>) = Inr s4))"
proof -
  have ps: "parse_args [(CHR ''t'', None)] (init_frame proc_start) =
            Inr ((init_frame proc_start)\<lparr>test_config := True\<rparr>)"
    by (simp add: parse_opt_def)
  from test_mode_validates [OF ps] show ?thesis by simp
qed

text \<open>C10 Once an instance has entered the work loop, its PID marker
  stops every later bootstrap that starts with it, under any options and environment,
  from reaching the work loop.\<close>

theorem second_instance_never_runs:
  assumes "monitord_main w p opts = Inr t"
  shows "\<not> (\<exists>t'. monitord_main w' (p'\<lparr>pid_files := pid_files t\<rparr>) opts' = Inr t')"
proof
  assume "\<exists>t'. monitord_main w' (p'\<lparr>pid_files := pid_files t\<rparr>) opts' = Inr t'"
  then obtain t' where "monitord_main w' (p'\<lparr>pid_files := pid_files t\<rparr>) opts' = Inr t'" ..
  from main_Inr_marker [OF this] main_Inr_marker [OF assms] show False by auto
qed

lemma ex_second_instance_pid_error:
  "\<exists>t. monitord_main ex_world (proc_start\<lparr>pid_files := [ARGV0 \<mapsto> 4242]\<rparr>) [] = Inl (Fatal Pid_error, t)"
  by (simp add: boot_defs Let_def split: prod.split)

theorem second_instance_never_runs_witness:
  "\<exists>t. monitord_main ex_world proc_start [] = Inr t \<and>
     \<not> (\<exists>t'. monitord_main ex_world (proc_start\<lparr>pid_files := pid_files t\<rparr>) [] = Inr t')"
proof -
  obtain t where run: "monitord_main ex_world proc_start [] = Inr t" using ex_main_runs ..
  from second_instance_never_runs [OF run] run show ?thesis by blast
qed

text \<open>C13 When \<open>main\<close> reaches the work loop from a process with a
  well-formed heap, the heap is still well formed and every string pointer held in
  \<open>mond\<close> (agents, SMTP server, sender, display name) refers to a live block: the
  bootstrap leaves no dangling pointer for \<open>Monitord()\<close>.\<close>

theorem monitord_heap_ok:
  assumes "heap_wf p" and "monitord_main w p opts = Inr t"
  shows "heap_ok t"
proof -
  obtain s s4 where ps: "parse_args opts (init_frame p) = Inr s" and cs: "configure w s = Inr s4"
    and gl: "go_live w s4 = Inr t"
    using assms(2) by (rule main_Inr_stages)
  have "heap_wf s" using parse_args_mem [OF ps] assms(1) by (simp add: heap_wf_def)
  then have "heap_ok s4" by (rule configure_heap_ok [OF _ cs])
  then show ?thesis using go_live_mem [OF gl] by (simp add: heap_ok_def heap_wf_def)
qed

theorem monitord_heap_ok_witness: "\<exists>t. monitord_main ex_world proc_start [] = Inr t \<and> heap_ok t"
proof -
  obtain t where run: "monitord_main ex_world proc_start [] = Inr t" using ex_main_runs ..
  have "heap_wf proc_start" by (simp add: heap_wf_def proc_start_def)
  from monitord_heap_ok [OF this run] run show ?thesis by blast
qed

text \<open>C14 The settings the work loop receives are exactly those the
  bootstrap loaded: the five internal options as cast by lines 119--127 (agent
  monitoring 0 under \<open>-n\<close>), the reports flag of the configuration, \<open>a_queue\<close> 0 and no
  agents list; no stage after the configuration changes them.\<close>

theorem work_loop_settings:
  assumes "monitord_main w p opts = Inr t"
  shows "\<exists>s. parse_args opts (init_frame p) = Inr s \<and> a_queue (mond t) = 0 \<and>
     day_wait (mond t) = word_of_int (define_val w ''day_wait'') \<and>
     compress (mond t) = word_of_int (define_val w ''compress'') \<and>
     sign (mond t) = word_of_int (define_val w ''sign'') \<and>
     monitor_agents (mond t) = (if no_agents s then 0 else word_of_int (define_val w ''monitor_agents'')) \<and>
     keep_log_days (mond t) = word_of_int (define_val w ''keep_log_days'') \<and>
     agents (mond t) = None \<and> w_reports w (cfg s) = Some (reports (mond t))"
proof -
  obtain s s4 where ps: "parse_args opts (init_frame p) = Inr s" and cs: "configure w s = Inr s4"
    and gl: "go_live w s4 = Inr t"
    using assms by (rule main_Inr_stages)
  have "a_queue (mond s) = 0" using parse_args_mem [OF ps] by simp
  with ps configure_mond [OF cs] go_live_mem [OF gl] show ?thesis by auto
qed

theorem work_loop_settings_witness:
  "\<exists>t s. monitord_main ex_world proc_start [] = Inr t \<and> parse_args [] (init_frame proc_start) = Inr s \<and>
     a_queue (mond t) = 0 \<and> day_wait (mond t) = 7 \<and> compress (mond t) = 1 \<and> sign (mond t) = 1 \<and>
     monitor_agents (mond t) = (if no_agents s then 0 else 1) \<and> keep_log_days (mond t) = 1 \<and>
     agents (mond t) = None \<and> w_reports ex_world (cfg s) = Some (reports (mond t))"
proof -
  obtain t where run: "monitord_main ex_world proc_start [] = Inr t" using ex_main_runs ..
  have "define_val ex_world ''day_wait'' = 7" "define_val ex_world ''compress'' = 1"
    "define_val ex_world ''sign'' = 1" "define_val ex_world ''monitor_agents'' = 1"
    "define_val ex_world ''keep_log_days'' = 1"
    by (simp_all add: define_val_def ex_world_def)
  with work_loop_settings [OF run] run show ?thesis by auto
qed

text \<open>C12 When the fork of \<open>goDaemon\<close> fails (no \<open>-f\<close>, no \<open>-t\<close>), the process
  ends with code 1 right after the fork attempt: no privilege call, no signal set-up,
  no PID marker, and its credentials, root directory, handlers and markers untouched.\<close>

theorem fork_failure_exits:
  assumes "parse_args opts (init_frame p) = Inr s" and "configure w s = Inr s4"
    and "\<not> test_config s" and "\<not> run_foreground s" and "w_fault w Sys_fork"
  shows "\<exists>t. monitord_main w p opts = Inl (Fatal Daemon_error, t) \<and>
           lc_proj (trace t) = lc_proj (trace p) @ [Sys_fork, Sys_exit 1] \<and> os_view t = os_view p"
proof -
  from configure_Inr [OF assms(2)] have c: "args_view s4 = args_view s" "os_view s4 = os_view s"
    "lc_proj (trace s4) = lc_proj (trace s)" by simp_all
  then have f: "test_config s4 = test_config s" "run_foreground s4 = run_foreground s"
    by (simp_all add: args_view_def)
  have "lc_proj (trace s) = lc_proj (trace p)"
    using silentD(1) [OF silent_parse_args assms(1)] by simp
  moreover have "os_view s = os_view p"
    using parse_args_os_view [OF assms(1)] by (simp add: os_view_def)
  ultimately show ?thesis
    using assms c f
    by (simp add: main_parse_Inr bootstrap_def go_live_def daemonize_background os_view_def)
qed

lemma ex_configure_fork_fault:
  "\<exists>s4. configure (ex_world\<lparr>w_fault := (\<lambda>e. e = Sys_fork)\<rparr>) (init_frame proc_start) = Inr s4"
  by (simp add: boot_defs Let_def split: prod.split)

theorem fork_failure_exits_witness:
  "\<exists>t. monitord_main (ex_world\<lparr>w_fault := (\<lambda>e. e = Sys_fork)\<rparr>) proc_start [] = Inl (Fatal Daemon_error, t) \<and>
     lc_proj (trace t) = lc_proj (trace proc_start) @ [Sys_fork, Sys_exit 1] \<and> os_view t = os_view proc_start"
proof -
  obtain s4 where cs: "configure (ex_world\<lparr>w_fault := (\<lambda>e. e = Sys_fork)\<rparr>) (init_frame proc_start) = Inr s4"
    using ex_configure_fork_fault ..
  have ps: "parse_args [] (init_frame proc_start) = Inr (init_frame proc_start)" by simp
  from fork_failure_exits [OF ps cs] show ?thesis by simp
qed

text \<open>C3 Progress: in an environment where every step can succeed, \<open>main\<close>
  reaches the work loop.  Started as root, with valid user and group, internal options
  in range, a configuration that loads (and a readable document when reports are
  configured), an existing chroot directory, no failing system call and no PID marker of
  its own, a run without \<open>-t\<close> enters \<open>Monitord()\<close>.\<close>

theorem monitord_progress:
  assumes "parse_args opts (init_frame p) = Inr s" and "\<not> test_config s"
    and "id_valid (w_users w (user s))" and "id_valid (w_groups w (frame.group s))"
    and "list_all (define_entry_ok w) (required_defines s)"
    and "w_reports w (cfg s) = Some r" and "r \<longrightarrow> w_xml w (cfg s) \<noteq> None"
    and "cur_uid p = 0" and "dir s \<in> w_dirs w" and "\<forall>e. \<not> w_fault w e"
    and "ARGV0 \<notin> dom (pid_files p)"
  shows "\<exists>t. monitord_main w p opts = Inr t"
proof -
  obtain s4 where cs: "configure w s = Inr s4"
    using configure_progress [OF assms(3-6)] assms(7) by blast
  have "os_view s4 = os_view p"
    using configure_Inr [OF cs] parse_args_os_view [OF assms(1)] by (simp add: os_view_def)
  moreover have "args_view s4 = args_view s" using configure_Inr [OF cs] by simp
  ultimately have "cur_uid s4 = 0" "dir s4 \<in> w_dirs w" "ARGV0 \<notin> dom (pid_files s4)"
    "\<not> test_config s4"
    using assms by (simp_all add: os_view_def args_view_def)
  then obtain t where "go_live w s4 = Inr t"
    using go_live_progress assms(10) by blast
  with cs assms(1) \<open>\<not> test_config s4\<close> show ?thesis
    by (simp add: main_parse_Inr bootstrap_def)
qed

theorem monitord_progress_witness: "\<exists>t. monitord_main ex_world proc_start [] = Inr t"
proof (rule monitord_progress)
  show "parse_args [] (init_frame proc_start) = Inr (init_frame proc_start)" by simp
qed (simp_all add: id_valid_def required_defines_def define_ok_def ex_world_def proc_start_def
       DEFAULTDIR_def)

text \<open>C30 A usage error (\<open>-h\<close>, \<open>-V\<close>, an unknown option, a missing
  argument) ends \<open>main\<close> in the option loop with exit code 1, before any lookup,
  configuration read or lifecycle call.\<close>

theorem usage_error_exits:
  assumes "parse_args opts (init_frame p) = Inl (r, t)"
  shows "monitord_main w p opts = Inl (r, t) \<and> exit_code r = 1 \<and>
         trace t = trace p @ [Sys_exit 1]"
proof -
  have c: "exit_code r = 1" by (rule parse_args_exit_code [OF assms])
  with parse_args_Inl_trace [OF assms] assms show ?thesis by (simp add: main_parse_Inl)
qed

theorem usage_error_exits_witness:
  "monitord_main ex_world proc_start [(CHR ''h'', None)] = Inl (Help, emit (Sys_exit 1) (init_frame proc_start)) \<and>
   exit_code Help = 1 \<and> trace (emit (Sys_exit 1) (init_frame proc_start)) = trace proc_start @ [Sys_exit 1]"
proof -
  have "parse_args [(CHR ''h'', None)] (init_frame proc_start) = Inl (Help, emit (Sys_exit 1) (init_frame proc_start))"
    by (simp add: parse_opt_def help_monitord_def exit_with_def)
  from usage_error_exits [OF this] show ?thesis .
qed

text \<open>C11 A process not started as root never reaches the work loop: whatever
  the options and the environment, the chroot of line 195 fails (or an earlier stage
  ends the process).\<close>

theorem non_root_never_runs:
  assumes "cur_uid p \<noteq> 0"
  shows "\<not> (\<exists>t. monitord_main w p opts = Inr t)"
proof
  assume "\<exists>t. monitord_main w p opts = Inr t"
  then obtain t where "monitord_main w p opts = Inr t" ..
  then obtain s s4 where ps: "parse_args opts (init_frame p) = Inr s" and cs: "configure w s = Inr s4"
    and gl: "go_live w s4 = Inr t"
    by (rule main_Inr_stages)
  have "cur_uid s4 = cur_uid p"
    using configure_Inr [OF cs] parse_args_os_view [OF ps] by (simp add: os_view_def)
  with go_live_needs_root [OF gl] assms show False by simp
qed

theorem non_root_never_runs_witness:
  "\<not> (\<exists>t. monitord_main ex_world (proc_start\<lparr>cur_uid := 1001\<rparr>) [] = Inr t)"
  by (rule non_root_never_runs) simp

text \<open>C31 An option that needs an argument given as the last word of the
  command line ends \<open>main\<close> through the usage message with exit code 1, before any
  lookup: \<open>getopt\<close> reports it as \<open>'?'\<close>, so the \<open>default\<close> branch runs and not
  the dedicated \<open>"-x needs an argument"\<close> exit.\<close>

theorem missing_argument_exits:
  assumes "list_all (tok_ok OPTSTRING) ts" and "list_all valid_tok ts" and "c \<in> set ''ugDc''"
  shows "\<exists>s. main_argv w p (render argv0 ts @ [[CHR ''-'', c]]) = Inl (Help, emit (Sys_exit 1) s) \<and>
             parse_args ts (init_frame p) = Inr s"
proof -
  have "getopt_go OPTSTRING [] [[CHR ''-'', c]] = [(CHR ''?'', None)]"
    using assms(3) by (auto simp: opt_char_OPTSTRING takes_arg_OPTSTRING)
  then have g: "getopt_all (render argv0 ts @ [[CHR ''-'', c]]) = ts @ [(CHR ''?'', None)]"
    by (simp add: getopt_all_render [OF assms(1)])
  obtain s where ps: "parse_args ts (init_frame p) = Inr s"
    using parse_args_Inr_iff assms(2) by blast
  have "parse_opt (CHR ''?'', None) s = Inl (Help, emit (Sys_exit 1) s)"
    by (simp add: parse_opt_def help_monitord_def exit_with_def)
  with g ps show ?thesis
    by (simp add: main_argv_def monitord_main_def parse_args_append)
qed

theorem missing_argument_exits_witness:
  "\<exists>s. main_argv ex_world proc_start (render ''ossec-monitord'' [(CHR ''f'', None)] @ [[CHR ''-'', CHR ''u'']]) =
        Inl (Help, emit (Sys_exit 1) s) \<and>
      parse_args [(CHR ''f'', None)] (init_frame proc_start) = Inr s"
  by (rule missing_argument_exits) (simp_all add: opt_char_def OPTSTRING_def valid_tok_def)

end
